theory Spec2Isabelle
  imports Complex_Main
begin

section \<open>Python values\<close>

subsection \<open>Strings\<close>

text \<open>
  A Python \<open>str\<close> is a sequence of Unicode code points, and \<open>len\<close>, slicing and
  \<open>in\<close> count code points. It is modelled as a list of code points. ASCII literals are
  written \<open>asc ''...''\<close>; a literal with other characters is given by its code points.
\<close>

type_synonym pystr = "nat list"

definition asc :: "string \<Rightarrow> pystr" where
  "asc s = map of_char s"

definition startswith :: "pystr \<Rightarrow> pystr \<Rightarrow> bool" where
  "startswith s p = (take (length p) s = p)"

text \<open>\<open>sub in s\<close>.\<close>

fun py_in :: "pystr \<Rightarrow> pystr \<Rightarrow> bool" where
  "py_in sub [] = (sub = [])"
| "py_in sub (c # cs) = (startswith (c # cs) sub \<or> py_in sub cs)"

text \<open>
  \<open>s.split(sep)\<close> for a non-empty \<open>sep\<close>: the text is cut at every occurrence of
  \<open>sep\<close>, scanning from the left. The second argument of \<open>split_from\<close> is the segment
  read so far.
\<close>

fun split_from :: "pystr \<Rightarrow> pystr \<Rightarrow> pystr \<Rightarrow> pystr list" where
  "split_from sep cur [] = [cur]"
| "split_from sep cur (c # cs) =
     (if startswith (c # cs) sep
      then cur # split_from sep [] (drop (length sep - 1) cs)
      else split_from sep (cur @ [c]) cs)"

definition py_split :: "pystr \<Rightarrow> pystr \<Rightarrow> pystr list" where
  "py_split s sep = split_from sep [] s"

text \<open>\<open>s.replace(old, new)\<close> for a non-empty \<open>old\<close>.\<close>

fun py_replace :: "pystr \<Rightarrow> pystr \<Rightarrow> pystr \<Rightarrow> pystr" where
  "py_replace old new [] = []"
| "py_replace old new (c # cs) =
     (if startswith (c # cs) old
      then new @ py_replace old new (drop (length old - 1) cs)
      else c # py_replace old new cs)"

text \<open>\<open>sep.join(xs)\<close>.\<close>

fun py_join :: "pystr \<Rightarrow> pystr list \<Rightarrow> pystr" where
  "py_join sep [] = []"
| "py_join sep [x] = x"
| "py_join sep (x # y # ys) = x @ sep @ py_join sep (y # ys)"

text \<open>\<open>str.isspace\<close> on one code point, and \<open>s.strip()\<close>.\<close>

definition isspace :: "nat \<Rightarrow> bool" where
  "isspace c = ((9 \<le> c \<and> c \<le> 13) \<or> (28 \<le> c \<and> c \<le> 32) \<or> c = 133 \<or> c = 160
     \<or> c = 5760 \<or> (8192 \<le> c \<and> c \<le> 8202) \<or> c = 8232 \<or> c = 8233 \<or> c = 8239
     \<or> c = 8287 \<or> c = 12288)"

definition py_strip :: "pystr \<Rightarrow> pystr" where
  "py_strip s = rev (dropWhile isspace (rev (dropWhile isspace s)))"

text \<open>\<open>str(n)\<close> for an integer.\<close>

fun str_nat :: "nat \<Rightarrow> pystr" where
  "str_nat n = (if n < 10 then [48 + n] else str_nat (n div 10) @ [48 + n mod 10])"

declare str_nat.simps [simp del]

definition str_int :: "int \<Rightarrow> pystr" where
  "str_int i = (if i < 0 then 45 # str_nat (nat (- i)) else str_nat (nat i))"

text \<open>An \<open>Optional[str]\<close> inside an f-string: \<open>None\<close> prints as the text None.\<close>

definition fmt_opt :: "pystr option \<Rightarrow> pystr" where
  "fmt_opt x = (case x of None \<Rightarrow> asc ''None'' | Some s \<Rightarrow> s)"

text \<open>Truthiness of an \<open>Optional[str]\<close>: neither \<open>None\<close> nor empty.\<close>

definition truthy :: "pystr option \<Rightarrow> bool" where
  "truthy x = (case x of None \<Rightarrow> False | Some s \<Rightarrow> s \<noteq> [])"

subsection \<open>Exceptions\<close>

text \<open>
  Every exception the workflow handles is caught by \<open>except Exception\<close> and used through
  \<open>str(e)\<close> only, so an exception is modelled by its message. A call that may raise
  returns \<open>exn + 'a\<close>, with \<open>Inl\<close> for the raised exception.
\<close>

datatype exn = Exception pystr

fun str_exn :: "exn \<Rightarrow> pystr" where
  "str_exn (Exception m) = m"

text \<open>
  The simplification of an error message used by \<open>_save_to_notion\<close> and \<open>process\<close>:
  \<open>if ": " in error_msg: error_msg = error_msg.split(": ")[-1]\<close>.
\<close>

definition simplify_error :: "pystr \<Rightarrow> pystr" where
  "simplify_error error_msg =
     (if py_in (asc '': '') error_msg then last (py_split error_msg (asc '': '')) else error_msg)"


subsection \<open>Values parsed from JSON\<close>

text \<open>
  \<open>LLMService.extract_tasks\<close> returns the list that \<open>json.loads\<close> parses from the answer
  of the language model, and nothing validates its items. A task is therefore any value
  that \<open>json.loads\<close> can produce: \<open>None\<close>, a \<open>bool\<close>, an \<open>int\<close>, a \<open>float\<close> (a number,
  an infinity or not a number), a \<open>str\<close>, a \<open>list\<close> or a \<open>dict\<close>. A dict is given by its
  items; of two items with the same key the first counts.
\<close>

datatype pyfloat = FloatNum real | FloatInf | FloatNegInf | FloatNaN

datatype json =
    JNull
  | JBool bool
  | JInt int
  | JFloat pyfloat
  | JStr pystr
  | JList "json list"
  | JDict "(pystr \<times> json) list"

text \<open>\<open>type(v).__name__\<close>, and the truth value of \<open>v\<close> in a condition.\<close>

fun type_name :: "json \<Rightarrow> pystr" where
  "type_name JNull = asc ''NoneType''"
| "type_name (JBool b) = asc ''bool''"
| "type_name (JInt i) = asc ''int''"
| "type_name (JFloat f) = asc ''float''"
| "type_name (JStr s) = asc ''str''"
| "type_name (JList xs) = asc ''list''"
| "type_name (JDict kvs) = asc ''dict''"

fun float_truthy :: "pyfloat \<Rightarrow> bool" where
  "float_truthy (FloatNum r) = (r \<noteq> 0)"
| "float_truthy f = True"

fun json_truthy :: "json \<Rightarrow> bool" where
  "json_truthy JNull = False"
| "json_truthy (JBool b) = b"
| "json_truthy (JInt i) = (i \<noteq> 0)"
| "json_truthy (JFloat f) = float_truthy f"
| "json_truthy (JStr s) = (s \<noteq> [])"
| "json_truthy (JList xs) = (xs \<noteq> [])"
| "json_truthy (JDict kvs) = (kvs \<noteq> [])"

text \<open>
  The exceptions that the operations of \<open>_create_tasks\<close> raise on a value of the wrong
  type, with the messages of CPython 3.11: \<open>v.name\<close> on a value without that attribute,
  \<open>d.get(v)\<close> and \<open>v[:n]\<close> on a dict, \<open>v > 0\<close> and \<open>len(v)\<close>.
\<close>

definition attribute_error :: "json \<Rightarrow> pystr \<Rightarrow> exn" where
  "attribute_error v name =
     Exception ([39] @ type_name v @ [39] @ asc '' object has no attribute '' @ [39] @ name @ [39])"

definition unhashable_error :: "pystr \<Rightarrow> exn" where
  "unhashable_error tname = Exception (asc ''unhashable type: '' @ [39] @ tname @ [39])"

definition not_supported_error :: "json \<Rightarrow> exn" where
  "not_supported_error v =
     Exception ([39, 62, 39] @ asc '' not supported between instances of '' @ [39] @ type_name v
                @ [39] @ asc '' and '' @ [39] @ asc ''int'' @ [39])"

definition no_len_error :: "json \<Rightarrow> exn" where
  "no_len_error v =
     Exception (asc ''object of type '' @ [39] @ type_name v @ [39] @ asc '' has no len()'')"

definition not_subscriptable_error :: "json \<Rightarrow> exn" where
  "not_subscriptable_error v =
     Exception ([39] @ type_name v @ [39] @ asc '' object is not subscriptable'')"

text \<open>\<open>v.get(key, default)\<close>: only a dict has the method.\<close>

definition dict_get :: "(pystr \<times> json) list \<Rightarrow> pystr \<Rightarrow> json \<Rightarrow> json" where
  "dict_get kvs key dflt = (case map_of kvs key of None \<Rightarrow> dflt | Some v \<Rightarrow> v)"

fun py_get :: "json \<Rightarrow> pystr \<Rightarrow> json \<Rightarrow> exn + json" where
  "py_get (JDict kvs) key dflt = Inr (dict_get kvs key dflt)"
| "py_get v key dflt = Inl (attribute_error v (asc ''get''))"

text \<open>Whether \<open>v\<close> can be a key of a dict: a list and a dict cannot.\<close>

fun hashable :: "json \<Rightarrow> bool" where
  "hashable (JList xs) = False"
| "hashable (JDict kvs) = False"
| "hashable v = True"

text \<open>\<open>v > 0\<close>: defined on the numbers, among which Python counts the booleans.\<close>

fun float_gt0 :: "pyfloat \<Rightarrow> bool" where
  "float_gt0 (FloatNum r) = (0 < r)"
| "float_gt0 FloatInf = True"
| "float_gt0 FloatNegInf = False"
| "float_gt0 FloatNaN = False"

fun py_gt0 :: "json \<Rightarrow> exn + bool" where
  "py_gt0 (JBool b) = Inr b"
| "py_gt0 (JInt i) = Inr (0 < i)"
| "py_gt0 (JFloat f) = Inr (float_gt0 f)"
| "py_gt0 v = Inl (not_supported_error v)"

text \<open>\<open>len(v)\<close> and \<open>v[:n]\<close>.\<close>

fun py_len :: "json \<Rightarrow> exn + nat" where
  "py_len (JStr s) = Inr (length s)"
| "py_len (JList xs) = Inr (length xs)"
| "py_len (JDict kvs) = Inr (length (remdups (map fst kvs)))"
| "py_len v = Inl (no_len_error v)"

fun py_slice_to :: "nat \<Rightarrow> json \<Rightarrow> exn + json" where
  "py_slice_to n (JStr s) = Inr (JStr (take n s))"
| "py_slice_to n (JList xs) = Inr (JList (take n xs))"
| "py_slice_to n (JDict kvs) = Inl (unhashable_error (asc ''slice''))"
| "py_slice_to n v = Inl (not_subscriptable_error v)"

text \<open>Sequencing of two steps of which the first may raise.\<close>

definition and_then :: "exn + 'a \<Rightarrow> ('a \<Rightarrow> exn + 'b) \<Rightarrow> exn + 'b" where
  "and_then x f = (case x of Inl e \<Rightarrow> Inl e | Inr v \<Rightarrow> f v)"


section \<open>Data model\<close>

subsection \<open>Messages\<close>

text \<open>
  \<open>core/models/message.py\<close>. Of \<open>MessageMetadata\<close> the fields the workflow reads; of
  \<open>MessageContent\<close> the text \<open>content.data.get("text", "")\<close>.
\<close>

record metadata =
  md_message_id :: pystr
  md_platform :: pystr
  md_chat_id :: pystr
  md_user_id :: "pystr option"

record file_desc =
  fd_type :: pystr
  fd_path :: pystr

record message =
  msg_metadata :: metadata
  msg_text :: pystr
  msg_files :: "file_desc list"

subsection \<open>Status and step enumerations\<close>

text \<open>
  \<open>MessageStatus\<close> of \<open>core/status.py\<close> and the \<open>ProcessStep\<close> that
  \<open>note_taker_agent.py\<close> declares itself (values \<open>auto()\<close>, 1 to 9).
\<close>

datatype message_status = RECEIVED | PROCESSING | COMPLETED | FAILED

datatype process_step =
    Step_INITIALIZED | Step_PREPROCESSING | Step_CONTENT_ANALYSIS | Step_URL_PROCESSING
  | Step_TASK_EXTRACTION | Step_SAVING_TO_NOTION | Step_CREATING_TASKS | Step_COMPLETED
  | Step_ERROR

fun step_value :: "process_step \<Rightarrow> nat" where
  "step_value Step_INITIALIZED = 1"
| "step_value Step_PREPROCESSING = 2"
| "step_value Step_CONTENT_ANALYSIS = 3"
| "step_value Step_URL_PROCESSING = 4"
| "step_value Step_TASK_EXTRACTION = 5"
| "step_value Step_SAVING_TO_NOTION = 6"
| "step_value Step_CREATING_TASKS = 7"
| "step_value Step_COMPLETED = 8"
| "step_value Step_ERROR = 9"

subsection \<open>Results of the capability calls\<close>

text \<open>
  The dictionaries that the classifier and the formatter return, with the keys the
  workflow reads. A key is absent (\<open>None\<close>) or holds a value of the type the spec gives
  it.
\<close>

record precheck =
  contains_url :: "bool option"
  contains_text :: "bool option"
  urls :: "pystr list option"

record format_result =
  fr_content_type :: "pystr option"
  fr_title :: "pystr option"
  fr_summary :: "pystr option"
  fr_content :: "pystr option"
  fr_tags :: "pystr list option"

text \<open>\<open>if not format_content_result\<close>: a missing or an empty dictionary is falsy.\<close>

definition empty_format_result :: "format_result \<Rightarrow> bool" where
  "empty_format_result r =
     (fr_content_type r = None \<and> fr_title r = None \<and> fr_summary r = None
      \<and> fr_content r = None \<and> fr_tags r = None)"

record datetime =
  dt_year :: nat
  dt_month :: nat
  dt_day :: nat
  dt_hour :: nat
  dt_minute :: nat

text \<open>The keyword arguments of \<open>DailyNotes.add_note\<close> and \<open>DidaService.add_task\<close>.\<close>

record note_args =
  na_user_id :: "pystr option"
  na_raw_content :: pystr
  na_content :: pystr
  na_content_type :: pystr
  na_files :: "file_desc list"
  na_source :: pystr
  na_tags :: "pystr list"
  na_title :: "pystr option"
  na_summary :: "pystr option"

record task_args =
  ta_user_id :: "pystr option"
  ta_title :: json
  ta_content :: json
  ta_project_id :: "pystr option"
  ta_desc :: json
  ta_due_date :: "datetime option"
  ta_priority :: json
  ta_is_all_day :: json
  ta_reminders :: json

datatype store_call = AddNote note_args | AddTask task_args

subsection \<open>The graph's nodes\<close>

datatype node =
    START | Precheck | UrlSummary | FormatContent | SaveNotion | ExtractTasks | CreateTasks
  | END

section \<open>The world outside the workflow\<close>

text \<open>
  A Telegram message object, and the calls made on the Bot: \<open>send_message\<close> with the
  chat, the text and the message replied to, and \<open>edit_text\<close> on a message object.
\<close>

record tg_message =
  tg_chat_id :: pystr
  tg_message_id :: int

datatype reply_ref = NoReply | ReplyStr pystr | ReplyInt int

datatype transport_op =
    SendMessage pystr pystr reply_ref
  | EditText tg_message pystr
  | EditMessageText pystr int pystr

text \<open>One invocation of the agent's \<open>_update_status\<close>, with its arguments.\<close>

record status_call =
  sc_status :: message_status
  sc_step :: process_step
  sc_progress :: "real option"
  sc_description :: pystr
  sc_status_message_id :: "pystr option"
  sc_emoji :: pystr
  sc_show_progress :: bool

text \<open>
  The state the run acts on: the \<open>_status_messages\<close> dictionary of the
  \<open>TelegramStateManager\<close>, and four traces, each in the order of the calls: the calls
  made on the Bot, the invocations of \<open>_update_status\<close>, the nodes the graph has
  executed, and the calls made on the note store and the task store.
\<close>

record world =
  status_messages :: "pystr \<Rightarrow> tg_message option"
  transport :: "transport_op list"
  status_calls :: "status_call list"
  nodes_run :: "node list"
  store_calls :: "store_call list"

subsection \<open>Effectful computations\<close>

text \<open>
  A coroutine of the source is a function from the world to a result, which is the
  returned value or the raised exception, and the world after it.
\<close>

type_synonym 'a io = "world \<Rightarrow> (exn + 'a) \<times> world"

definition io_return :: "'a \<Rightarrow> 'a io" where
  "io_return x = (\<lambda>w. (Inr x, w))"

definition io_raise :: "exn \<Rightarrow> 'a io" where
  "io_raise e = (\<lambda>w. (Inl e, w))"

definition io_lift :: "exn + 'a \<Rightarrow> 'a io" where
  "io_lift r = (\<lambda>w. (r, w))"

definition io_bind :: "'a io \<Rightarrow> ('a \<Rightarrow> 'b io) \<Rightarrow> 'b io" where
  "io_bind f g = (\<lambda>w. case f w of (Inl e, w') \<Rightarrow> (Inl e, w') | (Inr x, w') \<Rightarrow> g x w')"

definition io_then :: "'a io \<Rightarrow> 'b io \<Rightarrow> 'b io" where
  "io_then f g = io_bind f (\<lambda>_. g)"

text \<open>\<open>try: f except Exception as e: h e\<close>.\<close>

definition io_try :: "'a io \<Rightarrow> (exn \<Rightarrow> 'a io) \<Rightarrow> 'a io" where
  "io_try f h = (\<lambda>w. case f w of (Inl e, w') \<Rightarrow> h e w' | (Inr x, w') \<Rightarrow> (Inr x, w'))"

text \<open>\<open>if b: f\<close>, the result of \<open>f\<close> not used.\<close>

definition io_when :: "bool \<Rightarrow> 'a io \<Rightarrow> unit io" where
  "io_when b f = (if b then io_then f (io_return ()) else io_return ())"

subsection \<open>The Bot\<close>

text \<open>
  The Telegram Bot is outside the repository. What a call on it returns or raises is a
  parameter of the model, and may depend on all the calls made before.
\<close>

record bot =
  send_message :: "transport_op list \<Rightarrow> pystr \<Rightarrow> pystr \<Rightarrow> reply_ref \<Rightarrow> exn + tg_message"
  edit_text :: "transport_op list \<Rightarrow> tg_message \<Rightarrow> pystr \<Rightarrow> exn option"
  edit_message_text :: "transport_op list \<Rightarrow> pystr \<Rightarrow> int \<Rightarrow> pystr \<Rightarrow> exn option"

definition bot_send_message :: "bot \<Rightarrow> pystr \<Rightarrow> pystr \<Rightarrow> reply_ref \<Rightarrow> tg_message io" where
  "bot_send_message b chat text reply =
     (\<lambda>w. (send_message b (transport w) chat text reply,
           w\<lparr>transport := transport w @ [SendMessage chat text reply]\<rparr>))"

definition message_edit_text :: "bot \<Rightarrow> tg_message \<Rightarrow> pystr \<Rightarrow> unit io" where
  "message_edit_text b m text =
     (\<lambda>w. (case edit_text b (transport w) m text of Some e \<Rightarrow> Inl e | None \<Rightarrow> Inr (),
           w\<lparr>transport := transport w @ [EditText m text]\<rparr>))"

definition bot_edit_message_text :: "bot \<Rightarrow> pystr \<Rightarrow> int \<Rightarrow> pystr \<Rightarrow> unit io" where
  "bot_edit_message_text b chat mid text =
     (\<lambda>w. (case edit_message_text b (transport w) chat mid text of
             Some e \<Rightarrow> Inl e | None \<Rightarrow> Inr (),
           w\<lparr>transport := transport w @ [EditMessageText chat mid text]\<rparr>))"


section \<open>The status updaters\<close>

text \<open>
  The agent calls three methods on its \<open>telegram_status_updater\<close>, whatever its class:
  \<open>format_status_text(progress=, step=, description=, emoji=)\<close>,
  \<open>update_status_message(message_id=, text=)\<close> and
  \<open>create_status_message(chat_id=, text=, reply_to_message_id=)\<close>. An updater is an
  object with these three methods.
\<close>

record updater =
  format_status_text :: "real option \<Rightarrow> nat \<Rightarrow> pystr \<Rightarrow> pystr \<Rightarrow> exn + pystr"
  update_status_message :: "pystr \<Rightarrow> pystr \<Rightarrow> bool io"
  create_status_message :: "pystr \<Rightarrow> pystr \<Rightarrow> pystr \<Rightarrow> tg_message option io"

text \<open>
  \<open>int(x)\<close> on a float truncates towards zero. Progress values are modelled as reals;
  on the literals the workflow passes (0.0, 0.1, 0.2, 0.3, 0.7, 0.8, 0.95, 0.98) the
  products with 10, 20 and 100 truncate to the same integers in double precision.
\<close>

definition py_int :: "real \<Rightarrow> int" where
  "py_int x = (if 0 \<le> x then \<lfloor>x\<rfloor> else \<lceil>x\<rceil>)"

text \<open>\<open>c * n\<close> for a one-character string and an integer: empty when \<open>n\<close> is negative.\<close>

definition py_repeat :: "nat \<Rightarrow> int \<Rightarrow> pystr" where
  "py_repeat c n = replicate (nat n) c"

subsection \<open>TelegramStateManager\<close>

text \<open>
  \<open>platforms/telegram/state_manager.py\<close>. This is the class of the object that
  \<open>MessageRouter._process_message\<close> passes to \<open>NoteTakerAgent.process\<close>. Code points:
  9608 and 9617 are the full and the light block of the bar.
\<close>

definition sm_format_status_text :: "real option \<Rightarrow> nat \<Rightarrow> pystr \<Rightarrow> pystr \<Rightarrow> pystr" where
  "sm_format_status_text progress step description emoji =
     (let description1 = (if emoji \<noteq> [] then emoji @ asc '' '' @ description else description)
      in case progress of
           None \<Rightarrow> description1
         | Some p \<Rightarrow>
             (let bar_length = 10;
                  filled_length = py_int (p * real_of_int bar_length);
                  bar = py_repeat 9608 filled_length @ py_repeat 9617 (bar_length - filled_length)
              in description1 @ [10] @ bar @ asc '' '' @ str_int (py_int (p * 100))
                 @ asc ''%''))"

definition txt_bot_not_initialised :: pystr where
  "txt_bot_not_initialised = asc ''Bot'' @ [26410, 21021, 22987, 21270]"

definition txt_none_has_no_send_message :: pystr where
  "txt_none_has_no_send_message =
     [39] @ asc ''NoneType'' @ [39] @ asc '' object has no attribute '' @ [39]
     @ asc ''send_message'' @ [39]"

definition sm_create_status_message ::
  "bot option \<Rightarrow> pystr \<Rightarrow> pystr \<Rightarrow> pystr \<Rightarrow> tg_message option io" where
  "sm_create_status_message b chat_id text reply_to_message_id =
     io_try
       (case b of
          None \<Rightarrow> io_raise (Exception txt_none_has_no_send_message)
        | Some bt \<Rightarrow>
            io_bind (bot_send_message bt chat_id text (ReplyStr reply_to_message_id))
              (\<lambda>m w. (Inr (Some m),
                 w\<lparr>status_messages := (status_messages w)(str_int (tg_message_id m) \<mapsto> m)\<rparr>)))
       (\<lambda>e. io_raise e)"

definition sm_update_status_message :: "bot option \<Rightarrow> pystr \<Rightarrow> pystr \<Rightarrow> bool io" where
  "sm_update_status_message b message_id text =
     io_try
       (case b of
          None \<Rightarrow> io_raise (Exception txt_bot_not_initialised)
        | Some bt \<Rightarrow>
            (\<lambda>w. case status_messages w message_id of
                   None \<Rightarrow> (Inr False, w)
                 | Some m \<Rightarrow> io_then (message_edit_text bt m text) (io_return True) w))
       (\<lambda>e. io_return False)"

definition TelegramStateManager :: "bot option \<Rightarrow> updater" where
  "TelegramStateManager b =
     \<lparr>format_status_text = (\<lambda>progress step description emoji.
         Inr (sm_format_status_text progress step description emoji)),
      update_status_message = sm_update_status_message b,
      create_status_message = sm_create_status_message b\<rparr>"

subsection \<open>TelegramStatusUpdater\<close>

text \<open>
  \<open>platforms/telegram/utils/status_updater.py\<close>. This is the class of the object the
  agent is constructed with. Its \<open>format_status_text\<close> has no branch for a missing
  progress: \<open>progress * bar_length\<close> raises TypeError on \<open>None\<close>. Its
  \<open>update_status_message\<close> takes \<open>message\<close> and \<open>text\<close>, so the agent's call with the
  keyword \<open>message_id\<close> raises TypeError before the body runs.
\<close>

definition status_emojis :: "pystr list" where
  "status_emojis = [[128260], [127908], [128269], [129302], [10024], [128190], [9989],
                    [10060], [128203], [128204]]"

definition rjust :: "nat \<Rightarrow> pystr \<Rightarrow> pystr" where
  "rjust n s = replicate (n - length s) 32 @ s"

definition txt_mul_none :: pystr where
  "txt_mul_none = asc ''unsupported operand type(s) for *: '' @ [39] @ asc ''NoneType'' @ [39]
     @ asc '' and '' @ [39] @ asc ''int'' @ [39]"

definition su_format_status_text ::
  "real option \<Rightarrow> nat \<Rightarrow> pystr \<Rightarrow> pystr \<Rightarrow> exn + pystr" where
  "su_format_status_text progress step description emoji =
     (let has_emoji = list_ex (\<lambda>char. py_in char description) status_emojis
      in case progress of
           None \<Rightarrow> Inl (Exception txt_mul_none)
         | Some p \<Rightarrow>
             (let bar_length = 20;
                  filled_length = py_int (p * real_of_int bar_length);
                  filled = py_repeat 9608 filled_length;
                  empty = py_repeat 9617 (bar_length - filled_length);
                  bar = filled @ empty;
                  percent = rjust 3 (str_int (py_int (p * 100))) @ asc ''%'';
                  desc = (if has_emoji then description else emoji @ asc '' '' @ description)
              in Inr (desc @ [10] @ bar @ asc '' '' @ percent)))"

text \<open>
  \<open>int(s)\<close> on a string, for an optional sign followed by ASCII digits, with
  surrounding white space allowed. (Python also accepts underscores between digits and
  non-ASCII digits; message identifiers have neither.)
\<close>

definition txt_invalid_literal :: pystr where
  "txt_invalid_literal = asc ''invalid literal for int() with base 10''"

definition digits_value :: "pystr \<Rightarrow> nat" where
  "digits_value ds = foldl (\<lambda>acc d. 10 * acc + (d - 48)) 0 ds"

definition all_digits :: "pystr \<Rightarrow> bool" where
  "all_digits ds = (ds \<noteq> [] \<and> list_all (\<lambda>d. 48 \<le> d \<and> d \<le> 57) ds)"

definition int_of_str :: "pystr \<Rightarrow> exn + int" where
  "int_of_str s =
     (case py_strip s of
        [] \<Rightarrow> Inl (Exception txt_invalid_literal)
      | c # cs \<Rightarrow>
          if c = 45 \<and> all_digits cs then Inr (- int (digits_value cs))
          else if c = 43 \<and> all_digits cs then Inr (int (digits_value cs))
          else if all_digits (c # cs) then Inr (int (digits_value (c # cs)))
          else Inl (Exception txt_invalid_literal))"

record status_message =
  stm_message_id :: pystr
  stm_chat_id :: pystr

definition su_create_status_message ::
  "bot \<Rightarrow> pystr \<Rightarrow> pystr \<Rightarrow> pystr \<Rightarrow> tg_message option io" where
  "su_create_status_message b chat_id text reply_to_message_id =
     io_try
       (io_bind
          (io_lift (if reply_to_message_id \<noteq> []
                    then map_sum id ReplyInt (int_of_str reply_to_message_id)
                    else Inr NoReply))
          (\<lambda>reply. io_bind (bot_send_message b chat_id text reply)
             (\<lambda>m. io_return (Some m))))
       (\<lambda>e. io_return None)"

definition su_update_status_message :: "bot \<Rightarrow> status_message \<Rightarrow> pystr \<Rightarrow> bool io" where
  "su_update_status_message b m text =
     io_try
       (io_bind (io_lift (int_of_str (stm_message_id m)))
          (\<lambda>mid. io_then (bot_edit_message_text b (stm_chat_id m) mid text) (io_return True)))
       (\<lambda>e. io_return False)"

definition txt_unexpected_keyword :: pystr where
  "txt_unexpected_keyword =
     asc ''update_status_message() got an unexpected keyword argument '' @ [39]
     @ asc ''message_id'' @ [39]"

definition TelegramStatusUpdater :: "bot \<Rightarrow> updater" where
  "TelegramStatusUpdater b =
     \<lparr>format_status_text = su_format_status_text,
      update_status_message = (\<lambda>message_id text. io_raise (Exception txt_unexpected_keyword)),
      create_status_message = su_create_status_message b\<rparr>"

section \<open>The agent\<close>

text \<open>The fields of \<open>NoteTakerAgent\<close> that \<open>process\<close> sets and the nodes read.\<close>

record agent =
  telegram_status_updater :: "updater option"
  user_background :: pystr

subsection \<open>The status helper\<close>

text \<open>
  \<open>NoteTakerAgent._update_status\<close>. The body of its \<open>try\<close> is \<open>update_status_try\<close>;
  \<open>update_status\<close> is the whole method, which first records the invocation in
  \<open>status_calls\<close>.
\<close>

definition update_status_try ::
  "agent \<Rightarrow> message \<Rightarrow> message_status \<Rightarrow> process_step \<Rightarrow> real option \<Rightarrow> pystr
   \<Rightarrow> pystr option \<Rightarrow> pystr \<Rightarrow> bool \<Rightarrow> tg_message option io" where
  "update_status_try self message status step progress description status_message_id emoji
     show_progress =
     (case telegram_status_updater self of
        None \<Rightarrow> io_return None
      | Some u \<Rightarrow>
          io_bind
            (io_lift (format_status_text u (if show_progress then progress else None)
                        (step_value step) description emoji))
            (\<lambda>status_text.
               if truthy status_message_id
               then io_bind (update_status_message u (the status_message_id) status_text)
                      (\<lambda>success. io_return None)
               else create_status_message u (md_chat_id (msg_metadata message)) status_text
                      (md_message_id (msg_metadata message))))"

definition log_status_call :: "status_call \<Rightarrow> unit io" where
  "log_status_call c = (\<lambda>w. (Inr (), w\<lparr>status_calls := status_calls w @ [c]\<rparr>))"

definition update_status ::
  "agent \<Rightarrow> message \<Rightarrow> message_status \<Rightarrow> process_step \<Rightarrow> real option \<Rightarrow> pystr
   \<Rightarrow> pystr option \<Rightarrow> pystr \<Rightarrow> bool \<Rightarrow> tg_message option io" where
  "update_status self message status step progress description status_message_id emoji
     show_progress =
     io_then
       (log_status_call
          \<lparr>sc_status = status, sc_step = step, sc_progress = progress,
           sc_description = description, sc_status_message_id = status_message_id,
           sc_emoji = emoji, sc_show_progress = show_progress\<rparr>)
       (io_try
          (update_status_try self message status step progress description status_message_id
             emoji show_progress)
          (\<lambda>e. io_return None))"


section \<open>The workflow\<close>

subsection \<open>State and collaborators\<close>

text \<open>
  \<open>AgentState\<close>. A key that the dictionary may lack is an option. \<open>st_next\<close> is the key
  \<open>next\<close>.
\<close>

record agent_state =
  st_message :: message
  st_text_content :: pystr
  st_media_files :: "file_desc list"
  st_background :: pystr
  st_status_message_id :: "pystr option"
  st_format_content_result :: "format_result option"
  st_precheck_result :: "precheck option"
  st_tasks :: "json list option"
  st_next :: node
  st_save_success :: "bool option"
  st_error_message :: "pystr option"
  st_notion_page :: "pystr option"
  st_thread_id :: pystr

text \<open>
  The outcome of the four lines of \<open>_extract_tasks\<close> that parse
  \<open>self.user_background\<close>: the profile and the printed list of project names, a
  \<open>json.JSONDecodeError\<close>, or another exception.
\<close>

datatype bg_parse = BgParsed pystr pystr | BgDecodeError | BgOtherError exn

text \<open>
  The collaborators, which are outside the workflow: the language model
  (\<open>LLMService\<close>), the note store (\<open>DailyNotes.add_note\<close>, which returns an entry or
  nothing), the configuration (\<open>ConfigManager\<close>), the task store
  (\<open>DidaService.add_task\<close>, of which the truthiness of the result is used) and
  \<open>datetime.fromisoformat\<close>. What each call returns or raises is a parameter. The two
  stores see the calls made before. \<open>py_repr\<close> is the text Python prints for a float, a
  list or a dict inside an f-string, which the model does not spell out.
\<close>

record env =
  url_text_analyzer :: "pystr \<Rightarrow> exn + precheck"
  llm_format_content :: "pystr \<Rightarrow> pystr \<Rightarrow> exn + format_result"
  add_note :: "store_call list \<Rightarrow> note_args \<Rightarrow> exn + pystr option"
  parse_background :: "pystr \<Rightarrow> bg_parse"
  llm_extract_tasks :: "pystr \<Rightarrow> pystr \<Rightarrow> pystr \<Rightarrow> exn + json list"
  get_user_background :: "pystr \<Rightarrow> pystr"
  dida_service_configured :: "pystr option \<Rightarrow> bool"
  dida_projects :: "pystr option \<Rightarrow> (pystr \<times> pystr) list"
  add_task :: "store_call list \<Rightarrow> task_args \<Rightarrow> exn + bool"
  fromisoformat :: "pystr \<Rightarrow> exn + datetime"
  py_repr :: "json \<Rightarrow> pystr"

definition daily_notes_add_note :: "env \<Rightarrow> note_args \<Rightarrow> pystr option io" where
  "daily_notes_add_note env args =
     (\<lambda>w. (add_note env (store_calls w) args,
           w\<lparr>store_calls := store_calls w @ [AddNote args]\<rparr>))"

definition dida_service_add_task :: "env \<Rightarrow> task_args \<Rightarrow> bool io" where
  "dida_service_add_task env args =
     (\<lambda>w. (add_task env (store_calls w) args,
           w\<lparr>store_calls := store_calls w @ [AddTask args]\<rparr>))"

text \<open>\<open>d.get(key, default)\<close> on an optional key.\<close>

definition get_or :: "'a option \<Rightarrow> 'a \<Rightarrow> 'a" where
  "get_or x d = (case x of None \<Rightarrow> d | Some v \<Rightarrow> v)"

text \<open>\<open>if self.telegram_status_updater and status_message_id\<close>.\<close>

definition can_report :: "agent \<Rightarrow> pystr option \<Rightarrow> bool" where
  "can_report self status_message_id =
     (telegram_status_updater self \<noteq> None \<and> truthy status_message_id)"

subsection \<open>Texts\<close>

text \<open>
  The literals of \<open>note_taker_agent.py\<close>, by their code points. In order: "prechecking
  the content...", the four precheck findings (URL and text, URL, text, nothing usable),
  "saving to Notion..." with its floppy disk, "the format result is empty",
  "uncategorised", "saving to Notion failed", "saved to Notion", the cross mark with a
  space, "extracting tasks...", "extracting tasks failed: ", "creating tasks...", "please
  configure the Dida service first", "creating tasks failed: ", and "starting..." with
  its rocket.
\<close>

definition txt_prechecking :: pystr where
  "txt_prechecking = [27491, 22312, 39044, 26816, 20869, 23481, 46, 46, 46]"

definition txt_url_and_text :: pystr where
  "txt_url_and_text = [26816, 27979, 21040, 85, 82, 76, 21644, 25991, 26412, 20869, 23481]"

definition txt_url_only :: pystr where
  "txt_url_only = [26816, 27979, 21040, 85, 82, 76, 38142, 25509]"

definition txt_text_only :: pystr where
  "txt_text_only = [26816, 27979, 21040, 25991, 26412, 20869, 23481]"

definition txt_no_content :: pystr where
  "txt_no_content = [26410, 26816, 27979, 21040, 26377, 25928, 20869, 23481]"

definition txt_saving :: pystr where
  "txt_saving = [128190, 32, 27491, 22312, 20445, 23384, 21040, 32, 78, 111, 116, 105, 111,
                 110, 46, 46, 46]"

definition txt_format_empty :: pystr where
  "txt_format_empty = [26684, 24335, 21270, 32467, 26524, 20026, 31354]"

definition txt_uncategorised :: pystr where
  "txt_uncategorised = [26410, 20998, 31867]"

definition txt_save_failed :: pystr where
  "txt_save_failed = [20445, 23384, 21040, 32, 78, 111, 116, 105, 111, 110, 32, 22833, 36133]"

definition txt_saved :: pystr where
  "txt_saved = [24050, 20445, 23384, 21040, 32, 78, 111, 116, 105, 111, 110]"

definition txt_cross :: pystr where
  "txt_cross = [10060, 32]"

definition txt_extracting :: pystr where
  "txt_extracting = [27491, 22312, 25552, 21462, 20219, 21153, 46, 46, 46]"

definition txt_extract_failed :: pystr where
  "txt_extract_failed = [25552, 21462, 20219, 21153, 22833, 36133, 58, 32]"

definition txt_creating :: pystr where
  "txt_creating = [27491, 22312, 21019, 24314, 20219, 21153, 46, 46, 46]"

definition txt_configure_dida :: pystr where
  "txt_configure_dida = [35831, 20808, 37197, 32622, 28404, 31572, 28165, 21333, 26381, 21153]"

definition txt_create_failed :: pystr where
  "txt_create_failed = [21019, 24314, 20219, 21153, 22833, 36133, 58, 32]"

definition txt_start :: pystr where
  "txt_start = [128640, 32, 24320, 22987, 22788, 29702, 46, 46, 46]"

subsection \<open>Routing\<close>

definition route_after_url_check :: "agent_state \<Rightarrow> node" where
  "route_after_url_check state =
     (let precheck_result = get_or (st_precheck_result state)
            \<lparr>contains_url = None, contains_text = None, urls = None\<rparr>;
          has_url = get_or (contains_url precheck_result) False
      in if has_url then UrlSummary else FormatContent)"

definition route_after_save :: "agent_state \<Rightarrow> node" where
  "route_after_save state =
     (let precheck_result = get_or (st_precheck_result state)
            \<lparr>contains_url = None, contains_text = None, urls = None\<rparr>;
          has_text = get_or (contains_text precheck_result) False;
          save_success = get_or (st_save_success state) False
      in if has_text \<and> save_success then ExtractTasks else END)"

subsection \<open>Precheck\<close>

definition get_precheck_status_text :: "precheck \<Rightarrow> pystr" where
  "get_precheck_status_text precheck_result =
     (let has_url = get_or (contains_url precheck_result) False;
          has_content = get_or (contains_text precheck_result) False
      in if has_url \<and> has_content then txt_url_and_text
         else if has_url then txt_url_only
         else if has_content then txt_text_only
         else txt_no_content)"

text \<open>\<open>_content_precheck\<close>: its handler logs and raises the exception again.\<close>

definition content_precheck :: "env \<Rightarrow> agent \<Rightarrow> agent_state \<Rightarrow> agent_state io" where
  "content_precheck env self state =
     (let message = st_message state;
          status_message_id = st_status_message_id state;
          text_content = st_text_content state
      in io_try
           (io_then
              (io_when (can_report self status_message_id)
                 (update_status self message PROCESSING Step_PREPROCESSING (Some 0.2)
                    txt_prechecking status_message_id [128269] True))
              (io_bind (io_lift (url_text_analyzer env text_content))
                 (\<lambda>precheck_result.
                    io_then
                      (io_when (can_report self status_message_id)
                         (update_status self message PROCESSING Step_PREPROCESSING (Some 0.3)
                            (get_precheck_status_text precheck_result) status_message_id
                            [10024] True))
                      (io_return (state\<lparr>st_precheck_result := Some precheck_result\<rparr>)))))
           (\<lambda>e. io_raise e))"

text \<open>\<open>_url_summary\<close> is \<open>pass\<close>: the node writes nothing to the state.\<close>

definition url_summary :: "agent_state \<Rightarrow> agent_state io" where
  "url_summary state = io_return state"

subsection \<open>Formatting\<close>

definition format_content_try :: "env \<Rightarrow> agent \<Rightarrow> agent_state \<Rightarrow> agent_state io" where
  "format_content_try env self state =
     io_bind (io_lift (llm_format_content env (st_text_content state) (user_background self)))
       (\<lambda>result. io_return
          (state\<lparr>st_format_content_result := Some result, st_next := SaveNotion\<rparr>))"

definition format_content :: "env \<Rightarrow> agent \<Rightarrow> agent_state \<Rightarrow> agent_state io" where
  "format_content env self state =
     io_try (format_content_try env self state)
       (\<lambda>e. io_return (state\<lparr>st_error_message := Some (str_exn e), st_next := END\<rparr>))"

subsection \<open>Saving the note\<close>

text \<open>
  \<open>_format_content_text\<close>. The headings are "original content", "formatted content",
  "summary" and "tags", each with its emoji and a full-width colon; the tags are joined
  by an ideographic comma (12289), or "no tags".
\<close>

definition txt_no_tags :: pystr where
  "txt_no_tags = [26080, 26631, 31614]"

definition format_content_text :: "pystr \<Rightarrow> format_result \<Rightarrow> pystr" where
  "format_content_text text_content llm_result =
     (let summary = get_or (fr_summary llm_result) [];
          formatted_content = get_or (fr_content llm_result) text_content;
          tags = get_or (fr_tags llm_result) [];
          sections =
            [[128221, 32, 21407, 22987, 20869, 23481, 65306],
             text_content,
             [],
             [10024, 32, 26684, 24335, 21270, 20869, 23481, 65306],
             formatted_content,
             [],
             [128203, 32, 20869, 23481, 24635, 32467, 65306],
             summary,
             [],
             [127991, 65039, 32, 26631, 31614, 65306],
             (if tags \<noteq> [] then py_join [12289] tags else txt_no_tags)]
      in py_join [10] sections)"

text \<open>\<open>if not format_content_result\<close>.\<close>

definition falsy_format_result :: "format_result option \<Rightarrow> bool" where
  "falsy_format_result r = (case r of None \<Rightarrow> True | Some d \<Rightarrow> empty_format_result d)"

definition save_to_notion_try :: "env \<Rightarrow> agent \<Rightarrow> agent_state \<Rightarrow> agent_state io" where
  "save_to_notion_try env self state =
     (let message = st_message state;
          status_message_id = st_status_message_id state;
          text_content = st_text_content state;
          format_content_result = st_format_content_result state
      in io_then
           (io_when (can_report self status_message_id)
              (update_status self message PROCESSING Step_SAVING_TO_NOTION (Some 0.7)
                 txt_saving status_message_id [] True))
           (if falsy_format_result format_content_result
            then io_raise (Exception txt_format_empty)
            else
              (let r = the format_content_result;
                   full_content = format_content_text text_content r
               in io_bind
                    (daily_notes_add_note env
                       \<lparr>na_user_id = md_user_id (msg_metadata message),
                        na_raw_content = text_content,
                        na_content = full_content,
                        na_content_type = get_or (fr_content_type r) txt_uncategorised,
                        na_files = st_media_files state,
                        na_source = md_platform (msg_metadata message),
                        na_tags = get_or (fr_tags r) [],
                        na_title = fr_title r,
                        na_summary = fr_summary r\<rparr>)
                    (\<lambda>entry.
                       if \<not> truthy entry
                       then io_raise (Exception txt_save_failed)
                       else io_then
                              (io_when (can_report self status_message_id)
                                 (update_status self message PROCESSING Step_SAVING_TO_NOTION
                                    (Some 0.8) txt_saved status_message_id [9989] True))
                              (io_return
                                 (state\<lparr>st_save_success := Some True,
                                        st_notion_page := entry,
                                        st_next := ExtractTasks\<rparr>))))))"

definition save_to_notion :: "env \<Rightarrow> agent \<Rightarrow> agent_state \<Rightarrow> agent_state io" where
  "save_to_notion env self state =
     (let message = st_message state;
          status_message_id = st_status_message_id state
      in io_try (save_to_notion_try env self state)
           (\<lambda>e. let error_msg = simplify_error (str_exn e)
                in io_then
                     (io_when (can_report self status_message_id)
                        (update_status self message FAILED Step_SAVING_TO_NOTION (Some 0.0)
                           (txt_cross @ error_msg) status_message_id [] False))
                     (io_return
                        (state\<lparr>st_error_message := Some error_msg,
                               st_save_success := Some False,
                               st_next := END\<rparr>))))"

subsection \<open>Extracting the tasks\<close>

definition extract_tasks_try :: "env \<Rightarrow> agent \<Rightarrow> agent_state \<Rightarrow> agent_state io" where
  "extract_tasks_try env self state =
     (let message = st_message state;
          status_message_id = st_status_message_id state
      in io_then
           (io_when (can_report self status_message_id)
              (update_status self message PROCESSING Step_TASK_EXTRACTION (Some 0.95)
                 txt_extracting status_message_id [128204] True))
           (let content = st_text_content state
            in io_bind
                 (io_lift (case parse_background env (user_background self) of
                             BgParsed profile project_names \<Rightarrow> Inr (profile, project_names)
                           | BgDecodeError \<Rightarrow> Inr ([], asc ''[]'')
                           | BgOtherError e \<Rightarrow> Inl e))
                 (\<lambda>(profile, project_names).
                    io_bind (io_lift (llm_extract_tasks env content profile project_names))
                      (\<lambda>tasks. io_return
                         (state\<lparr>st_tasks := Some tasks, st_next := CreateTasks\<rparr>)))))"

definition extract_tasks :: "env \<Rightarrow> agent \<Rightarrow> agent_state \<Rightarrow> agent_state io" where
  "extract_tasks env self state =
     (let message = st_message state;
          status_message_id = st_status_message_id state
      in io_try (extract_tasks_try env self state)
           (\<lambda>e. io_then
                  (io_when (can_report self status_message_id)
                     (update_status self message FAILED Step_ERROR (Some 0.0)
                        (txt_cross @ txt_extract_failed @ str_exn e) status_message_id []
                        False))
                  (io_return
                     (state\<lparr>st_error_message := Some (txt_extract_failed @ str_exn e),
                            st_next := END\<rparr>))))"


subsection \<open>Creating the tasks\<close>

text \<open>
  Texts: the two tree corners that \<open>replace\<close> exchanges, the vertical bar with two
  spaces, and the names of the priorities 1, 3 and 5 ("low", "medium", "high") with the
  default "normal".
\<close>

definition txt_branch :: pystr where
  "txt_branch = [9500, 9472]"

definition txt_corner :: pystr where
  "txt_corner = [9492, 9472]"

definition txt_bar :: pystr where
  "txt_bar = [9474, 32, 32]"

text \<open>
  A value inside an f-string: a string prints as itself, \<open>None\<close>, a boolean and an
  integer as Python writes them.
\<close>

definition py_str :: "env \<Rightarrow> json \<Rightarrow> pystr" where
  "py_str env v =
     (case v of
        JNull \<Rightarrow> asc ''None''
      | JBool b \<Rightarrow> (if b then asc ''True'' else asc ''False'')
      | JInt i \<Rightarrow> str_int i
      | JStr s \<Rightarrow> s
      | _ \<Rightarrow> py_repr env v)"

text \<open>
  \<open>priority_map.get(priority, '...')\<close> with the keys 1, 3 and 5. A key is found by
  equality, so \<open>True\<close> and \<open>1.0\<close> find the key 1. The lookup is made only after
  \<open>priority > 0\<close> has held, that is on a number.
\<close>

definition priority_name :: "int \<Rightarrow> pystr" where
  "priority_name priority =
     (if priority = 1 then [20302] else if priority = 3 then [20013]
      else if priority = 5 then [39640] else [26222, 36890])"

fun priority_text :: "json \<Rightarrow> pystr" where
  "priority_text (JBool b) = priority_name (if b then 1 else 0)"
| "priority_text (JInt i) = priority_name i"
| "priority_text (JFloat (FloatNum r)) =
     (if r = 1 then priority_name 1 else if r = 3 then priority_name 3
      else if r = 5 then priority_name 5 else priority_name 0)"
| "priority_text v = priority_name 0"

text \<open>
  \<open>d.strftime("%Y-%m-%d %H:%M")\<close>: month, day, hour and minute are padded with zeros to
  two digits; the year is printed as the C library prints it, which on glibc is without
  padding.
\<close>

definition zfill :: "nat \<Rightarrow> pystr \<Rightarrow> pystr" where
  "zfill n s = replicate (n - length s) 48 @ s"

definition strftime :: "datetime \<Rightarrow> pystr" where
  "strftime d =
     str_nat (dt_year d) @ asc ''-'' @ zfill 2 (str_nat (dt_month d)) @ asc ''-''
     @ zfill 2 (str_nat (dt_day d)) @ asc '' '' @ zfill 2 (str_nat (dt_hour d)) @ asc '':''
     @ zfill 2 (str_nat (dt_minute d))"

text \<open>
  \<open>datetime.fromisoformat(due.replace('Z', '+00:00')) if due else None\<close>, for the value
  \<open>due\<close> of the key \<open>dueDate\<close>: a truthy value that is not a string has no \<open>replace\<close>.
\<close>

definition parse_due_date :: "env \<Rightarrow> json \<Rightarrow> exn + datetime option" where
  "parse_due_date env due =
     (if json_truthy due
      then (case due of
              JStr s \<Rightarrow> map_sum id Some (fromisoformat env (py_replace (asc ''Z'') (asc ''+00:00'') s))
            | _ \<Rightarrow> Inl (attribute_error due (asc ''replace'')))
      else Inr None)"

text \<open>
  \<open>project_map.get(project_name)\<close>. The keys of the project map are the names of the
  configured projects, so only a string finds an id; a list or a dict is not hashable.
\<close>

definition project_map_get :: "(pystr \<Rightarrow> pystr option) \<Rightarrow> json \<Rightarrow> exn + pystr option" where
  "project_map_get project_map name =
     (if hashable name
      then Inr (case name of JStr n \<Rightarrow> project_map n | _ \<Rightarrow> None)
      else Inl (unhashable_error (type_name name)))"

text \<open>
  The lines the loop appends to \<open>results\<close>: the warning "project not found: ", "task
  created: " with the lines for the project, the due time and the priority, and
  "creating task '...' failed: ". The line for a created task compares the priority
  with 0, which raises on a value that is not a number.
\<close>

definition txt_project_not_found :: pystr where
  "txt_project_not_found = [9888, 65039, 32, 25214, 19981, 21040, 39033, 30446, 58, 32]"

definition task_created_text ::
  "env \<Rightarrow> json \<Rightarrow> json \<Rightarrow> datetime option \<Rightarrow> json \<Rightarrow> exn + pystr" where
  "task_created_text env title project_name due_date priority =
     and_then (py_gt0 priority)
       (\<lambda>has_priority.
          Inr ([9989, 32, 24050, 21019, 24314, 20219, 21153, 58, 32] @ py_str env title
               @ (if json_truthy project_name
                  then [10, 128193, 32, 39033, 30446, 58, 32] @ py_str env project_name
                  else [])
               @ (case due_date of
                    Some d \<Rightarrow> [10, 9200, 32, 25130, 27490, 26102, 38388, 58, 32] @ strftime d
                  | None \<Rightarrow> [])
               @ (if has_priority
                  then [10, 128293, 32, 20248, 20808, 32423, 58, 32] @ priority_text priority
                  else [])))"

definition task_failed_text :: "env \<Rightarrow> json \<Rightarrow> exn \<Rightarrow> pystr" where
  "task_failed_text env title e =
     [10060, 32, 21019, 24314, 20219, 21153, 32, 39] @ py_str env title
     @ [39, 32, 22833, 36133, 58, 32] @ str_exn e"

text \<open>
  The handler of the inner \<open>try\<close> formats \<open>title\<close>, a local variable of \<open>_create_tasks\<close>
  that the loop's body assigns and that keeps its value from one pass to the next. While
  no pass has assigned it, reading it raises \<open>UnboundLocalError\<close>, and this exception of
  the handler leaves the loop. \<open>loop_vars\<close> are \<open>results\<close> and \<open>title\<close>, the latter
  \<open>None\<close> while it is unbound.
\<close>

type_synonym loop_vars = "pystr list \<times> json option"

definition txt_title_unbound :: pystr where
  "txt_title_unbound =
     asc ''cannot access local variable '' @ [39] @ asc ''title'' @ [39]
     @ asc '' where it is not associated with a value''"

definition item_failed :: "env \<Rightarrow> pystr list \<Rightarrow> json option \<Rightarrow> exn \<Rightarrow> loop_vars io" where
  "item_failed env results title e =
     (case title of
        None \<Rightarrow> io_raise (Exception txt_title_unbound)
      | Some t \<Rightarrow> io_return (results @ [task_failed_text env t e], title))"

text \<open>
  The body of the loop over the tasks, for one task. \<open>create_one\<close> is the whole pass with
  the handler of the inner \<open>try\<close>: \<open>task.get('projectId')\<close>, which only a dict has, the
  lookup of the project, and the warning with \<open>continue\<close>, all before \<open>title\<close> is
  assigned; then \<open>create_item\<close>, the rest of the \<open>try\<close> from the assignment of \<open>title\<close> on,
  for a task that is a dict with the items \<open>kvs\<close>.
\<close>

definition create_item ::
  "env \<Rightarrow> pystr option \<Rightarrow> (pystr \<times> json) list \<Rightarrow> json \<Rightarrow> pystr option \<Rightarrow> pystr list
   \<Rightarrow> pystr list io" where
  "create_item env user_id kvs project_name project_id results =
     (let title = dict_get kvs (asc ''title'') JNull;
          content = dict_get kvs (asc ''content'') JNull
      in io_bind (io_lift (parse_due_date env (dict_get kvs (asc ''dueDate'') JNull)))
           (\<lambda>due_date.
              let priority = dict_get kvs (asc ''priority'') (JInt 0);
                  is_all_day = dict_get kvs (asc ''isAllDay'') (JBool False);
                  reminders = dict_get kvs (asc ''reminders'') (JList []);
                  desc = dict_get kvs (asc ''desc'') (JStr [])
              in io_bind
                   (dida_service_add_task env
                      \<lparr>ta_user_id = user_id, ta_title = title, ta_content = content,
                       ta_project_id = project_id, ta_desc = desc,
                       ta_due_date = due_date, ta_priority = priority,
                       ta_is_all_day = is_all_day, ta_reminders = reminders\<rparr>)
                   (\<lambda>created_task.
                      if created_task
                      then io_bind
                             (io_lift (task_created_text env title project_name due_date
                                         priority))
                             (\<lambda>task_desc. io_return (results @ [task_desc]))
                      else io_return results)))"

definition create_one ::
  "env \<Rightarrow> pystr option \<Rightarrow> (pystr \<Rightarrow> pystr option) \<Rightarrow> json \<Rightarrow> loop_vars \<Rightarrow> loop_vars io"
  where
  "create_one env user_id project_map task vars =
     (case vars of
        (results, title) \<Rightarrow>
          (case task of
             JDict kvs \<Rightarrow>
               (let project_name = dict_get kvs (asc ''projectId'') JNull
                in case project_map_get project_map project_name of
                     Inl e \<Rightarrow> item_failed env results title e
                   | Inr project_id \<Rightarrow>
                       if \<not> truthy project_id \<and> json_truthy project_name
                       then io_return
                              (results @ [txt_project_not_found @ py_str env project_name],
                               title)
                       else
                         (let title1 = Some (dict_get kvs (asc ''title'') JNull)
                          in io_try
                               (io_bind
                                  (create_item env user_id kvs project_name project_id
                                     results)
                                  (\<lambda>results1. io_return (results1, title1)))
                               (item_failed env results title1)))
           | _ \<Rightarrow> item_failed env results title (attribute_error task (asc ''get''))))"

fun create_loop ::
  "env \<Rightarrow> pystr option \<Rightarrow> (pystr \<Rightarrow> pystr option) \<Rightarrow> json list \<Rightarrow> loop_vars \<Rightarrow> loop_vars io"
  where
  "create_loop env user_id project_map [] vars = io_return vars"
| "create_loop env user_id project_map (task # rest) vars =
     io_bind (create_one env user_id project_map task vars)
       (\<lambda>vars1. create_loop env user_id project_map rest vars1)"

text \<open>
  The report. \<open>tags_loop\<close> is the loop that wraps the tags over several lines: its
  arguments are \<open>len(tags)\<close>, the index \<open>i\<close>, \<open>current_line\<close>, \<open>tags_lines\<close> and the
  tags still to place.
\<close>

fun tags_loop :: "nat \<Rightarrow> nat \<Rightarrow> pystr \<Rightarrow> pystr list \<Rightarrow> pystr list \<Rightarrow> pystr list" where
  "tags_loop n i current_line tags_lines [] =
     tags_lines @ [py_replace txt_branch txt_corner current_line]"
| "tags_loop n i current_line tags_lines (tag # rest) =
     (if length (current_line @ tag) > 30
      then tags_loop n (i + 1) (txt_bar @ txt_bar @ tag)
             (tags_lines @ [if i + 1 = n then py_replace txt_branch txt_corner current_line
                            else current_line])
             rest
      else tags_loop n (i + 1) (current_line @ asc '' '' @ tag) tags_lines rest)"

definition report_note_lines :: "agent_state \<Rightarrow> pystr list" where
  "report_note_lines state =
     (if get_or (st_save_success state) False
      then
        (let format_content_result = get_or (st_format_content_result state)
               \<lparr>fr_content_type = None, fr_title = None, fr_summary = None,
                fr_content = None, fr_tags = None\<rparr>;
             content_type = get_or (fr_content_type format_content_result) txt_uncategorised;
             tags = get_or (fr_tags format_content_result) [];
             title = get_or (fr_title format_content_result) []
         in [[9500, 9472, 32, 128221, 32, 31508, 35760, 20449, 24687],
             txt_bar @ [9500, 9472, 32, 9989, 32] @ txt_saved]
            @ (if title \<noteq> [] then [txt_bar @ [9500, 9472, 32, 128204, 32] @ title] else [])
            @ [txt_bar @ [9500, 9472, 32, 128209, 32, 20998, 31867, 58, 32, 35] @ content_type]
            @ (if tags \<noteq> []
               then
                 (let hash_tags = map (\<lambda>tag. 35 # tag) tags;
                      formatted_tags = py_join (asc '' '') hash_tags
                  in if length formatted_tags > 30
                     then tags_loop (length tags) 0
                            (txt_bar @ [9500, 9472, 32, 127991, 65039, 32, 26631, 31614, 58, 32])
                            [] hash_tags
                     else [txt_bar @ [9492, 9472, 32, 127991, 65039, 32, 26631, 31614, 58, 32]
                           @ formatted_tags])
               else [txt_bar @ [9492, 9472, 32, 127991, 65039, 32] @ txt_no_tags]))
      else [])"

text \<open>
  The lines of task number \<open>i\<close> of \<open>n\<close> in the report. This part of \<open>_create_tasks\<close> is
  outside the loop's inner \<open>try\<close>: it reads the task's keys again, parses the due date
  again, compares the priority with 0 and measures the content, and what any of these
  raises goes to the handler of \<open>_create_tasks\<close>. \<open>displayed_content\<close> is the content as
  the report shows it, cut after 40 characters.
\<close>

definition displayed_content :: "env \<Rightarrow> json \<Rightarrow> exn + pystr" where
  "displayed_content env content =
     and_then (py_len content)
       (\<lambda>l. if l > 40
             then and_then (py_slice_to 40 content) (\<lambda>c. Inr (py_str env c @ asc ''...''))
             else Inr (py_str env content))"

definition report_task_lines :: "env \<Rightarrow> nat \<Rightarrow> nat \<Rightarrow> json \<Rightarrow> exn + pystr list" where
  "report_task_lines env n i task =
     and_then (py_get task (asc ''title'') (JStr []))
       (\<lambda>title.
     and_then (py_get task (asc ''projectId'') (JStr []))
       (\<lambda>project.
     and_then (py_get task (asc ''dueDate'') JNull)
       (\<lambda>due_date.
     and_then (py_get task (asc ''priority'') (JInt 0))
       (\<lambda>priority.
     and_then (py_get task (asc ''content'') (JStr []))
       (\<lambda>content.
          let is_last_task = (i = n);
              prefix = (if is_last_task then txt_corner else txt_branch);
              detail_prefix = (if is_last_task then asc ''   '' else txt_bar);
              title_line = txt_bar @ prefix @ asc '' '' @ str_nat i @ asc ''. ''
                           @ py_str env title;
              details0 = (if json_truthy project
                          then [txt_bar @ detail_prefix @ [9500, 9472, 32, 32]
                                @ py_str env project]
                          else [])
          in and_then (parse_due_date env due_date)
               (\<lambda>date.
                  let details1 = details0
                        @ (case date of
                             Some d \<Rightarrow> [txt_bar @ detail_prefix @ [9500, 9472, 32, 9200, 32]
                                        @ strftime d]
                           | None \<Rightarrow> [])
                  in and_then (py_gt0 priority)
                       (\<lambda>has_priority.
                          let details2 = details1
                                @ (if has_priority
                                   then [txt_bar @ detail_prefix @ [9500, 9472, 32, 128293, 32]
                                         @ priority_text priority @ [20248, 20808, 32423]]
                                   else [])
                          in and_then
                               (if json_truthy content
                                then and_then (displayed_content env content)
                                       (\<lambda>shown.
                                          Inr (details2
                                               @ [txt_bar @ detail_prefix
                                                  @ [9492, 9472, 32, 128221, 32] @ shown]))
                                else if details2 \<noteq> []
                                then Inr (butlast details2
                                          @ [py_replace txt_branch txt_corner (last details2)])
                                else Inr details2)
                               (\<lambda>details3.
                                  Inr ([title_line] @ details3
                                       @ (if \<not> is_last_task then [[9474]] else []))))))))))"

fun report_tasks :: "env \<Rightarrow> nat \<Rightarrow> nat \<Rightarrow> json list \<Rightarrow> exn + pystr list" where
  "report_tasks env n i [] = Inr []"
| "report_tasks env n i (task # rest) =
     (case report_task_lines env n i task of
        Inl e \<Rightarrow> Inl e
      | Inr ls \<Rightarrow>
          (case report_tasks env n (i + 1) rest of
             Inl e \<Rightarrow> Inl e
           | Inr rest_lines \<Rightarrow> Inr (ls @ rest_lines)))"

text \<open>
  \<open>build_report\<close> is the description of the final update: "processing complete", the
  note's lines, the tasks' lines or "no task detected", and a row of dots.
\<close>

definition build_report :: "env \<Rightarrow> agent_state \<Rightarrow> json list \<Rightarrow> exn + pystr" where
  "build_report env state tasks =
     (case (if tasks \<noteq> []
            then map_sum id
                   (\<lambda>ls. [[], [9500, 9472, 32, 128203, 32, 20219, 21153, 20449, 24687, 32, 40]
                               @ str_nat (length tasks) @ asc '')''] @ ls)
                   (report_tasks env (length tasks) 1 tasks)
            else Inr [[], [9492, 9472, 32, 128203, 32, 26410, 26816, 27979, 21040, 20219, 21153]])
      of Inl e \<Rightarrow> Inl e
       | Inr task_part \<Rightarrow>
           Inr (py_strip (py_join [10]
                  ([[10024, 32, 22788, 29702, 23436, 25104], []] @ report_note_lines state
                   @ task_part @ [[], [183, 32, 183, 32, 183, 32, 183, 32, 183, 32, 183]]))))"

text \<open>
  The part of \<open>_create_tasks\<close> after the \<open>if tasks:\<close> block: when there is a status
  message, build the report and send it as the final update; return the state with
  \<open>next\<close> set to END.
\<close>

definition create_tasks_report ::
  "env \<Rightarrow> agent \<Rightarrow> agent_state \<Rightarrow> json list \<Rightarrow> agent_state io" where
  "create_tasks_report env self state tasks =
     (let message = st_message state;
          status_message_id = st_status_message_id state
      in io_then
           (io_when (can_report self status_message_id)
              (io_bind (io_lift (build_report env state tasks))
                 (\<lambda>description.
                    update_status self message COMPLETED Step_COMPLETED None description
                      status_message_id [] False)))
           (io_return (state\<lparr>st_next := END\<rparr>)))"

definition create_tasks_try :: "env \<Rightarrow> agent \<Rightarrow> agent_state \<Rightarrow> agent_state io" where
  "create_tasks_try env self state =
     (let message = st_message state;
          status_message_id = st_status_message_id state;
          tasks = get_or (st_tasks state) [];
          user_id = md_user_id (msg_metadata message)
      in if tasks \<noteq> []
         then io_then
                (io_when (can_report self status_message_id)
                   (update_status self message PROCESSING Step_CREATING_TASKS (Some 0.98)
                      txt_creating status_message_id [] True))
                (if \<not> dida_service_configured env user_id
                 then io_return
                        (state\<lparr>st_error_message := Some txt_configure_dida, st_next := END\<rparr>)
                 else
                   (let projects_config = dida_projects env user_id;
                        project_map = map_of (rev projects_config)
                    in io_bind (create_loop env user_id project_map tasks ([], None))
                         (\<lambda>vars. create_tasks_report env self state tasks)))
         else create_tasks_report env self state tasks)"

definition create_tasks :: "env \<Rightarrow> agent \<Rightarrow> agent_state \<Rightarrow> agent_state io" where
  "create_tasks env self state =
     (let message = st_message state;
          status_message_id = st_status_message_id state
      in io_try (create_tasks_try env self state)
           (\<lambda>e. io_then
                  (io_when (can_report self status_message_id)
                     (update_status self message FAILED Step_ERROR (Some 0.0)
                        (txt_cross @ txt_create_failed @ str_exn e) status_message_id []
                        False))
                  (io_return (state\<lparr>st_error_message := Some (str_exn e), st_next := END\<rparr>))))"

subsection \<open>The graph\<close>

text \<open>
  \<open>_create_workflow\<close> builds the graph: START to precheck; from precheck by
  \<open>_route_after_url_check\<close> to url_summary or format_content; url_summary to
  format_content; format_content to save_notion; from save_notion by
  \<open>_route_after_save\<close> through the path map with the keys extract_tasks and create_tasks;
  extract_tasks to create_tasks; create_tasks to END. The edges are followed whatever the
  key \<open>next\<close> of the state holds. A node's exception leaves the graph.

  The graph library is not part of the repository. \<open>_route_after_save\<close> can return END,
  which is not a key of its path map. The library looks the answer of the router up in
  the path map and raises \<open>KeyError('__end__')\<close>: this is \<open>strict = True\<close>, and the
  properties of the routing are stated for it. With \<open>strict = False\<close> the model also
  describes a library that would end the run there; the properties of the status updates
  hold for both.
\<close>

definition log_node :: "node \<Rightarrow> unit io" where
  "log_node n = (\<lambda>w. (Inr (), w\<lparr>nodes_run := nodes_run w @ [n]\<rparr>))"

definition run_node :: "node \<Rightarrow> agent_state io \<Rightarrow> agent_state io" where
  "run_node n f = io_then (log_node n) f"

definition txt_key_error_end :: pystr where
  "txt_key_error_end = [39] @ asc ''__end__'' @ [39]"

definition path_map_after_save :: "bool \<Rightarrow> node \<Rightarrow> node io" where
  "path_map_after_save strict r =
     (case map_of [(ExtractTasks, ExtractTasks), (CreateTasks, CreateTasks)] r of
        Some dest \<Rightarrow> io_return dest
      | None \<Rightarrow> if strict then io_raise (Exception txt_key_error_end) else io_return r)"

definition after_save :: "bool \<Rightarrow> env \<Rightarrow> agent \<Rightarrow> agent_state \<Rightarrow> agent_state io" where
  "after_save strict env self state =
     io_bind (path_map_after_save strict (route_after_save state))
       (\<lambda>dest.
          if dest = ExtractTasks
          then io_bind (run_node ExtractTasks (extract_tasks env self state))
                 (\<lambda>s. run_node CreateTasks (create_tasks env self s))
          else if dest = CreateTasks
          then run_node CreateTasks (create_tasks env self state)
          else io_return state)"

definition ainvoke :: "bool \<Rightarrow> env \<Rightarrow> agent \<Rightarrow> agent_state \<Rightarrow> agent_state io" where
  "ainvoke strict env self state =
     io_bind (run_node Precheck (content_precheck env self state))
       (\<lambda>s1. io_bind
                (if route_after_url_check s1 = UrlSummary
                 then run_node UrlSummary (url_summary s1)
                 else io_return s1)
          (\<lambda>s2. io_bind (run_node FormatContent (format_content env self s2))
             (\<lambda>s3. io_bind (run_node SaveNotion (save_to_notion env self s3))
                (\<lambda>s4. after_save strict env self s4))))"

subsection \<open>Processing one message\<close>

datatype process_result = Results | Error pystr

definition initial_state :: "message \<Rightarrow> pystr option \<Rightarrow> pystr option \<Rightarrow> agent_state" where
  "initial_state message background status_message_id =
     \<lparr>st_message = message,
      st_text_content = msg_text message,
      st_media_files = msg_files message,
      st_background = (if truthy background then the background else []),
      st_status_message_id = status_message_id,
      st_format_content_result = None,
      st_precheck_result = None,
      st_tasks = None,
      st_next = START,
      st_save_success = None,
      st_error_message = None,
      st_notion_page = None,
      st_thread_id = md_chat_id (msg_metadata message)\<rparr>"

text \<open>
  \<open>process\<close>. \<open>process_begin\<close> is the part of the \<open>try\<close> before the state is built: it
  sets the agent's background and updater and creates the status message; it returns the
  agent and \<open>status_message_id\<close>. \<open>process_except\<close> is the handler, which reads the
  agent's updater and \<open>status_message_id\<close> as they are when the exception arrives:
  \<open>status_message_id\<close> is still \<open>None\<close> while \<open>process_begin\<close> runs.
\<close>

definition process_begin ::
  "env \<Rightarrow> agent \<Rightarrow> message \<Rightarrow> pystr option \<Rightarrow> updater option
   \<Rightarrow> (agent \<times> pystr option) io" where
  "process_begin env self message background updater_arg =
     (let user_id = fmt_opt (md_user_id (msg_metadata message));
          ub = get_user_background env user_id;
          self1 = self\<lparr>user_background :=
                    (if truthy background
                     then (if ub \<noteq> [] then ub @ [10] @ the background else the background)
                     else ub)\<rparr>
      in case updater_arg of
           None \<Rightarrow> io_return (self1, None)
         | Some u \<Rightarrow>
             (let self2 = self1\<lparr>telegram_status_updater := Some u\<rparr>
              in io_bind
                   (update_status self2 message PROCESSING Step_INITIALIZED (Some 0.1)
                      txt_start None [] True)
                   (\<lambda>status_message.
                      io_return
                        (self2,
                         map_option (\<lambda>m. str_int (tg_message_id m)) status_message))))"

definition process_except ::
  "agent \<Rightarrow> message \<Rightarrow> pystr option \<Rightarrow> exn \<Rightarrow> process_result io" where
  "process_except self message status_message_id e =
     io_then
       (io_when (can_report self status_message_id)
          (update_status self message FAILED Step_ERROR (Some 0.0)
             (txt_cross @ simplify_error (str_exn e)) status_message_id [] False))
       (io_return (Error (str_exn e)))"

definition process ::
  "bool \<Rightarrow> env \<Rightarrow> agent \<Rightarrow> message \<Rightarrow> pystr option \<Rightarrow> updater option \<Rightarrow> process_result io"
  where
  "process strict env self message background updater_arg =
     io_try
       (io_bind (process_begin env self message background updater_arg)
          (\<lambda>(self1, status_message_id).
             io_try
               (io_bind
                  (ainvoke strict env self1
                     (initial_state message background status_message_id))
                  (\<lambda>final_state. io_return Results))
               (process_except self1 message status_message_id)))
       (process_except self message None)"

section \<open>The worker\<close>





section \<open>Notions used in the properties\<close>

text \<open>
  The calls on the Bot that one status update with a known \<open>status_message_id\<close> makes
  through the \<open>TelegramStateManager\<close>: one \<open>edit_text\<close> on the stored message, or none
  when there is no Bot or no stored message.
\<close>

definition edit_ops :: "bot option \<Rightarrow> tg_message option \<Rightarrow> pystr \<Rightarrow> transport_op list" where
  "edit_ops b mo text =
     (case b of
        None \<Rightarrow> []
      | Some bt \<Rightarrow> (case mo of None \<Rightarrow> [] | Some m \<Rightarrow> [EditText m text]))"

text \<open>
  The progress a status update shows: its \<open>progress\<close> argument when \<open>show_progress\<close>
  holds, and none otherwise. \<open>progress_values\<close> are the values a list of updates shows,
  in order.
\<close>

definition shown_progress :: "status_call \<Rightarrow> real option" where
  "shown_progress c = (if sc_show_progress c then sc_progress c else None)"

definition progress_values :: "status_call list \<Rightarrow> real list" where
  "progress_values cs = concat (map (\<lambda>c. case shown_progress c of None \<Rightarrow> [] | Some p \<Rightarrow> [p]) cs)"

text \<open>The text the \<open>TelegramStateManager\<close> renders for a status update.\<close>

definition rendered :: "status_call \<Rightarrow> pystr" where
  "rendered c =
     sm_format_status_text (shown_progress c) (step_value (sc_step c)) (sc_description c)
       (sc_emoji c)"

text \<open>
  The calls on the Bot that a status update makes through a \<open>TelegramStateManager\<close> with
  the dictionary \<open>sm\<close>, when the update carries a non-empty \<open>status_message_id\<close>.
\<close>

definition call_ops :: "bot option \<Rightarrow> (pystr \<Rightarrow> tg_message option) \<Rightarrow> status_call \<Rightarrow> transport_op list"
  where
  "call_ops b sm c =
     (case sc_status_message_id c of
        None \<Rightarrow> []
      | Some sid \<Rightarrow> edit_ops b (sm sid) (rendered c))"

text \<open>
  \<open>advances b P sido lo hi w w'\<close>: from \<open>w\<close> to \<open>w'\<close> the dictionary of status messages
  is unchanged, and status updates \<open>cs\<close> were made such that each carries the
  \<open>status_message_id\<close> \<open>sido\<close> and satisfies \<open>P\<close>, the progress values they show are in
  order and lie between \<open>lo\<close> and \<open>hi\<close>, and the calls on the Bot are exactly the edits
  of these updates.
\<close>

definition advances ::
  "bot option \<Rightarrow> (status_call \<Rightarrow> bool) \<Rightarrow> pystr option \<Rightarrow> real \<Rightarrow> real \<Rightarrow> world \<Rightarrow> world \<Rightarrow> bool"
  where
  "advances b P sido lo hi w w' =
     (status_messages w' = status_messages w \<and>
      (\<exists>cs. status_calls w' = status_calls w @ cs
            \<and> list_all (\<lambda>c. P c \<and> sc_status_message_id c = sido) cs
            \<and> sorted (progress_values cs)
            \<and> list_all (\<lambda>p. lo \<le> p \<and> p \<le> hi) (progress_values cs)
            \<and> transport w' = transport w @ concat (map (call_ops b (status_messages w)) cs)))"

text \<open>
  A status update that either shows a progress value or passes no emoji: the two cases
  that all updates of a run fall into.
\<close>

definition verbatim_call :: "status_call \<Rightarrow> bool" where
  "verbatim_call c = (case shown_progress c of None \<Rightarrow> sc_emoji c = [] | Some p \<Rightarrow> True)"

text \<open>
  For one task of the batch. \<open>looked_up\<close>: the task is a dict and its project name is
  hashable, so that the pass reaches the test for the warning. \<open>unresolved\<close>: it
  does and the project name is truthy and has no id, the case of the warning.
  \<open>task_args_of\<close>: the arguments of the call on the task store for a dict with the items
  \<open>kvs\<close>, once the project id and the due date are known.
\<close>

definition project_of :: "(pystr \<Rightarrow> pystr option) \<Rightarrow> json \<Rightarrow> exn + json \<times> pystr option" where
  "project_of project_map task =
     and_then (py_get task (asc ''projectId'') JNull)
       (\<lambda>project_name.
          and_then (project_map_get project_map project_name)
            (\<lambda>project_id. Inr (project_name, project_id)))"

definition looked_up :: "(pystr \<Rightarrow> pystr option) \<Rightarrow> json \<Rightarrow> bool" where
  "looked_up project_map task = (case project_of project_map task of Inl e \<Rightarrow> False | Inr p \<Rightarrow> True)"

definition unresolved :: "(pystr \<Rightarrow> pystr option) \<Rightarrow> json \<Rightarrow> bool" where
  "unresolved project_map task =
     (case project_of project_map task of
        Inl e \<Rightarrow> False
      | Inr (project_name, project_id) \<Rightarrow> \<not> truthy project_id \<and> json_truthy project_name)"

definition task_args_of ::
  "pystr option \<Rightarrow> pystr option \<Rightarrow> (pystr \<times> json) list \<Rightarrow> datetime option \<Rightarrow> task_args" where
  "task_args_of user_id project_id kvs due_date =
     \<lparr>ta_user_id = user_id, ta_title = dict_get kvs (asc ''title'') JNull,
      ta_content = dict_get kvs (asc ''content'') JNull,
      ta_project_id = project_id, ta_desc = dict_get kvs (asc ''desc'') (JStr []),
      ta_due_date = due_date, ta_priority = dict_get kvs (asc ''priority'') (JInt 0),
      ta_is_all_day = dict_get kvs (asc ''isAllDay'') (JBool False),
      ta_reminders = dict_get kvs (asc ''reminders'') (JList [])\<rparr>"

text \<open>
  The call on the task store that a pass of the loop makes for a task, if it makes one:
  none when the project is not looked up or is unresolved, or the due date does not parse.
\<close>

definition task_call ::
  "env \<Rightarrow> pystr option \<Rightarrow> (pystr \<Rightarrow> pystr option) \<Rightarrow> json \<Rightarrow> store_call list" where
  "task_call env user_id project_map task =
     (case task of
        JDict kvs \<Rightarrow>
          (case project_of project_map task of
             Inl e \<Rightarrow> []
           | Inr (project_name, project_id) \<Rightarrow>
               if \<not> truthy project_id \<and> json_truthy project_name then []
               else (case parse_due_date env (dict_get kvs (asc ''dueDate'') JNull) of
                       Inl e \<Rightarrow> []
                     | Inr due_date \<Rightarrow> [AddTask (task_args_of user_id project_id kvs due_date)]))
      | _ \<Rightarrow> [])"

text \<open>
  The three shapes of the status updates of a run: a progress update shows a progress
  value; an error update and the final report show none and pass no emoji, and the
  report has no progress value at all.
\<close>

definition call_shape :: "status_call \<Rightarrow> bool" where
  "call_shape c =
     (case sc_status c of
        PROCESSING \<Rightarrow> sc_show_progress c \<and> (case sc_progress c of None \<Rightarrow> False | Some p \<Rightarrow> True)
      | FAILED \<Rightarrow> \<not> sc_show_progress c \<and> sc_emoji c = []
      | COMPLETED \<Rightarrow>
          \<not> sc_show_progress c \<and> sc_emoji c = []
          \<and> (case sc_progress c of None \<Rightarrow> True | Some p \<Rightarrow> False)
      | RECEIVED \<Rightarrow> False)"

text \<open>
  The record of a status update with the given arguments, and the world after an update
  \<open>c\<close> guarded by \<open>if self.telegram_status_updater and status_message_id\<close>, when the
  updater is a \<open>TelegramStateManager\<close> with the Bot \<open>b\<close>: with a non-empty
  \<open>status_message_id\<close> the update is recorded and its edit is made, otherwise nothing
  happens.
\<close>

definition mk_call ::
  "message_status \<Rightarrow> process_step \<Rightarrow> real option \<Rightarrow> pystr \<Rightarrow> pystr option \<Rightarrow> pystr \<Rightarrow> bool
   \<Rightarrow> status_call" where
  "mk_call status step progress description smid emoji show =
     \<lparr>sc_status = status, sc_step = step, sc_progress = progress,
      sc_description = description, sc_status_message_id = smid,
      sc_emoji = emoji, sc_show_progress = show\<rparr>"

definition sm_report :: "bot option \<Rightarrow> status_call \<Rightarrow> world \<Rightarrow> world" where
  "sm_report b c w =
     (if truthy (sc_status_message_id c)
      then w\<lparr>transport := transport w @ call_ops b (status_messages w) c,
             status_calls := status_calls w @ [c]\<rparr>
      else w)"

text \<open>
  The arguments of the call on the note store for a state and a format result, and the
  profile and project names that \<open>_extract_tasks\<close> reads from the agent's background.
\<close>

definition note_args_of :: "agent_state \<Rightarrow> format_result \<Rightarrow> note_args" where
  "note_args_of state r =
     \<lparr>na_user_id = md_user_id (msg_metadata (st_message state)),
      na_raw_content = st_text_content state,
      na_content = format_content_text (st_text_content state) r,
      na_content_type = get_or (fr_content_type r) txt_uncategorised,
      na_files = st_media_files state,
      na_source = md_platform (msg_metadata (st_message state)),
      na_tags = get_or (fr_tags r) [],
      na_title = fr_title r,
      na_summary = fr_summary r\<rparr>"

definition background_args :: "env \<Rightarrow> agent \<Rightarrow> exn + pystr \<times> pystr" where
  "background_args env self =
     (case parse_background env (user_background self) of
        BgParsed profile project_names \<Rightarrow> Inr (profile, project_names)
      | BgDecodeError \<Rightarrow> Inr ([], asc ''[]'')
      | BgOtherError e \<Rightarrow> Inl e)"

text \<open>
  What the handlers of the three later nodes return for an exception \<open>e\<close>, with a
  \<open>TelegramStateManager\<close> as updater: the error state, and the world after the error
  update.
\<close>

definition save_failed ::
  "bot option \<Rightarrow> agent_state \<Rightarrow> exn \<Rightarrow> world \<Rightarrow> (exn + agent_state) \<times> world" where
  "save_failed b state e w =
     (Inr (state\<lparr>st_error_message := Some (simplify_error (str_exn e)),
                 st_save_success := Some False, st_next := END\<rparr>),
      sm_report b
        (mk_call FAILED Step_SAVING_TO_NOTION (Some 0) (txt_cross @ simplify_error (str_exn e))
           (st_status_message_id state) [] False) w)"

definition extract_failed ::
  "bot option \<Rightarrow> agent_state \<Rightarrow> exn \<Rightarrow> world \<Rightarrow> (exn + agent_state) \<times> world" where
  "extract_failed b state e w =
     (Inr (state\<lparr>st_error_message := Some (txt_extract_failed @ str_exn e), st_next := END\<rparr>),
      sm_report b
        (mk_call FAILED Step_ERROR (Some 0) (txt_cross @ txt_extract_failed @ str_exn e)
           (st_status_message_id state) [] False) w)"

definition create_failed ::
  "bot option \<Rightarrow> agent_state \<Rightarrow> exn \<Rightarrow> world \<Rightarrow> (exn + agent_state) \<times> world" where
  "create_failed b state e w =
     (Inr (state\<lparr>st_error_message := Some (str_exn e), st_next := END\<rparr>),
      sm_report b
        (mk_call FAILED Step_ERROR (Some 0) (txt_cross @ txt_create_failed @ str_exn e)
           (st_status_message_id state) [] False) w)"

text \<open>
  The end of \<open>_create_tasks\<close> with a \<open>TelegramStateManager\<close> as updater: with a status
  message the report is built and sent, or the handler runs when building it raises;
  without one the state is returned.
\<close>

definition report_call :: "pystr option \<Rightarrow> pystr \<Rightarrow> status_call" where
  "report_call smid description =
     mk_call COMPLETED Step_COMPLETED None description smid [] False"

definition create_finished ::
  "bot option \<Rightarrow> env \<Rightarrow> agent_state \<Rightarrow> world \<Rightarrow> (exn + agent_state) \<times> world" where
  "create_finished b env state w =
     (if truthy (st_status_message_id state)
      then (case build_report env state (get_or (st_tasks state) []) of
              Inl e \<Rightarrow> create_failed b state e w
            | Inr description \<Rightarrow>
                (Inr (state\<lparr>st_next := END\<rparr>),
                 sm_report b (report_call (st_status_message_id state) description) w))
      else (Inr (state\<lparr>st_next := END\<rparr>), w))"





text \<open>
  The status update that announces the creation of the tasks, and the project name and
  the title of a task as the loop reads them.
\<close>

definition creating_call :: "pystr option \<Rightarrow> status_call" where
  "creating_call smid =
     mk_call PROCESSING Step_CREATING_TASKS (Some 0.98) txt_creating smid [] True"

definition project_name_of :: "json \<Rightarrow> json" where
  "project_name_of task =
     (case task of JDict kvs \<Rightarrow> dict_get kvs (asc ''projectId'') JNull | _ \<Rightarrow> JNull)"

definition title_of :: "json \<Rightarrow> json" where
  "title_of task = (case task of JDict kvs \<Rightarrow> dict_get kvs (asc ''title'') JNull | _ \<Rightarrow> JNull)"

text \<open>The status update with which \<open>process\<close> reports the key error of the graph.\<close>

definition key_error_call :: "pystr option \<Rightarrow> status_call" where
  "key_error_call smid =
     mk_call FAILED Step_ERROR (Some 0) (txt_cross @ txt_key_error_end) smid [] False"


section \<open>Example inputs\<close>

text \<open>
  A message, an empty world, a Bot that answers every call (the status message it sends
  has the identifier 7), three tasks (one in the configured project Shopping, one in an
  unknown project, one that the task store rejects) and collaborators that all succeed,
  except that the task store raises for the task titled B.
\<close>

definition ex_message :: message where
  "ex_message =
     \<lparr>msg_metadata = \<lparr>md_message_id = asc ''41'', md_platform = asc ''telegram'',
                      md_chat_id = asc ''9'', md_user_id = Some (asc ''5'')\<rparr>,
      msg_text = asc ''Buy milk'', msg_files = []\<rparr>"

definition ex_world :: world where
  "ex_world =
     \<lparr>status_messages = (\<lambda>k. None), transport = [], status_calls = [], nodes_run = [],
      store_calls = []\<rparr>"

definition ex_bot :: bot where
  "ex_bot =
     \<lparr>send_message = (\<lambda>h c t r. Inr \<lparr>tg_chat_id = c, tg_message_id = 7\<rparr>),
      edit_text = (\<lambda>h m t. None),
      edit_message_text = (\<lambda>h c m t. None)\<rparr>"

definition ex_items_a :: "(pystr \<times> json) list" where
  "ex_items_a = [(asc ''projectId'', JStr (asc ''Shopping'')), (asc ''title'', JStr (asc ''A''))]"

definition ex_items_unknown :: "(pystr \<times> json) list" where
  "ex_items_unknown =
     [(asc ''projectId'', JStr (asc ''Nowhere'')), (asc ''title'', JStr (asc ''U''))]"

definition ex_items_b :: "(pystr \<times> json) list" where
  "ex_items_b = [(asc ''projectId'', JStr (asc ''Shopping'')), (asc ''title'', JStr (asc ''B''))]"

definition ex_task_a :: json where
  "ex_task_a = JDict ex_items_a"

definition ex_task_unknown :: json where
  "ex_task_unknown = JDict ex_items_unknown"

definition ex_task_b :: json where
  "ex_task_b = JDict ex_items_b"

definition ex_env :: env where
  "ex_env =
     \<lparr>url_text_analyzer =
        (\<lambda>t. Inr \<lparr>contains_url = Some False, contains_text = Some True, urls = None\<rparr>),
      llm_format_content =
        (\<lambda>c b. Inr \<lparr>fr_content_type = Some (asc ''Note''), fr_title = Some (asc ''Milk''),
                     fr_summary = Some (asc ''s''), fr_content = Some (asc ''c''),
                     fr_tags = Some [asc ''home'']\<rparr>),
      add_note = (\<lambda>h a. Inr (Some (asc ''page''))),
      parse_background = (\<lambda>b. BgDecodeError),
      llm_extract_tasks = (\<lambda>c p n. Inr [ex_task_a]),
      get_user_background = (\<lambda>u. []),
      dida_service_configured = (\<lambda>u. True),
      dida_projects = (\<lambda>u. [(asc ''Shopping'', asc ''p1'')]),
      add_task = (\<lambda>h a. if ta_title a = JStr (asc ''B'')
                         then Inl (Exception (asc ''store: down'')) else Inr True),
      fromisoformat =
        (\<lambda>s. Inr \<lparr>dt_year = 2024, dt_month = 1, dt_day = 2, dt_hour = 18, dt_minute = 0\<rparr>),
      py_repr = (\<lambda>v. asc ''?'')\<rparr>"

definition ex_project_map :: "pystr \<Rightarrow> pystr option" where
  "ex_project_map = map_of (rev (dida_projects ex_env (Some (asc ''5''))))"

text \<open>An agent without an updater, and one with the state manager of \<open>ex_bot\<close>.\<close>

definition ex_agent_silent :: agent where
  "ex_agent_silent = \<lparr>telegram_status_updater = None, user_background = []\<rparr>"

definition ex_agent :: agent where
  "ex_agent =
     \<lparr>telegram_status_updater = Some (TelegramStateManager (Some ex_bot)),
      user_background = []\<rparr>"

definition ex_env_classifier_down :: env where
  "ex_env_classifier_down =
     ex_env\<lparr>url_text_analyzer := (\<lambda>t. Inl (Exception (asc ''llm: timeout'')))\<rparr>"



text \<open>
  A state that has reached CREATE_TASKS with the status message 7 and a batch of three
  tasks, and collaborators without a configured task service.
\<close>

definition ex_state_tasks :: agent_state where
  "ex_state_tasks =
     (initial_state ex_message None (Some (asc ''7'')))
       \<lparr>st_save_success := Some True,
        st_tasks := Some [ex_task_unknown, ex_task_b, ex_task_a]\<rparr>"


text \<open>
  The first status update of a run, which \<open>process\<close> makes without a
  \<open>status_message_id\<close>, so that it creates the status message.
\<close>

definition start_call :: status_call where
  "start_call = mk_call PROCESSING Step_INITIALIZED (Some 0.1) txt_start None [] True"

text \<open>
  The run of \<open>process\<close> on the example message with the state manager of \<open>ex_bot\<close>,
  when the classifier is down.
\<close>

definition ex_run_classifier_down :: "(exn + process_result) \<times> world" where
  "ex_run_classifier_down =
     process False ex_env_classifier_down ex_agent_silent ex_message None
       (Some (TelegramStateManager (Some ex_bot))) ex_world"

text \<open>
  Whether a result of the note store counts as a saved note for \<open>_save_to_notion\<close>: a
  returned, non-empty entry.
\<close>

definition note_saved :: "exn + pystr option \<Rightarrow> bool" where
  "note_saved r = (case r of Inl e \<Rightarrow> False | Inr entry \<Rightarrow> truthy entry)"

text \<open>\<open>has_text\<close> as \<open>_route_after_save\<close> reads it from the state.\<close>

definition state_has_text :: "agent_state \<Rightarrow> bool" where
  "state_has_text state =
     get_or (contains_text (get_or (st_precheck_result state)
                              \<lparr>contains_url = None, contains_text = None, urls = None\<rparr>))
       False"

text \<open>
  Collaborators whose classifier finds no text in the message, and the state with which
  a run of the graph starts when the status message is 7.
\<close>

definition ex_env_no_text :: env where
  "ex_env_no_text =
     ex_env\<lparr>url_text_analyzer :=
              (\<lambda>t. Inr \<lparr>contains_url = Some False, contains_text = Some False, urls = None\<rparr>)\<rparr>"

definition ex_state_start :: agent_state where
  "ex_state_start = initial_state ex_message None (Some (asc ''7''))"

text \<open>
  Collaborators whose formatter raises a nested message, a world in which the status
  message 7 is stored, and the run of the graph on them.
\<close>

definition ex_env_format_down :: env where
  "ex_env_format_down =
     ex_env\<lparr>llm_format_content := (\<lambda>c b. Inl (Exception (asc ''outer: inner'')))\<rparr>"

definition ex_status_message :: tg_message where
  "ex_status_message = \<lparr>tg_chat_id = asc ''9'', tg_message_id = 7\<rparr>"

definition ex_world_tracking :: world where
  "ex_world_tracking =
     ex_world\<lparr>status_messages := (\<lambda>k. if k = asc ''7'' then Some ex_status_message else None)\<rparr>"

text \<open>
  The status updates of PRECHECK and of SAVE_NOTION on a state without a format result,
  and the state SAVE_NOTION's handler returns there.
\<close>

definition saving_call :: "pystr option \<Rightarrow> status_call" where
  "saving_call smid =
     mk_call PROCESSING Step_SAVING_TO_NOTION (Some 0.7) txt_saving smid [] True"

definition format_empty_call :: "pystr option \<Rightarrow> status_call" where
  "format_empty_call smid =
     mk_call FAILED Step_SAVING_TO_NOTION (Some 0) (txt_cross @ txt_format_empty) smid [] False"

definition precheck_calls :: "pystr option \<Rightarrow> precheck \<Rightarrow> status_call list" where
  "precheck_calls smid r =
     [mk_call PROCESSING Step_PREPROCESSING (Some 0.2) txt_prechecking smid [128269] True,
      mk_call PROCESSING Step_PREPROCESSING (Some 0.3) (get_precheck_status_text r) smid
        [10024] True]"

definition format_failed_state :: "agent_state \<Rightarrow> precheck \<Rightarrow> agent_state" where
  "format_failed_state s r =
     s\<lparr>st_precheck_result := Some r, st_error_message := Some txt_format_empty,
       st_save_success := Some False, st_next := END\<rparr>"

definition ex_precheck :: precheck where
  "ex_precheck = \<lparr>contains_url = Some False, contains_text = Some True, urls = None\<rparr>"

definition ex_run_format_down :: "(exn + agent_state) \<times> world" where
  "ex_run_format_down =
     ainvoke True ex_env_format_down ex_agent ex_state_start ex_world_tracking"




text \<open>
  Collaborators for which every task of the batch is created: the task store always
  succeeds and the project "Nowhere" is configured.
\<close>

definition ex_env_all_created :: env where
  "ex_env_all_created =
     ex_env\<lparr>add_task := (\<lambda>h a. Inr True),
            dida_projects := (\<lambda>u. [(asc ''Shopping'', asc ''p1''), (asc ''Nowhere'', asc ''p2'')])\<rparr>"

text \<open>
  The agent and the world as \<open>process\<close> leaves them when it has created the status
  message 7 for the example message, and the runs of \<open>process\<close> on the example message
  with a classifier that finds no text and with a formatter that raises. In both the
  path map is the one of the graph library, which raises for END.
\<close>

definition ex_agent_started :: agent where
  "ex_agent_started =
     ex_agent_silent\<lparr>user_background := [],
                      telegram_status_updater := Some (TelegramStateManager (Some ex_bot))\<rparr>"

definition ex_world_started :: world where
  "ex_world_started =
     ex_world\<lparr>status_calls := [start_call],
              transport := [SendMessage (asc ''9'') (rendered start_call) (ReplyStr (asc ''41''))],
              status_messages := (status_messages ex_world)(asc ''7'' \<mapsto> ex_status_message)\<rparr>"

definition ex_process_no_text :: "(exn + process_result) \<times> world" where
  "ex_process_no_text =
     process True ex_env_no_text ex_agent_silent ex_message None
       (Some (TelegramStateManager (Some ex_bot))) ex_world"

definition ex_process_format_down :: "(exn + process_result) \<times> world" where
  "ex_process_format_down =
     process True ex_env_format_down ex_agent_silent ex_message None
       (Some (TelegramStateManager (Some ex_bot))) ex_world"


section \<open>Properties\<close>

subsection \<open>The status helper\<close>

lemmas io_simps =
  io_return_def io_raise_def io_lift_def io_bind_def io_then_def io_try_def io_when_def

lemma update_status_fst:
  "fst (update_status self message status step progress description smid emoji show w) =
     Inr (case fst (update_status_try self message status step progress description smid emoji
                      show
                      (w\<lparr>status_calls := status_calls w @
                          [\<lparr>sc_status = status, sc_step = step, sc_progress = progress,
                            sc_description = description, sc_status_message_id = smid,
                            sc_emoji = emoji, sc_show_progress = show\<rparr>]\<rparr>)) of
            Inl e \<Rightarrow> None
          | Inr r \<Rightarrow> r)"
  by (simp add: update_status_def log_status_call_def io_simps split: prod.splits sum.splits)

text \<open>
  C10. For every agent (any updater, whose methods may raise), all arguments and every
  world, \<open>_update_status\<close> returns a value and raises nothing: its result is what the body
  of its \<open>try\<close> returns, and \<open>None\<close> when that body raises.
\<close>

theorem update_status_never_raises:
  "fst (update_status self message status step progress description smid emoji show w) =
     Inr (case fst (update_status_try self message status step progress description smid emoji
                      show
                      (w\<lparr>status_calls := status_calls w @
                          [\<lparr>sc_status = status, sc_step = step, sc_progress = progress,
                            sc_description = description, sc_status_message_id = smid,
                            sc_emoji = emoji, sc_show_progress = show\<rparr>]\<rparr>)) of
            Inl e \<Rightarrow> None
          | Inr r \<Rightarrow> r)"
  by (rule update_status_fst)

lemma update_status_sm_edit:
  assumes "telegram_status_updater self = Some (TelegramStateManager b)" and "sid \<noteq> []"
  shows "update_status self message status step progress description (Some sid) emoji show w =
     (Inr None,
      w\<lparr>transport := transport w @ edit_ops b (status_messages w sid)
            (sm_format_status_text (if show then progress else None) (step_value step)
               description emoji),
        status_calls := status_calls w @
          [\<lparr>sc_status = status, sc_step = step, sc_progress = progress,
            sc_description = description, sc_status_message_id = Some sid,
            sc_emoji = emoji, sc_show_progress = show\<rparr>]\<rparr>)"
  using assms
  by (auto simp: update_status_def update_status_try_def log_status_call_def io_simps truthy_def
      TelegramStateManager_def sm_update_status_message_def message_edit_text_def edit_ops_def
      split: prod.splits sum.splits option.splits)

lemma progress_values_append [simp]: "progress_values (xs @ ys) = progress_values xs @ progress_values ys"
  by (simp add: progress_values_def)

lemma progress_values_Nil [simp]: "progress_values [] = []"
  by (simp add: progress_values_def)

lemma progress_values_Cons: "progress_values (c # cs) = (case shown_progress c of None \<Rightarrow> [] | Some p \<Rightarrow> [p]) @ progress_values cs"
  by (simp add: progress_values_def)

lemma advances_refl: "advances b P sido lo hi w w"
  by (simp add: advances_def)

lemma advances_trans:
  assumes "advances b P sido l1 h1 w w1" and "advances b P sido l2 h2 w1 w2" and "l1 \<le> h1" and "h1 \<le> l2" and "l2 \<le> h2"
  shows "advances b P sido l1 h2 w w2"
proof -
  from assms(1) obtain cs where cs: "status_messages w1 = status_messages w" "status_calls w1 = status_calls w @ cs"
    "list_all (\<lambda>c. P c \<and> sc_status_message_id c = sido) cs" "sorted (progress_values cs)"
    "list_all (\<lambda>p. l1 \<le> p \<and> p \<le> h1) (progress_values cs)"
    "transport w1 = transport w @ concat (map (call_ops b (status_messages w)) cs)"
    by (auto simp: advances_def)
  from assms(2) obtain ds where ds: "status_messages w2 = status_messages w1" "status_calls w2 = status_calls w1 @ ds"
    "list_all (\<lambda>c. P c \<and> sc_status_message_id c = sido) ds" "sorted (progress_values ds)"
    "list_all (\<lambda>p. l2 \<le> p \<and> p \<le> h2) (progress_values ds)"
    "transport w2 = transport w1 @ concat (map (call_ops b (status_messages w1)) ds)"
    by (auto simp: advances_def)
  have "sorted (progress_values (cs @ ds))"
    using cs(4,5) ds(4,5) assms(3,4,5) by (fastforce simp: sorted_append list_all_iff)
  moreover have "list_all (\<lambda>p. l1 \<le> p \<and> p \<le> h2) (progress_values (cs @ ds))"
    using cs(5) ds(5) assms(3,4,5) by (fastforce simp: list_all_iff)
  ultimately show ?thesis
    unfolding advances_def using cs ds
    by (intro conjI exI[of _ "cs @ ds"]) simp_all
qed

lemma advances_widen:
  assumes "advances b P sido l h w w'" and "l' \<le> l" and "h \<le> h'" and "\<And>c. P c \<Longrightarrow> Q c"
  shows "advances b Q sido l' h' w w'"
  using assms unfolding advances_def list_all_iff by fastforce

lemma update_status_sm_advances:
  assumes "telegram_status_updater self = Some (TelegramStateManager b)" and "sid \<noteq> []"
    and "P \<lparr>sc_status = status, sc_step = step, sc_progress = progress,
            sc_description = description, sc_status_message_id = Some sid,
            sc_emoji = emoji, sc_show_progress = show\<rparr>"
    and "show \<Longrightarrow> (case progress of None \<Rightarrow> True | Some p \<Rightarrow> lo \<le> p \<and> p \<le> hi)"
  shows "advances b P (Some sid) lo hi w (snd (update_status self message status step progress description (Some sid) emoji show w))"
  using assms
  by (auto simp: update_status_sm_edit advances_def progress_values_def shown_progress_def call_ops_def rendered_def split: option.splits)


lemma truthy_Some [simp]: "truthy (Some s) = (s \<noteq> [])" by (simp add: truthy_def)
lemma truthy_None [simp]: "truthy None = False" by (simp add: truthy_def)

lemma not_truthy_cases: "\<not> truthy x \<Longrightarrow> x = None \<or> x = Some []"
  by (cases x) auto

lemma precheck_advances:
  assumes u: "telegram_status_updater self = Some (TelegramStateManager b)"
    and s: "st_status_message_id s = sido"
  shows "advances b (\<lambda>c. verbatim_call c \<and> sc_status c \<noteq> COMPLETED) sido 0.2 0.3 w
           (snd (content_precheck env self s w))"
proof (cases "truthy sido")
  case True
  then obtain sid where sid: "sido = Some sid" "sid \<noteq> []" by (cases sido) auto
  show ?thesis using u s sid
    by (simp add: content_precheck_def can_report_def io_simps update_status_sm_edit advances_def
        progress_values_Cons shown_progress_def verbatim_call_def call_ops_def rendered_def Let_def
        split: sum.splits)
next
  case False
  then show ?thesis using u s
    by (simp add: content_precheck_def can_report_def io_simps advances_def Let_def split: sum.splits)
qed


lemma and_then_simps [simp]:
  "and_then (Inl e) f = Inl e"
  "and_then (Inr v) f = f v"
  by (simp_all add: and_then_def)

lemma item_failed_eq:
  "item_failed env rs title e w =
     (case title of
        None \<Rightarrow> (Inl (Exception txt_title_unbound), w)
      | Some t \<Rightarrow> (Inr (rs @ [task_failed_text env t e], title), w))"
  by (simp add: item_failed_def io_simps split: option.splits)

lemma create_item_eq:
  "create_item env uid kvs pn pid rs w =
     (case parse_due_date env (dict_get kvs (asc ''dueDate'') JNull) of
        Inl e \<Rightarrow> (Inl e, w)
      | Inr d \<Rightarrow>
          (case add_task env (store_calls w) (task_args_of uid pid kvs d) of
             Inl e \<Rightarrow> Inl e
           | Inr created \<Rightarrow>
               if created
               then map_sum id (\<lambda>task_desc. rs @ [task_desc])
                      (task_created_text env (dict_get kvs (asc ''title'') JNull) pn d
                         (dict_get kvs (asc ''priority'') (JInt 0)))
               else Inr rs,
           w\<lparr>store_calls := store_calls w @ [AddTask (task_args_of uid pid kvs d)]\<rparr>))"
  by (simp add: create_item_def io_simps task_args_of_def dida_service_add_task_def Let_def
      split: sum.splits)

lemma project_of_dict:
  "project_of pm (JDict kvs) =
     map_sum id (\<lambda>pid. (dict_get kvs (asc ''projectId'') JNull, pid))
       (project_map_get pm (dict_get kvs (asc ''projectId'') JNull))"
  by (simp add: project_of_def and_then_def split: sum.splits)

lemma project_of_not_dict:
  assumes "\<And>kvs. t \<noteq> JDict kvs"
  shows "project_of pm t = Inl (attribute_error t (asc ''get''))"
  using assms by (cases t) (auto simp: project_of_def)

lemma create_one_eq:
  "create_one env uid pm t (rs, title) w =
     (case project_of pm t of
        Inl e \<Rightarrow> item_failed env rs title e w
      | Inr (pn, pid) \<Rightarrow>
          if \<not> truthy pid \<and> json_truthy pn
          then (Inr (rs @ [txt_project_not_found @ py_str env pn], title), w)
          else
            (case t of
               JDict kvs \<Rightarrow>
                 (case create_item env uid kvs pn pid rs w of
                    (Inl e, w1) \<Rightarrow>
                      (Inr (rs @ [task_failed_text env (dict_get kvs (asc ''title'') JNull) e],
                            Some (dict_get kvs (asc ''title'') JNull)), w1)
                  | (Inr rs1, w1) \<Rightarrow> (Inr (rs1, Some (dict_get kvs (asc ''title'') JNull)), w1))
             | _ \<Rightarrow> item_failed env rs title (attribute_error t (asc ''get'')) w))"
proof (cases t)
  case (JDict kvs)
  show ?thesis
    by (cases "project_map_get pm (dict_get kvs (asc ''projectId'') JNull)";
        cases "create_item env uid kvs (dict_get kvs (asc ''projectId'') JNull)
                 (projr (project_map_get pm (dict_get kvs (asc ''projectId'') JNull))) rs w")
       (auto simp: create_one_def JDict project_of_dict Let_def io_try_def io_bind_def
          io_return_def item_failed_eq split: sum.splits)
qed (simp_all add: create_one_def project_of_def)

text \<open>
  A pass of the loop raises only through its handler: when the task is not looked up and
  \<open>title\<close> is still unbound.
\<close>

lemma create_one_result:
  "fst (create_one env uid pm t (rs, title) w) = Inl e
     \<longleftrightarrow> title = None \<and> \<not> looked_up pm t \<and> e = Exception txt_title_unbound"
  by (cases t)
     (auto simp: create_one_eq looked_up_def item_failed_eq project_of_dict project_of_def
        split: sum.splits option.splits prod.splits if_splits)

lemma create_one_frame:
  "status_calls (snd (create_one env uid pm t vars w)) = status_calls w"
  "transport (snd (create_one env uid pm t vars w)) = transport w"
  "status_messages (snd (create_one env uid pm t vars w)) = status_messages w"
  "nodes_run (snd (create_one env uid pm t vars w)) = nodes_run w"
  "store_calls (snd (create_one env uid pm t vars w)) = store_calls w @ task_call env uid pm t"
  by (cases vars; cases t;
      auto simp: create_one_eq create_item_eq task_call_def item_failed_eq project_of_dict
        project_of_def split: sum.splits option.splits prod.splits)+

lemma create_loop_frame:
  "status_calls (snd (create_loop env uid pm ts vars w)) = status_calls w
   \<and> transport (snd (create_loop env uid pm ts vars w)) = transport w
   \<and> status_messages (snd (create_loop env uid pm ts vars w)) = status_messages w
   \<and> nodes_run (snd (create_loop env uid pm ts vars w)) = nodes_run w
   \<and> (\<exists>cs. store_calls (snd (create_loop env uid pm ts vars w)) = store_calls w @ cs)"
proof (induction ts arbitrary: vars w)
  case Nil
  show ?case by (simp add: io_simps)
next
  case (Cons t ts)
  note fr = create_one_frame[of env uid pm t vars w]
  show ?case
  proof (cases "create_one env uid pm t vars w")
    case (Pair r w1)
    show ?thesis
    proof (cases r)
      case (Inl e)
      then show ?thesis using Pair fr by (simp add: io_bind_def)
    next
      case (Inr vars1)
      then have step: "create_loop env uid pm (t # ts) vars w = create_loop env uid pm ts vars1 w1"
        using Pair by (simp add: io_bind_def)
      show ?thesis unfolding step using Cons.IH[of vars1 w1] fr Pair by auto
    qed
  qed
qed

text \<open>
  When every task of the batch is looked up, the loop returns, and the task store is
  called for every task that has a call, in order.
\<close>

lemma create_loop_looked_up:
  assumes "\<forall>t \<in> set ts. looked_up pm t"
  shows "(\<exists>vars1. fst (create_loop env uid pm ts vars w) = Inr vars1)
   \<and> store_calls (snd (create_loop env uid pm ts vars w))
       = store_calls w @ concat (map (task_call env uid pm) ts)"
  using assms
proof (induction ts arbitrary: vars w)
  case Nil
  show ?case by (simp add: io_simps)
next
  case (Cons t ts)
  obtain rs title where vars: "vars = (rs, title)" by (cases vars)
  have "\<And>e. fst (create_one env uid pm t (rs, title) w) \<noteq> Inl e"
    using Cons.prems by (simp add: create_one_result)
  then obtain vars1 where "fst (create_one env uid pm t (rs, title) w) = Inr vars1"
    by (cases "fst (create_one env uid pm t (rs, title) w)") auto
  then obtain w1 where one: "create_one env uid pm t vars w = (Inr vars1, w1)"
    unfolding vars by (cases "create_one env uid pm t (rs, title) w") auto
  have st: "store_calls w1 = store_calls w @ task_call env uid pm t"
    using create_one_frame(5)[of env uid pm t vars w] one by simp
  have step: "create_loop env uid pm (t # ts) vars w = create_loop env uid pm ts vars1 w1"
    by (simp add: io_bind_def one)
  show ?case unfolding step using Cons.IH[of vars1 w1] Cons.prems st by simp
qed

subsection \<open>Exceptions in the nodes\<close>


lemma io_try_fst:
  "fst (io_try f h w) = (case fst (f w) of Inr x \<Rightarrow> Inr x | Inl e \<Rightarrow> fst (h e (snd (f w))))"
  by (simp add: io_try_def split: prod.splits sum.splits)

lemma io_when_update_fst:
  "fst (io_when c (update_status self message status step progress description smid emoji show) w) = Inr ()"
proof (cases c)
  case True
  obtain r w1 where "update_status self message status step progress description smid emoji show w = (Inr r, w1)"
    using update_status_fst[of self message status step progress description smid emoji "show" w]
    by (cases "update_status self message status step progress description smid emoji show w") auto
  then show ?thesis using True by (simp add: io_simps)
next
  case False
  then show ?thesis by (simp add: io_simps)
qed

lemma report_then_return_fst:
  "fst (io_then (io_when c (update_status self message status step progress description smid emoji show))
          (io_return x) w) = Inr x"
  using io_when_update_fst[of c self message status step progress description smid emoji "show" w]
  by (cases "io_when c (update_status self message status step progress description smid emoji show) w")
     (simp add: io_then_def io_bind_def io_return_def)

lemma format_content_fst:
  "fst (format_content env self s w) =
     (case fst (format_content_try env self s w) of
        Inr s1 \<Rightarrow> Inr s1
      | Inl e \<Rightarrow> Inr (s\<lparr>st_error_message := Some (str_exn e), st_next := END\<rparr>))"
  by (simp add: format_content_def io_try_fst io_return_def split: sum.splits)

lemma save_to_notion_fst:
  "fst (save_to_notion env self s w) =
     (case fst (save_to_notion_try env self s w) of
        Inr s1 \<Rightarrow> Inr s1
      | Inl e \<Rightarrow> Inr (s\<lparr>st_error_message := Some (simplify_error (str_exn e)),
                        st_save_success := Some False, st_next := END\<rparr>))"
  by (simp add: save_to_notion_def Let_def io_try_fst report_then_return_fst split: sum.splits)

lemma extract_tasks_fst:
  "fst (extract_tasks env self s w) =
     (case fst (extract_tasks_try env self s w) of
        Inr s1 \<Rightarrow> Inr s1
      | Inl e \<Rightarrow> Inr (s\<lparr>st_error_message := Some (txt_extract_failed @ str_exn e),
                        st_next := END\<rparr>))"
  by (simp add: extract_tasks_def Let_def io_try_fst report_then_return_fst split: sum.splits)

lemma create_tasks_fst:
  "fst (create_tasks env self s w) =
     (case fst (create_tasks_try env self s w) of
        Inr s1 \<Rightarrow> Inr s1
      | Inl e \<Rightarrow> Inr (s\<lparr>st_error_message := Some (str_exn e), st_next := END\<rparr>))"
  by (simp add: create_tasks_def Let_def io_try_fst report_then_return_fst split: sum.splits)

lemma process_except_fst:
  "fst (process_except self message smid e w) = Inr (Error (str_exn e))"
  by (simp add: process_except_def report_then_return_fst)

lemma process_fst: "\<exists>r. fst (process strict env self message background updater_arg w) = Inr r"
  by (auto simp: process_def io_try_fst process_except_fst io_bind_def io_return_def split: sum.splits prod.splits)


lemma content_precheck_fst:
  "fst (content_precheck env self s w) =
     (case url_text_analyzer env (st_text_content s) of
        Inl e \<Rightarrow> Inl e
      | Inr r \<Rightarrow> Inr (s\<lparr>st_precheck_result := Some r\<rparr>))"
proof -
  have a: "\<And>c st step p d smid em sh k w.
      io_then (io_when c (update_status self (st_message s) st step p d smid em sh)) k w
      = k (snd (io_when c (update_status self (st_message s) st step p d smid em sh) w))"
    subgoal for c st step p d smid em sh k w
      using io_when_update_fst[of c self "st_message s" st step p d smid em sh w]
      by (cases "io_when c (update_status self (st_message s) st step p d smid em sh) w")
         (simp add: io_then_def io_bind_def)
    done
  show ?thesis
    by (simp add: content_precheck_def Let_def io_try_fst a io_bind_def io_lift_def io_return_def
        io_raise_def split: sum.splits)
qed

text \<open>
  C7, as the code has it. Formatting, saving, extracting and creating catch every
  exception that the body of their \<open>try\<close> raises and return a state with
  \<open>error_message\<close> set and \<open>next\<close> at END. Precheck does not: it returns the
  classifier's result or raises the classifier's exception again. \<open>process\<close> catches
  what leaves the graph and always returns a result.
\<close>

theorem nodes_catch_exceptions:
  "fst (format_content env self s w) =
     (case fst (format_content_try env self s w) of
        Inr s1 \<Rightarrow> Inr s1
      | Inl e \<Rightarrow> Inr (s\<lparr>st_error_message := Some (str_exn e), st_next := END\<rparr>))
   \<and> fst (save_to_notion env self s w) =
     (case fst (save_to_notion_try env self s w) of
        Inr s1 \<Rightarrow> Inr s1
      | Inl e \<Rightarrow> Inr (s\<lparr>st_error_message := Some (simplify_error (str_exn e)),
                        st_save_success := Some False, st_next := END\<rparr>))
   \<and> fst (extract_tasks env self s w) =
     (case fst (extract_tasks_try env self s w) of
        Inr s1 \<Rightarrow> Inr s1
      | Inl e \<Rightarrow> Inr (s\<lparr>st_error_message := Some (txt_extract_failed @ str_exn e),
                        st_next := END\<rparr>))
   \<and> fst (create_tasks env self s w) =
     (case fst (create_tasks_try env self s w) of
        Inr s1 \<Rightarrow> Inr s1
      | Inl e \<Rightarrow> Inr (s\<lparr>st_error_message := Some (str_exn e), st_next := END\<rparr>))
   \<and> fst (content_precheck env self s w) =
     (case url_text_analyzer env (st_text_content s) of
        Inl e \<Rightarrow> Inl e
      | Inr r \<Rightarrow> Inr (s\<lparr>st_precheck_result := Some r\<rparr>))
   \<and> (\<exists>r. fst (process strict env self message background updater_arg w) = Inr r)"
  by (intro conjI format_content_fst save_to_notion_fst extract_tasks_fst create_tasks_fst
      content_precheck_fst process_fst)

text \<open>
  C7 as stated fails for precheck: with a classifier that raises, the node raises the
  same exception to the graph.
\<close>

theorem precheck_reraises:
  "fst (content_precheck ex_env_classifier_down ex_agent_silent
          (initial_state ex_message None None) ex_world)
     = Inl (Exception (asc ''llm: timeout''))"
  by (simp add: content_precheck_fst ex_env_classifier_down_def)

subsection \<open>The worker\<close>





subsection \<open>The nodes with a state manager as updater\<close>

text \<open>
  What each node returns and does to the world when the agent's updater is a
  \<open>TelegramStateManager\<close> (which is needed only when the state carries a non-empty
  \<open>status_message_id\<close>: without one no update is attempted).
\<close>


lemma sm_report_simps [simp]:
  "status_messages (sm_report b c w) = status_messages w"
  "nodes_run (sm_report b c w) = nodes_run w"
  "store_calls (sm_report b c w) = store_calls w"
  "status_calls (sm_report b c w) = status_calls w @ (if truthy (sc_status_message_id c) then [c] else [])"
  "transport (sm_report b c w)
     = transport w @ (if truthy (sc_status_message_id c) then call_ops b (status_messages w) c else [])"
  by (simp_all add: sm_report_def)

lemma mk_call_simps [simp]:
  "sc_status (mk_call st step p d smid em sh) = st"
  "sc_step (mk_call st step p d smid em sh) = step"
  "sc_progress (mk_call st step p d smid em sh) = p"
  "sc_description (mk_call st step p d smid em sh) = d"
  "sc_status_message_id (mk_call st step p d smid em sh) = smid"
  "sc_emoji (mk_call st step p d smid em sh) = em"
  "sc_show_progress (mk_call st step p d smid em sh) = sh"
  by (simp_all add: mk_call_def)

lemma report_sm:
  assumes "truthy smid \<longrightarrow> telegram_status_updater self = Some (TelegramStateManager b)"
  shows "io_when (can_report self smid)
           (update_status self message st step p d smid em sh) w
         = (Inr (), sm_report b (mk_call st step p d smid em sh) w)"
proof (cases "truthy smid")
  case True
  then obtain sid where sid: "smid = Some sid" "sid \<noteq> []" by (cases smid) auto
  with assms have u: "telegram_status_updater self = Some (TelegramStateManager b)" by simp
  show ?thesis
    using sid u
    by (simp add: io_simps can_report_def update_status_sm_edit[OF u sid(2)] sm_report_def
        mk_call_def call_ops_def rendered_def shown_progress_def)
next
  case False
  then show ?thesis by (simp add: io_simps can_report_def sm_report_def)
qed

lemma report_sm_then:
  assumes "truthy smid \<longrightarrow> telegram_status_updater self = Some (TelegramStateManager b)"
  shows "io_then (io_when (can_report self smid)
           (update_status self message st step p d smid em sh)) k w
         = k (sm_report b (mk_call st step p d smid em sh) w)"
  by (simp add: io_then_def io_bind_def report_sm[OF assms])

lemma content_precheck_eq:
  assumes "truthy (st_status_message_id s) \<longrightarrow> telegram_status_updater self = Some (TelegramStateManager b)"
  shows "content_precheck env self s w =
    (let smid = st_status_message_id s;
         w1 = sm_report b (mk_call PROCESSING Step_PREPROCESSING (Some 0.2) txt_prechecking smid [128269] True) w
     in case url_text_analyzer env (st_text_content s) of
          Inl e \<Rightarrow> (Inl e, w1)
        | Inr r \<Rightarrow> (Inr (s\<lparr>st_precheck_result := Some r\<rparr>),
                    sm_report b (mk_call PROCESSING Step_PREPROCESSING (Some 0.3)
                                   (get_precheck_status_text r) smid [10024] True) w1))"
  by (simp add: content_precheck_def Let_def report_sm_then[OF assms] io_try_def io_bind_def
      io_lift_def io_return_def io_raise_def split: sum.splits)

lemma format_content_eq:
  "format_content env self s w =
    (case llm_format_content env (st_text_content s) (user_background self) of
       Inl e \<Rightarrow> (Inr (s\<lparr>st_error_message := Some (str_exn e), st_next := END\<rparr>), w)
     | Inr r \<Rightarrow> (Inr (s\<lparr>st_format_content_result := Some r, st_next := SaveNotion\<rparr>), w))"
  by (simp add: format_content_def format_content_try_def io_simps split: sum.splits)


lemma save_to_notion_eq:
  assumes "truthy (st_status_message_id s) \<longrightarrow> telegram_status_updater self = Some (TelegramStateManager b)"
  shows "save_to_notion env self s w =
    (let smid = st_status_message_id s;
         w1 = sm_report b (mk_call PROCESSING Step_SAVING_TO_NOTION (Some 0.7) txt_saving smid [] True) w
     in if falsy_format_result (st_format_content_result s)
        then save_failed b s (Exception txt_format_empty) w1
        else
          (let args = note_args_of s (the (st_format_content_result s));
               w2 = w1\<lparr>store_calls := store_calls w @ [AddNote args]\<rparr>
           in case add_note env (store_calls w) args of
                Inl e \<Rightarrow> save_failed b s e w2
              | Inr entry \<Rightarrow>
                  if \<not> truthy entry then save_failed b s (Exception txt_save_failed) w2
                  else (Inr (s\<lparr>st_save_success := Some True, st_notion_page := entry,
                               st_next := ExtractTasks\<rparr>),
                        sm_report b (mk_call PROCESSING Step_SAVING_TO_NOTION (Some 0.8) txt_saved
                                       smid [9989] True) w2)))"
  by (simp add: save_to_notion_def save_to_notion_try_def Let_def report_sm_then[OF assms]
      io_try_def io_bind_def io_lift_def io_return_def io_raise_def daily_notes_add_note_def
      save_failed_def note_args_of_def split: sum.splits)

lemma extract_tasks_eq:
  assumes "truthy (st_status_message_id s) \<longrightarrow> telegram_status_updater self = Some (TelegramStateManager b)"
  shows "extract_tasks env self s w =
    (let smid = st_status_message_id s;
         w1 = sm_report b (mk_call PROCESSING Step_TASK_EXTRACTION (Some 0.95) txt_extracting smid [128204] True) w
     in case background_args env self of
          Inl e \<Rightarrow> extract_failed b s e w1
        | Inr (profile, project_names) \<Rightarrow>
            (case llm_extract_tasks env (st_text_content s) profile project_names of
               Inl e \<Rightarrow> extract_failed b s e w1
             | Inr ts \<Rightarrow> (Inr (s\<lparr>st_tasks := Some ts, st_next := CreateTasks\<rparr>), w1)))"
  by (simp add: extract_tasks_def extract_tasks_try_def Let_def report_sm_then[OF assms]
      io_try_def io_bind_def io_lift_def io_return_def io_raise_def background_args_def
      extract_failed_def split: sum.splits bg_parse.splits prod.splits)

lemma create_tasks_report_eq:
  assumes "truthy (st_status_message_id s) \<longrightarrow> telegram_status_updater self = Some (TelegramStateManager b)"
  shows "io_try (create_tasks_report env self s (get_or (st_tasks s) []))
           (\<lambda>e. io_then
                  (io_when (can_report self (st_status_message_id s))
                     (update_status self (st_message s) FAILED Step_ERROR (Some 0)
                        (txt_cross @ txt_create_failed @ str_exn e) (st_status_message_id s) []
                        False))
                  (io_return (s\<lparr>st_error_message := Some (str_exn e), st_next := END\<rparr>))) w
         = create_finished b env s w"
proof (cases "truthy (st_status_message_id s)")
  case True
  then obtain sid where sid: "st_status_message_id s = Some sid" "sid \<noteq> []"
    by (cases "st_status_message_id s") auto
  with assms have u: "telegram_status_updater self = Some (TelegramStateManager b)" by simp
  show ?thesis
    using sid u
    by (simp add: create_tasks_report_def Let_def report_sm_then[OF assms] can_report_def
        update_status_sm_edit[OF u sid(2)] io_simps create_finished_def create_failed_def
        report_call_def sm_report_def mk_call_def call_ops_def rendered_def shown_progress_def
        split: sum.splits)
next
  case False
  then show ?thesis
    by (simp add: create_tasks_report_def Let_def can_report_def io_simps create_finished_def)
qed


lemma create_handler_eq:
  assumes a: "truthy (st_status_message_id s) \<longrightarrow> telegram_status_updater self = Some (TelegramStateManager b)"
  shows "io_then
           (io_when (can_report self (st_status_message_id s))
              (update_status self (st_message s) FAILED Step_ERROR (Some 0)
                 (txt_cross @ txt_create_failed @ str_exn e) (st_status_message_id s) []
                 False))
           (io_return (s\<lparr>st_error_message := Some (str_exn e), st_next := END\<rparr>)) w
         = create_failed b s e w"
  by (simp add: report_sm_then[OF a] io_return_def create_failed_def)

lemma create_tasks_eq:
  assumes a: "truthy (st_status_message_id s) \<longrightarrow> telegram_status_updater self = Some (TelegramStateManager b)"
  shows "create_tasks env self s w =
    (let tasks = get_or (st_tasks s) [];
         user_id = md_user_id (msg_metadata (st_message s))
     in if tasks = [] then create_finished b env s w
        else
          (let w1 = sm_report b (mk_call PROCESSING Step_CREATING_TASKS (Some 0.98) txt_creating
                                   (st_status_message_id s) [] True) w
           in if \<not> dida_service_configured env user_id
              then (Inr (s\<lparr>st_error_message := Some txt_configure_dida, st_next := END\<rparr>), w1)
              else
                (case create_loop env user_id (map_of (rev (dida_projects env user_id)))
                        tasks ([], None) w1 of
                   (Inl e, w2) \<Rightarrow> create_failed b s e w2
                 | (Inr vars, w2) \<Rightarrow> create_finished b env s w2)))"
proof -
  let ?tasks = "get_or (st_tasks s) []"
  let ?uid = "md_user_id (msg_metadata (st_message s))"
  let ?h = "(\<lambda>e. io_then
                  (io_when (can_report self (st_status_message_id s))
                     (update_status self (st_message s) FAILED Step_ERROR (Some 0)
                        (txt_cross @ txt_create_failed @ str_exn e) (st_status_message_id s) []
                        False))
                  (io_return (s\<lparr>st_error_message := Some (str_exn e), st_next := END\<rparr>)))"
  let ?w1 = "sm_report b (mk_call PROCESSING Step_CREATING_TASKS (Some 0.98) txt_creating
                                   (st_status_message_id s) [] True) w"
  let ?loop = "create_loop env ?uid (map_of (rev (dida_projects env ?uid))) ?tasks ([], None)"
  have fin: "\<And>w. io_try (create_tasks_report env self s ?tasks) ?h w = create_finished b env s w"
    by (rule create_tasks_report_eq[OF a])
  have hd: "\<And>e w. ?h e w = create_failed b s e w"
    by (rule create_handler_eq[OF a])
  have lp: "io_try (io_bind ?loop (\<lambda>vars. create_tasks_report env self s ?tasks)) ?h ?w1
            = (case ?loop ?w1 of
                 (Inl e, w2) \<Rightarrow> create_failed b s e w2
               | (Inr vars, w2) \<Rightarrow> create_finished b env s w2)"
  proof (cases "?loop ?w1")
    case (Pair r w2)
    show ?thesis
    proof (cases r)
      case (Inl e)
      have "io_try (io_bind ?loop (\<lambda>vars. create_tasks_report env self s ?tasks)) ?h ?w1
              = ?h e w2"
        using Pair Inl by (simp add: io_try_def io_bind_def)
      then show ?thesis using Pair Inl hd[of e w2] by simp
    next
      case (Inr vars)
      have "io_try (io_bind ?loop (\<lambda>vars. create_tasks_report env self s ?tasks)) ?h ?w1
              = io_try (create_tasks_report env self s ?tasks) ?h w2"
        using Pair Inr by (simp add: io_try_def io_bind_def)
      then show ?thesis using Pair Inr fin[of w2] by simp
    qed
  qed
  show ?thesis
  proof (cases "?tasks = []")
    case True
    then show ?thesis
      using fin[of w] by (simp add: create_tasks_def create_tasks_try_def Let_def)
  next
    case False
    show ?thesis
    proof (cases "dida_service_configured env ?uid")
      case True
      have "create_tasks env self s w
              = io_try (io_bind ?loop (\<lambda>vars. create_tasks_report env self s ?tasks)) ?h ?w1"
        using False True
        by (simp add: create_tasks_def create_tasks_try_def Let_def io_try_def
            report_sm_then[OF a])
      then show ?thesis using False True lp by (simp add: Let_def)
    next
      case nc: False
      then show ?thesis using False
        by (simp add: create_tasks_def create_tasks_try_def Let_def io_try_def
            report_sm_then[OF a] io_return_def)
    qed
  qed
qed

lemma path_map_after_save_eq:
  "path_map_after_save strict r w =
     (if r = ExtractTasks \<or> r = CreateTasks then (Inr r, w)
      else if strict then (Inl (Exception txt_key_error_end), w) else (Inr r, w))"
  by (simp add: path_map_after_save_def io_simps)

lemma route_after_save_range: "route_after_save s = ExtractTasks \<or> route_after_save s = END"
  by (simp add: route_after_save_def Let_def)

lemma run_node_eq: "run_node n f w = f (w\<lparr>nodes_run := nodes_run w @ [n]\<rparr>)"
  by (simp add: run_node_def log_node_def io_then_def io_bind_def)

lemma after_save_eq:
  "after_save strict env self s w =
     (if route_after_save s = ExtractTasks
      then io_bind (run_node ExtractTasks (extract_tasks env self s))
             (\<lambda>s1. run_node CreateTasks (create_tasks env self s1)) w
      else if strict then (Inl (Exception txt_key_error_end), w) else (Inr s, w))"
  using route_after_save_range[of s]
  by (auto simp: after_save_def path_map_after_save_eq io_bind_def io_return_def)

subsection \<open>Updates that show no progress\<close>


lemma rendered_hidden [simp]: "rendered (mk_call st step p d smid [] False) = d"
  by (simp add: rendered_def shown_progress_def sm_format_status_text_def)

lemma rendered_report_call [simp]: "rendered (report_call smid text) = text"
  by (simp add: rendered_def report_call_def shown_progress_def sm_format_status_text_def)


subsection \<open>The status updates of a run\<close>


lemma advances_frame_left:
  assumes "status_messages w1 = status_messages w" "status_calls w1 = status_calls w"
    "transport w1 = transport w" "advances b P sido lo hi w1 w'"
  shows "advances b P sido lo hi w w'"
  using assms by (simp add: advances_def)

lemma advances_frame_right:
  assumes "status_messages w1 = status_messages w'" "status_calls w1 = status_calls w'"
    "transport w1 = transport w'" "advances b P sido lo hi w w'"
  shows "advances b P sido lo hi w w1"
  using assms by (simp add: advances_def)

lemma advances_sm_report:
  assumes "sc_status_message_id c = sido" "P c"
    "case shown_progress c of None \<Rightarrow> True | Some p \<Rightarrow> lo \<le> p \<and> p \<le> hi"
  shows "advances b P sido lo hi w (sm_report b c w)"
  using assms by (auto simp: advances_def progress_values_Cons split: option.splits)

lemma content_precheck_advances:
  assumes a: "truthy (st_status_message_id s) \<longrightarrow> telegram_status_updater self = Some (TelegramStateManager b)"
  shows "advances b (\<lambda>c. call_shape c \<and> sc_status c \<noteq> COMPLETED) (st_status_message_id s) 0.2 0.3 w
           (snd (content_precheck env self s w))"
  by (simp add: content_precheck_eq[OF a] Let_def advances_def progress_values_Cons
      shown_progress_def call_shape_def split: sum.splits)

lemma save_to_notion_advances:
  assumes a: "truthy (st_status_message_id s) \<longrightarrow> telegram_status_updater self = Some (TelegramStateManager b)"
  shows "advances b (\<lambda>c. call_shape c \<and> sc_status c \<noteq> COMPLETED) (st_status_message_id s) 0.7 0.8 w
           (snd (save_to_notion env self s w))"
  by (simp add: save_to_notion_eq[OF a] Let_def save_failed_def advances_def progress_values_Cons
      shown_progress_def call_shape_def split: sum.splits)

lemma extract_tasks_advances:
  assumes a: "truthy (st_status_message_id s) \<longrightarrow> telegram_status_updater self = Some (TelegramStateManager b)"
  shows "advances b (\<lambda>c. call_shape c \<and> sc_status c \<noteq> COMPLETED) (st_status_message_id s) 0.95 0.95 w
           (snd (extract_tasks env self s w))"
  by (simp add: extract_tasks_eq[OF a] Let_def extract_failed_def advances_def progress_values_Cons
      shown_progress_def call_shape_def split: sum.splits prod.splits)

lemma create_finished_advances:
  "advances b call_shape (st_status_message_id s) 0.98 0.98 w (snd (create_finished b env s w))"
  by (simp add: create_finished_def create_failed_def report_call_def advances_def progress_values_Cons
      shown_progress_def call_shape_def split: sum.splits)

lemma create_failed_advances:
  "advances b call_shape (st_status_message_id s) 0.98 0.98 w (snd (create_failed b s e w))"
  unfolding create_failed_def snd_conv
  by (rule advances_sm_report) (simp_all add: call_shape_def shown_progress_def)

lemma create_tasks_advances:
  assumes a: "truthy (st_status_message_id s) \<longrightarrow> telegram_status_updater self = Some (TelegramStateManager b)"
  shows "advances b call_shape (st_status_message_id s) 0.98 0.98 w
           (snd (create_tasks env self s w))"
proof -
  let ?ts = "get_or (st_tasks s) []"
  let ?uid = "md_user_id (msg_metadata (st_message s))"
  let ?c = "mk_call PROCESSING Step_CREATING_TASKS (Some 0.98) txt_creating (st_status_message_id s) [] True"
  let ?w1 = "sm_report b ?c w"
  let ?loop = "create_loop env ?uid (map_of (rev (dida_projects env ?uid))) ?ts ([], None) ?w1"
  let ?w2 = "snd ?loop"
  have s1: "advances b call_shape (st_status_message_id s) 0.98 0.98 w ?w1"
    by (rule advances_sm_report) (simp_all add: call_shape_def shown_progress_def)
  note fr = create_loop_frame[of env ?uid "map_of (rev (dida_projects env ?uid))" ?ts "([], None)" ?w1]
  have s2: "advances b call_shape (st_status_message_id s) 0.98 0.98 ?w1 ?w2"
    by (rule advances_frame_right[OF _ _ _ advances_refl]) (use fr in simp_all)
  have s12: "advances b call_shape (st_status_message_id s) 0.98 0.98 w ?w2"
    by (rule advances_trans[OF s1 s2]) simp_all
  have s3: "advances b call_shape (st_status_message_id s) 0.98 0.98 w (snd (create_finished b env s ?w2))"
    by (rule advances_trans[OF s12 create_finished_advances]) simp_all
  have s4: "\<And>e. advances b call_shape (st_status_message_id s) 0.98 0.98 w (snd (create_failed b s e ?w2))"
    by (rule advances_trans[OF s12 create_failed_advances]) simp_all
  have lp: "advances b call_shape (st_status_message_id s) 0.98 0.98 w
              (snd (case ?loop of
                      (Inl e, w2) \<Rightarrow> create_failed b s e w2
                    | (Inr vars, w2) \<Rightarrow> create_finished b env s w2))"
    using s3 s4 by (cases ?loop) (auto split: sum.splits)
  show ?thesis
    using s1 lp create_finished_advances[of b s w env]
    by (simp add: create_tasks_eq[OF a] Let_def)
qed

lemma advances_bind:
  assumes f: "advances b P sido l1 h1 w (snd (f w))"
    and g: "\<And>x. fst (f w) = Inr x \<Longrightarrow> advances b P sido l2 h2 (snd (f w)) (snd (g x (snd (f w))))"
    and le: "l1 \<le> h1" "h1 \<le> l2" "l2 \<le> h2"
  shows "advances b P sido l1 h2 w (snd (io_bind f g w))"
proof (cases "fst (f w)")
  case (Inl e)
  then have "snd (io_bind f g w) = snd (f w)"
    by (cases "f w") (simp add: io_bind_def)
  then show ?thesis
    using advances_widen[OF f, of l1 h2 P] le by simp
next
  case (Inr x)
  then have "snd (io_bind f g w) = snd (g x (snd (f w)))"
    by (cases "f w") (simp add: io_bind_def)
  then show ?thesis
    using advances_trans[OF f g[OF Inr] le] by simp
qed

lemma advances_run_node:
  assumes "\<And>w. advances b P sido lo hi w (snd (f w))"
  shows "advances b P sido lo hi w (snd (run_node n f w))"
  unfolding run_node_eq
  by (rule advances_frame_left[OF _ _ _ assms]) simp_all

lemma run_node_fst: "fst (run_node n f w) = fst (f (w\<lparr>nodes_run := nodes_run w @ [n]\<rparr>))"
  by (simp add: run_node_eq)

lemma content_precheck_sid:
  "fst (content_precheck env self s w) = Inr s1 \<Longrightarrow> st_status_message_id s1 = st_status_message_id s"
  by (auto simp: content_precheck_fst split: sum.splits)

lemma format_content_sid:
  "fst (format_content env self s w) = Inr s1 \<Longrightarrow> st_status_message_id s1 = st_status_message_id s"
  by (auto simp: format_content_eq split: sum.splits)

lemma save_to_notion_sid:
  assumes a: "truthy (st_status_message_id s) \<longrightarrow> telegram_status_updater self = Some (TelegramStateManager b)"
  shows "fst (save_to_notion env self s w) = Inr s1 \<Longrightarrow> st_status_message_id s1 = st_status_message_id s"
  by (auto simp: save_to_notion_eq[OF a] Let_def save_failed_def split: sum.splits if_splits)

lemma extract_tasks_sid:
  assumes a: "truthy (st_status_message_id s) \<longrightarrow> telegram_status_updater self = Some (TelegramStateManager b)"
  shows "fst (extract_tasks env self s w) = Inr s1 \<Longrightarrow> st_status_message_id s1 = st_status_message_id s"
  by (auto simp: extract_tasks_eq[OF a] Let_def extract_failed_def split: sum.splits prod.splits)

lemma after_save_advances:
  assumes a: "truthy (st_status_message_id s) \<longrightarrow> telegram_status_updater self = Some (TelegramStateManager b)"
  shows "advances b call_shape (st_status_message_id s) 0.95 0.98 w
           (snd (after_save strict env self s w))"
proof (cases "route_after_save s = ExtractTasks")
  case True
  let ?f = "run_node ExtractTasks (extract_tasks env self s)"
  let ?g = "\<lambda>s1. run_node CreateTasks (create_tasks env self s1)"
  have f: "advances b call_shape (st_status_message_id s) 0.95 0.95 w (snd (?f w))"
    by (rule advances_run_node)
       (rule advances_widen[OF extract_tasks_advances[OF a]], simp_all)
  have g: "\<And>x. fst (?f w) = Inr x \<Longrightarrow>
             advances b call_shape (st_status_message_id s) 0.98 0.98 (snd (?f w))
               (snd (?g x (snd (?f w))))"
  proof -
    fix x assume x: "fst (?f w) = Inr x"
    then have sx: "st_status_message_id x = st_status_message_id s"
      using extract_tasks_sid[OF a] by (simp add: run_node_fst)
    have ax: "truthy (st_status_message_id x) \<longrightarrow> telegram_status_updater self = Some (TelegramStateManager b)"
      using a sx by simp
    show "advances b call_shape (st_status_message_id s) 0.98 0.98 (snd (?f w)) (snd (?g x (snd (?f w))))"
      unfolding sx[symmetric]
      by (rule advances_run_node) (rule create_tasks_advances[OF ax])
  qed
  show ?thesis
    using advances_bind[where f="?f" and g="?g", OF f g] True by (simp add: after_save_eq)
next
  case False
  then show ?thesis by (simp add: after_save_eq advances_refl)
qed


lemma advances_node_then:
  assumes node: "\<And>w. advances b P sido l1 h1 w (snd (f w))"
    and keep: "\<And>w x. fst (f w) = Inr x \<Longrightarrow> Q x"
    and rest: "\<And>x w. Q x \<Longrightarrow> advances b P sido l2 h2 w (snd (g x w))"
    and le: "l1 \<le> h1" "h1 \<le> l2" "l2 \<le> h2"
  shows "advances b P sido l1 h2 w (snd (io_bind (run_node n f) g w))"
proof -
  let ?f = "run_node n f"
  have f: "advances b P sido l1 h1 w (snd (?f w))"
    by (rule advances_run_node) (rule node)
  have g: "\<And>x. fst (?f w) = Inr x \<Longrightarrow> advances b P sido l2 h2 (snd (?f w)) (snd (g x (snd (?f w))))"
    using keep rest by (simp add: run_node_fst)
  show ?thesis
    by (rule advances_bind[where f="?f" and g=g, OF f g le])
qed

lemma url_summary_step:
  "snd (io_bind (if route_after_url_check s1 = UrlSummary then run_node UrlSummary (url_summary s1)
                 else io_return s1) g w)
   = snd (g s1 (if route_after_url_check s1 = UrlSummary
                then w\<lparr>nodes_run := nodes_run w @ [UrlSummary]\<rparr> else w))"
  by (simp add: run_node_eq url_summary_def io_bind_def io_return_def)

lemma ainvoke_advances:
  assumes a: "truthy (st_status_message_id s) \<longrightarrow> telegram_status_updater self = Some (TelegramStateManager b)"
  shows "advances b call_shape (st_status_message_id s) 0.2 0.98 w
           (snd (ainvoke strict env self s w))"
proof -
  let ?sido = "st_status_message_id s"
  let ?Q = "\<lambda>x::agent_state. st_status_message_id x = ?sido"
  have ok: "\<And>x::agent_state. ?Q x \<Longrightarrow> truthy (st_status_message_id x) \<longrightarrow> telegram_status_updater self = Some (TelegramStateManager b)"
    using a by simp
  have r4: "\<And>(x::agent_state) w. ?Q x \<Longrightarrow> advances b call_shape ?sido 0.95 0.98 w (snd (after_save strict env self x w))"
    using after_save_advances[OF ok] by metis
  have r3: "\<And>(x::agent_state) w. ?Q x \<Longrightarrow> advances b call_shape ?sido 0.7 0.98 w
              (snd (io_bind (run_node SaveNotion (save_to_notion env self x)) (after_save strict env self) w))"
  proof -
    fix x :: agent_state and w :: world assume x: "?Q x"
    show "advances b call_shape ?sido 0.7 0.98 w
              (snd (io_bind (run_node SaveNotion (save_to_notion env self x)) (after_save strict env self) w))"
    proof (rule advances_node_then[where Q="?Q" and ?h1.0="0.8" and ?l2.0="0.95"])
      fix w show "advances b call_shape ?sido 0.7 0.8 w (snd (save_to_notion env self x w))"
        using advances_widen[OF save_to_notion_advances[OF ok[OF x]], of "0.7" "0.8" call_shape w env] x
        by simp
    next
      fix w :: world and y :: agent_state assume "fst (save_to_notion env self x w) = Inr y"
      then show "?Q y" using save_to_notion_sid[OF ok[OF x]] x by simp
    next
      fix y :: agent_state and w :: world assume "?Q y" then show "advances b call_shape ?sido 0.95 0.98 w (snd (after_save strict env self y w))"
        by (rule r4)
    qed simp_all
  qed
  have r2: "\<And>(x::agent_state) w. ?Q x \<Longrightarrow> advances b call_shape ?sido 0.7 0.98 w
              (snd (io_bind (run_node FormatContent (format_content env self x))
                      (\<lambda>s3. io_bind (run_node SaveNotion (save_to_notion env self s3))
                               (after_save strict env self)) w))"
  proof -
    fix x :: agent_state and w :: world assume x: "?Q x"
    show "advances b call_shape ?sido 0.7 0.98 w
              (snd (io_bind (run_node FormatContent (format_content env self x))
                      (\<lambda>s3. io_bind (run_node SaveNotion (save_to_notion env self s3))
                               (after_save strict env self)) w))"
    proof (rule advances_node_then[where Q="?Q" and ?h1.0="0.7" and ?l2.0="0.7"])
      fix w show "advances b call_shape ?sido 0.7 0.7 w (snd (format_content env self x w))"
        by (simp add: format_content_eq advances_refl split: sum.splits)
    next
      fix w :: world and y :: agent_state assume "fst (format_content env self x w) = Inr y"
      then show "?Q y" using format_content_sid x by simp
    next
      fix y :: agent_state and w :: world assume "?Q y"
      then show "advances b call_shape ?sido 0.7 0.98 w
              (snd (io_bind (run_node SaveNotion (save_to_notion env self y)) (after_save strict env self) w))"
        by (rule r3)
    qed simp_all
  qed
  have r1: "\<And>(x::agent_state) w. ?Q x \<Longrightarrow> advances b call_shape ?sido 0.7 0.98 w
              (snd (io_bind (if route_after_url_check x = UrlSummary
                             then run_node UrlSummary (url_summary x) else io_return x)
                      (\<lambda>s2. io_bind (run_node FormatContent (format_content env self s2))
                        (\<lambda>s3. io_bind (run_node SaveNotion (save_to_notion env self s3))
                               (after_save strict env self))) w))"
  proof -
    fix x :: agent_state and w :: world assume x: "?Q x"
    show "advances b call_shape ?sido 0.7 0.98 w
              (snd (io_bind (if route_after_url_check x = UrlSummary
                             then run_node UrlSummary (url_summary x) else io_return x)
                      (\<lambda>s2. io_bind (run_node FormatContent (format_content env self s2))
                        (\<lambda>s3. io_bind (run_node SaveNotion (save_to_notion env self s3))
                               (after_save strict env self))) w))"
      unfolding url_summary_step
      by (rule advances_frame_left[OF _ _ _ r2[OF x]]) simp_all
  qed
  show ?thesis
    unfolding ainvoke_def
  proof (rule advances_node_then[where Q="?Q" and ?h1.0="0.3" and ?l2.0="0.7"])
    fix w show "advances b call_shape ?sido 0.2 0.3 w (snd (content_precheck env self s w))"
      using advances_widen[OF content_precheck_advances[OF a], of "0.2" "0.3" call_shape w env]
      by simp
  next
    fix w :: world and y :: agent_state assume "fst (content_precheck env self s w) = Inr y"
    then show "?Q y" using content_precheck_sid by simp
  next
    fix y :: agent_state and w :: world assume "?Q y"
    then show "advances b call_shape ?sido 0.7 0.98 w
              (snd (io_bind (if route_after_url_check y = UrlSummary
                             then run_node UrlSummary (url_summary y) else io_return y)
                      (\<lambda>s2. io_bind (run_node FormatContent (format_content env self s2))
                        (\<lambda>s3. io_bind (run_node SaveNotion (save_to_notion env self s3))
                               (\<lambda>s4. after_save strict env self s4))) w))"
      by (rule r1)
  qed simp_all
qed


lemma str_nat_not_empty: "str_nat n \<noteq> []"
  by (subst str_nat.simps) simp

lemma str_int_not_empty: "str_int i \<noteq> []"
  by (simp add: str_int_def str_nat_not_empty)

lemma update_status_sm_create:
  assumes u: "telegram_status_updater self = Some (TelegramStateManager b)"
  shows "update_status self message status step progress description None emoji show w =
    (let c = mk_call status step progress description None emoji show;
         chat = md_chat_id (msg_metadata message);
         reply = ReplyStr (md_message_id (msg_metadata message));
         w0 = w\<lparr>status_calls := status_calls w @ [c]\<rparr>
     in case b of
          None \<Rightarrow> (Inr None, w0)
        | Some bt \<Rightarrow>
            (let w1 = w0\<lparr>transport := transport w @ [SendMessage chat (rendered c) reply]\<rparr>
             in case send_message bt (transport w) chat (rendered c) reply of
                  Inl e \<Rightarrow> (Inr None, w1)
                | Inr m \<Rightarrow>
                    (Inr (Some m),
                     w1\<lparr>status_messages := (status_messages w)(str_int (tg_message_id m) \<mapsto> m)\<rparr>)))"
  using u
  by (simp add: update_status_def update_status_try_def log_status_call_def io_simps
      TelegramStateManager_def sm_create_status_message_def bot_send_message_def mk_call_def
      rendered_def shown_progress_def Let_def
      split: option.splits sum.splits)

lemma process_except_eq:
  assumes a: "truthy smid \<longrightarrow> telegram_status_updater self = Some (TelegramStateManager b)"
  shows "process_except self message smid e w =
     (Inr (Error (str_exn e)),
      sm_report b (mk_call FAILED Step_ERROR (Some 0) (txt_cross @ simplify_error (str_exn e))
                     smid [] False) w)"
  by (simp add: process_except_def report_sm_then[OF a] io_return_def)

lemma process_after_begin:
  assumes beg: "process_begin env self message background upd w = (Inr (self1, smid), w1)"
    and a: "truthy smid \<longrightarrow> telegram_status_updater self1 = Some (TelegramStateManager b)"
  shows "advances b call_shape smid 0.2 0.98 w1
           (snd (process strict env self message background upd w))"
proof -
  let ?init = "initial_state message background smid"
  let ?A = "ainvoke strict env self1 ?init"
  have sid: "st_status_message_id ?init = smid"
    by (simp add: initial_state_def)
  have a': "truthy (st_status_message_id ?init) \<longrightarrow> telegram_status_updater self1 = Some (TelegramStateManager b)"
    using a sid by simp
  have adv: "advances b call_shape smid 0.2 0.98 w1 (snd (?A w1))"
    using ainvoke_advances[OF a', of w1 strict env] sid by simp
  show ?thesis
  proof (cases "fst (?A w1)")
    case (Inr x)
    then have "snd (process strict env self message background upd w) = snd (?A w1)"
      by (cases "?A w1") (simp add: process_def io_try_def io_bind_def beg io_return_def)
    then show ?thesis using adv by simp
  next
    case (Inl e)
    let ?c = "mk_call FAILED Step_ERROR (Some 0) (txt_cross @ simplify_error (str_exn e)) smid [] False"
    have "snd (process strict env self message background upd w) = sm_report b ?c (snd (?A w1))"
      using Inl
      by (cases "?A w1") (simp add: process_def io_try_def io_bind_def beg process_except_eq[OF a])
    moreover have "advances b call_shape smid 0.98 0.98 (snd (?A w1)) (sm_report b ?c (snd (?A w1)))"
      by (rule advances_sm_report) (simp_all add: call_shape_def shown_progress_def)
    ultimately show ?thesis
      using advances_trans[OF adv, of "0.98" "0.98" "sm_report b ?c (snd (?A w1))"] by simp
  qed
qed

lemma process_begin_sm:
  "process_begin env self message background (Some (TelegramStateManager b)) w =
     (let self2 = self\<lparr>user_background :=
                    (let ub = get_user_background env (fmt_opt (md_user_id (msg_metadata message)))
                     in if truthy background
                        then (if ub \<noteq> [] then ub @ [10] @ the background else the background)
                        else ub),
                   telegram_status_updater := Some (TelegramStateManager b)\<rparr>;
          chat = md_chat_id (msg_metadata message);
          reply = ReplyStr (md_message_id (msg_metadata message));
          w0 = w\<lparr>status_calls := status_calls w @ [start_call]\<rparr>
      in case b of
           None \<Rightarrow> (Inr (self2, None), w0)
         | Some bt \<Rightarrow>
             (let w1 = w0\<lparr>transport := transport w @ [SendMessage chat (rendered start_call) reply]\<rparr>
              in case send_message bt (transport w) chat (rendered start_call) reply of
                   Inl e \<Rightarrow> (Inr (self2, None), w1)
                 | Inr m \<Rightarrow>
                     (Inr (self2, Some (str_int (tg_message_id m))),
                      w1\<lparr>status_messages := (status_messages w)(str_int (tg_message_id m) \<mapsto> m)\<rparr>)))"
  by (simp add: process_begin_def Let_def update_status_sm_create io_bind_def io_return_def
      start_call_def split: option.splits sum.splits)


lemma call_ops_no_sid:
  "list_all (\<lambda>c. P c \<and> sc_status_message_id c = None) cs \<Longrightarrow> concat (map (call_ops b sm) cs) = []"
  by (induction cs) (simp_all add: call_ops_def)

lemma call_ops_no_bot: "concat (map (call_ops None sm) cs) = []"
  by (induction cs) (simp_all add: call_ops_def edit_ops_def split: option.splits)

lemma call_ops_edits:
  "list_all (\<lambda>c. P c \<and> sc_status_message_id c = Some sid) cs \<Longrightarrow> sm sid = Some m \<Longrightarrow>
   concat (map (call_ops (Some bt) sm) cs) = map (\<lambda>c. EditText m (rendered c)) cs"
  by (induction cs) (simp_all add: call_ops_def edit_ops_def)

lemma sorted_start:
  "sorted (progress_values cs) \<Longrightarrow> list_all (\<lambda>p. 0.2 \<le> p \<and> p \<le> 0.98) (progress_values cs) \<Longrightarrow>
   sorted (progress_values (start_call # cs))"
  by (auto simp: progress_values_Cons start_call_def shown_progress_def list_all_iff)

lemma process_trace:
  fixes message :: message and b :: "bot option"
  defines "chat \<equiv> md_chat_id (msg_metadata message)"
    and "reply \<equiv> ReplyStr (md_message_id (msg_metadata message))"
  shows "\<exists>cs. status_calls (snd (process strict env self message background
                                   (Some (TelegramStateManager b)) w))
               = status_calls w @ start_call # cs
           \<and> list_all call_shape cs
           \<and> sorted (progress_values (start_call # cs))
           \<and> transport (snd (process strict env self message background
                                (Some (TelegramStateManager b)) w))
               = transport w
                 @ (case b of
                      None \<Rightarrow> []
                    | Some bt \<Rightarrow>
                        SendMessage chat (rendered start_call) reply
                        # (case send_message bt (transport w) chat (rendered start_call) reply of
                             Inl e \<Rightarrow> []
                           | Inr m \<Rightarrow> map (\<lambda>c. EditText m (rendered c)) cs))
           \<and> (case b of
                 None \<Rightarrow> True
               | Some bt \<Rightarrow>
                   (case send_message bt (transport w) chat (rendered start_call) reply of
                      Inl e \<Rightarrow> True
                    | Inr m \<Rightarrow>
                        list_all (\<lambda>c. sc_status_message_id c = Some (str_int (tg_message_id m)))
                          cs))"
proof -
  let ?P = "process strict env self message background (Some (TelegramStateManager b)) w"
  obtain self1 smid w1 where beg:
    "process_begin env self message background (Some (TelegramStateManager b)) w = (Inr (self1, smid), w1)"
    and u: "telegram_status_updater self1 = Some (TelegramStateManager b)"
    by (cases b; cases "send_message (the b) (transport w) chat (rendered start_call) reply")
       (simp_all add: process_begin_sm Let_def chat_def reply_def)
  have adv: "advances b call_shape smid 0.2 0.98 w1 (snd ?P)"
    by (rule process_after_begin[OF beg]) (simp add: u)
  then obtain cs where cs: "status_messages (snd ?P) = status_messages w1"
    "status_calls (snd ?P) = status_calls w1 @ cs"
    "list_all (\<lambda>c. call_shape c \<and> sc_status_message_id c = smid) cs"
    "sorted (progress_values cs)"
    "list_all (\<lambda>p. 0.2 \<le> p \<and> p \<le> 0.98) (progress_values cs)"
    "transport (snd ?P) = transport w1 @ concat (map (call_ops b (status_messages w1)) cs)"
    by (auto simp: advances_def)
  have shape: "list_all call_shape cs"
    using cs(3) by (simp add: list_all_iff)
  have srt: "sorted (progress_values (start_call # cs))"
    by (rule sorted_start[OF cs(4,5)])
  show ?thesis
  proof (cases b)
    case None
    then have "w1 = w\<lparr>status_calls := status_calls w @ [start_call]\<rparr>"
      using beg by (simp add: process_begin_sm Let_def)
    then show ?thesis
      using cs(2,6) shape srt None by (intro exI[of _ cs]) (simp add: call_ops_no_bot)
  next
    case (Some bt)
    show ?thesis
    proof (cases "send_message bt (transport w) chat (rendered start_call) reply")
      case (Inl e)
      then have "smid = None"
        "w1 = w\<lparr>status_calls := status_calls w @ [start_call],
               transport := transport w @ [SendMessage chat (rendered start_call) reply]\<rparr>"
        using beg Some by (simp_all add: process_begin_sm Let_def chat_def reply_def)
      then show ?thesis
        using cs(2,3,6) shape srt Some Inl
        by (intro exI[of _ cs]) (simp add: call_ops_no_sid)
    next
      case (Inr m)
      then have "smid = Some (str_int (tg_message_id m))"
        "w1 = w\<lparr>status_calls := status_calls w @ [start_call],
               transport := transport w @ [SendMessage chat (rendered start_call) reply],
               status_messages := (status_messages w)(str_int (tg_message_id m) \<mapsto> m)\<rparr>"
        using beg Some by (simp_all add: process_begin_sm Let_def chat_def reply_def)
      moreover have "list_all (\<lambda>c. sc_status_message_id c = Some (str_int (tg_message_id m))) cs"
        using cs(3) calculation(1) by (simp add: list_all_iff)
      ultimately show ?thesis
        using cs(2,3,6) shape srt Some Inr
        by (intro exI[of _ cs]) (simp add: call_ops_edits[where m=m])
    qed
  qed
qed


lemma process_begin_none:
  "\<exists>self1. process_begin env self message background None w = (Inr (self1, None), w)"
  by (simp add: process_begin_def Let_def io_return_def)

lemma process_trace_silent:
  "\<exists>cs. status_calls (snd (process strict env self message background None w))
            = status_calls w @ cs
        \<and> list_all call_shape cs \<and> sorted (progress_values cs)
        \<and> transport (snd (process strict env self message background None w)) = transport w"
proof -
  obtain self1 where beg: "process_begin env self message background None w = (Inr (self1, None), w)"
    using process_begin_none by blast
  have "advances None call_shape None 0.2 0.98 w
          (snd (process strict env self message background None w))"
    by (rule process_after_begin[OF beg]) simp
  then show ?thesis
    by (auto simp: advances_def call_ops_no_bot list_all_iff)
qed

lemma shaped_progress:
  "list_all call_shape cs \<Longrightarrow>
   map sc_progress (filter (\<lambda>c. sc_status c = PROCESSING) cs) = map Some (progress_values cs)"
  by (induction cs)
     (auto simp: progress_values_Cons call_shape_def shown_progress_def
           split: message_status.splits option.splits)

lemma shaped_absent:
  assumes "call_shape c" and "\<not> sc_show_progress c \<or> sc_progress c = None"
  shows "sm_format_status_text (if sc_show_progress c then sc_progress c else None)
           (step_value (sc_step c)) (sc_description c) (sc_emoji c) = sc_description c"
  using assms
  by (cases "sc_status c")
     (auto simp: call_shape_def sm_format_status_text_def split: option.splits)

lemma start_call_shape: "call_shape start_call"
  by (simp add: call_shape_def start_call_def)

lemma str_int_7: "str_int 7 = asc ''7''"
  by (simp add: str_int_def str_nat.simps asc_def)

lemma simplify_error_timeout: "simplify_error (asc ''llm: timeout'') = asc ''timeout''"
  by (simp add: simplify_error_def asc_def py_split_def startswith_def)

lemma ex_run_classifier_down_calls:
  "status_calls (snd ex_run_classifier_down)
     = [start_call,
        mk_call PROCESSING Step_PREPROCESSING (Some 0.2) txt_prechecking (Some (asc ''7''))
          [128269] True,
        mk_call FAILED Step_ERROR (Some 0) (txt_cross @ asc ''timeout'') (Some (asc ''7'')) []
          False]"
proof -
  let ?self2 = "ex_agent_silent\<lparr>user_background := [],
                  telegram_status_updater := Some (TelegramStateManager (Some ex_bot))\<rparr>"
  let ?m = "\<lparr>tg_chat_id = asc ''9'', tg_message_id = 7\<rparr>"
  let ?w1 = "ex_world\<lparr>status_calls := [start_call],
               transport := [SendMessage (asc ''9'') (rendered start_call) (ReplyStr (asc ''41''))],
               status_messages := (status_messages ex_world)(asc ''7'' \<mapsto> ?m)\<rparr>"
  let ?init = "initial_state ex_message None (Some (asc ''7''))"
  have beg: "process_begin ex_env_classifier_down ex_agent_silent ex_message None
               (Some (TelegramStateManager (Some ex_bot))) ex_world
             = (Inr (?self2, Some (asc ''7'')), ?w1)"
    by (simp add: process_begin_sm Let_def ex_bot_def ex_message_def ex_env_classifier_down_def
        ex_env_def ex_world_def str_int_7)
  have a: "truthy (st_status_message_id ?init) \<longrightarrow>
           telegram_status_updater ?self2 = Some (TelegramStateManager (Some ex_bot))"
    by simp
  have sid0: "st_status_message_id ?init = Some (asc ''7'')"
    by (simp add: initial_state_def)
  have a2: "truthy (Some (asc ''7'')) \<longrightarrow>
           telegram_status_updater ?self2 = Some (TelegramStateManager (Some ex_bot))"
    by simp
  have pre: "\<And>w. content_precheck ex_env_classifier_down ?self2 ?init w
             = (Inl (Exception (asc ''llm: timeout'')),
                sm_report (Some ex_bot)
                  (mk_call PROCESSING Step_PREPROCESSING (Some 0.2) txt_prechecking
                     (Some (asc ''7'')) [128269] True) w)"
    by (subst content_precheck_eq[OF a])
       (simp add: Let_def ex_env_classifier_down_def initial_state_def)
  have inv: "\<And>w. ainvoke False ex_env_classifier_down ?self2 ?init w
             = (Inl (Exception (asc ''llm: timeout'')),
                sm_report (Some ex_bot)
                  (mk_call PROCESSING Step_PREPROCESSING (Some 0.2) txt_prechecking
                     (Some (asc ''7'')) [128269] True) (w\<lparr>nodes_run := nodes_run w @ [Precheck]\<rparr>))"
    by (simp add: ainvoke_def run_node_eq io_bind_def pre)
  have ne: "asc ''7'' \<noteq> []"
    by (simp add: asc_def)
  have sc: "status_calls ex_world = []"
    by (simp add: ex_world_def)
  show ?thesis
    by (simp add: ex_run_classifier_down_def process_def io_try_def io_bind_def beg inv
        process_except_eq[OF a2] simplify_error_timeout ne sc)
qed


text \<open>
  C1. In every run of \<open>process\<close> with the state manager as updater, every status update
  whose progress is absent (\<open>show_progress\<close> false or \<open>progress\<close> \<open>None\<close>) is rendered
  by the updater's \<open>format_status_text\<close> as its description and nothing else: no emoji
  prefix, no bar, no percentage. Such updates are the error texts and the final report.
\<close>
theorem absent_progress_renders_description:
  "\<exists>cs. status_calls (snd (process strict env self message background
                             (Some (TelegramStateManager b)) w))
          = status_calls w @ cs
      \<and> (\<forall>c \<in> set cs. \<not> sc_show_progress c \<or> sc_progress c = None \<longrightarrow>
            format_status_text (TelegramStateManager b)
              (if sc_show_progress c then sc_progress c else None)
              (step_value (sc_step c)) (sc_description c) (sc_emoji c)
            = Inr (sc_description c))"
proof -
  obtain cs where cs:
    "status_calls (snd (process strict env self message background
                          (Some (TelegramStateManager b)) w)) = status_calls w @ start_call # cs"
    "list_all call_shape cs"
    using process_trace[of strict env self message background b w] by blast
  have "list_all call_shape (start_call # cs)"
    using cs(2) start_call_shape by simp
  then have "\<forall>c \<in> set (start_call # cs). \<not> sc_show_progress c \<or> sc_progress c = None \<longrightarrow>
            format_status_text (TelegramStateManager b)
              (if sc_show_progress c then sc_progress c else None)
              (step_value (sc_step c)) (sc_description c) (sc_emoji c)
            = Inr (sc_description c)"
    using shaped_absent by (auto simp: list_all_iff TelegramStateManager_def)
  with cs(1) show ?thesis by blast
qed


theorem absent_progress_renders_description_witness:
  "mk_call FAILED Step_ERROR (Some 0) (txt_cross @ asc ''timeout'') (Some (asc ''7'')) [] False
     \<in> set (status_calls (snd ex_run_classifier_down))
   \<and> \<not> sc_show_progress
         (mk_call FAILED Step_ERROR (Some 0) (txt_cross @ asc ''timeout'') (Some (asc ''7'')) []
            False)
   \<and> format_status_text (TelegramStateManager (Some ex_bot)) None (step_value Step_ERROR)
         (txt_cross @ asc ''timeout'') []
       = Inr (txt_cross @ asc ''timeout'')"
proof -
  let ?c = "mk_call FAILED Step_ERROR (Some 0) (txt_cross @ asc ''timeout'') (Some (asc ''7'')) []
              False"
  obtain cs where cs:
    "status_calls (snd ex_run_classifier_down) = status_calls ex_world @ cs"
    "\<forall>c \<in> set cs. \<not> sc_show_progress c \<or> sc_progress c = None \<longrightarrow>
            format_status_text (TelegramStateManager (Some ex_bot))
              (if sc_show_progress c then sc_progress c else None)
              (step_value (sc_step c)) (sc_description c) (sc_emoji c)
            = Inr (sc_description c)"
    using absent_progress_renders_description
      [of False ex_env_classifier_down ex_agent_silent ex_message None "Some ex_bot" ex_world]
    unfolding ex_run_classifier_down_def by blast
  have "status_calls ex_world = []"
    by (simp add: ex_world_def)
  with cs(1) have mem: "?c \<in> set cs"
    by (auto simp: ex_run_classifier_down_calls)
  have hid: "\<not> sc_show_progress ?c"
    by simp
  from cs(2) mem hid have
    "format_status_text (TelegramStateManager (Some ex_bot))
       (if sc_show_progress ?c then sc_progress ?c else None)
       (step_value (sc_step ?c)) (sc_description ?c) (sc_emoji ?c) = Inr (sc_description ?c)"
    by blast
  then show ?thesis
    using mem hid cs(1) \<open>status_calls ex_world = []\<close> by simp
qed



text \<open>
  C8. In every run of \<open>process\<close>, with the state manager as updater or with no updater,
  the progress values that the status updates show are in non-decreasing order. The
  values shown are exactly the progress arguments of the updates with status PROCESSING;
  the error updates and the final report show none. So in a run in which no step fails,
  the progress of all updates before the final report is non-decreasing.
\<close>
theorem progress_values_non_decreasing:
  "(\<exists>cs. status_calls (snd (process strict env self message background
                              (Some (TelegramStateManager b)) w))
           = status_calls w @ cs
       \<and> sorted (progress_values cs)
       \<and> map sc_progress (filter (\<lambda>c. sc_status c = PROCESSING) cs)
           = map Some (progress_values cs))
   \<and> (\<exists>cs. status_calls (snd (process strict env self message background None w))
           = status_calls w @ cs
       \<and> sorted (progress_values cs)
       \<and> map sc_progress (filter (\<lambda>c. sc_status c = PROCESSING) cs)
           = map Some (progress_values cs))"
proof
  obtain cs where cs:
    "status_calls (snd (process strict env self message background
                          (Some (TelegramStateManager b)) w)) = status_calls w @ start_call # cs"
    "list_all call_shape cs" "sorted (progress_values (start_call # cs))"
    using process_trace[of strict env self message background b w] by blast
  have "list_all call_shape (start_call # cs)"
    using cs(2) start_call_shape by simp
  from shaped_progress[OF this] cs(1,3)
  show "\<exists>cs. status_calls (snd (process strict env self message background
                              (Some (TelegramStateManager b)) w))
           = status_calls w @ cs
       \<and> sorted (progress_values cs)
       \<and> map sc_progress (filter (\<lambda>c. sc_status c = PROCESSING) cs)
           = map Some (progress_values cs)"
    by blast
next
  show "\<exists>cs. status_calls (snd (process strict env self message background None w))
           = status_calls w @ cs
       \<and> sorted (progress_values cs)
       \<and> map sc_progress (filter (\<lambda>c. sc_status c = PROCESSING) cs)
           = map Some (progress_values cs)"
    using process_trace_silent[of strict env self message background w] shaped_progress
    by blast
qed

subsection \<open>Routing after SAVE_NOTION\<close>

lemma route_after_save_iff:
  "(route_after_save s = ExtractTasks) = (state_has_text s \<and> get_or (st_save_success s) False)"
  by (simp add: route_after_save_def state_has_text_def Let_def)

lemma save_to_notion_state:
  assumes a: "truthy (st_status_message_id s) \<longrightarrow> telegram_status_updater self = Some (TelegramStateManager b)"
    and r: "fst (save_to_notion env self s w) = Inr s1"
  shows "st_precheck_result s1 = st_precheck_result s
         \<and> (get_or (st_save_success s1) False \<longrightarrow>
              \<not> falsy_format_result (st_format_content_result s)
              \<and> note_saved (add_note env (store_calls w)
                               (note_args_of s (the (st_format_content_result s)))))
         \<and> nodes_run (snd (save_to_notion env self s w)) = nodes_run w
         \<and> (\<exists>cs. status_calls (snd (save_to_notion env self s w)) = status_calls w @ cs
                \<and> list_all (\<lambda>c. sc_status c \<noteq> COMPLETED) cs)"
  using r
  by (auto simp: save_to_notion_eq[OF a] Let_def save_failed_def note_saved_def get_or_def
      split: sum.splits if_splits)

lemma content_precheck_state:
  assumes a: "truthy (st_status_message_id s) \<longrightarrow> telegram_status_updater self = Some (TelegramStateManager b)"
  shows "nodes_run (snd (content_precheck env self s w)) = nodes_run w
         \<and> (\<exists>cs. status_calls (snd (content_precheck env self s w)) = status_calls w @ cs
                \<and> list_all (\<lambda>c. sc_status c \<noteq> COMPLETED) cs)"
  by (auto simp: content_precheck_eq[OF a] Let_def split: sum.splits)

lemma format_save_without_text:
  assumes a: "truthy (st_status_message_id s2) \<longrightarrow> telegram_status_updater self = Some (TelegramStateManager b)"
    and r: "st_precheck_result s2 = Some r"
    and nt: "\<not> get_or (contains_text r) False \<or> (\<forall>h args. \<not> note_saved (add_note env h args))"
  shows "\<exists>cs. nodes_run (snd (io_bind (run_node FormatContent (format_content env self s2))
                   (\<lambda>s3. io_bind (run_node SaveNotion (save_to_notion env self s3))
                            (\<lambda>s4. after_save strict env self s4)) w2))
                = nodes_run w2 @ [FormatContent, SaveNotion]
           \<and> status_calls (snd (io_bind (run_node FormatContent (format_content env self s2))
                   (\<lambda>s3. io_bind (run_node SaveNotion (save_to_notion env self s3))
                            (\<lambda>s4. after_save strict env self s4)) w2))
                = status_calls w2 @ cs
           \<and> list_all (\<lambda>c. sc_status c \<noteq> COMPLETED) cs"
proof -
  let ?wf = "w2\<lparr>nodes_run := nodes_run w2 @ [FormatContent]\<rparr>"
  obtain s3 where f3: "format_content env self s2 ?wf = (Inr s3, ?wf)"
    and s3: "st_precheck_result s3 = Some r" "st_status_message_id s3 = st_status_message_id s2"
    using r
    by (cases "llm_format_content env (st_text_content s2) (user_background self)")
       (simp_all add: format_content_eq)
  have a3: "truthy (st_status_message_id s3) \<longrightarrow> telegram_status_updater self = Some (TelegramStateManager b)"
    using a s3 by simp
  let ?ws = "w2\<lparr>nodes_run := nodes_run w2 @ [FormatContent, SaveNotion]\<rparr>"
  obtain s4 w4 where s4: "save_to_notion env self s3 ?ws = (Inr s4, w4)"
    using save_to_notion_fst[of env self s3 ?ws]
    by (cases "save_to_notion env self s3 ?ws") (auto split: sum.splits)
  then have s4f: "fst (save_to_notion env self s3 ?ws) = Inr s4"
    and w4e: "snd (save_to_notion env self s3 ?ws) = w4" by simp_all
  note st = save_to_notion_state[OF a3 s4f, unfolded w4e]
  have route: "route_after_save s4 \<noteq> ExtractTasks"
    using st nt s3 by (auto simp: route_after_save_iff state_has_text_def get_or_def)
  obtain cs4 where w4: "nodes_run w4 = nodes_run w2 @ [FormatContent, SaveNotion]"
    "status_calls w4 = status_calls w2 @ cs4" "list_all (\<lambda>c. sc_status c \<noteq> COMPLETED) cs4"
    using st by auto
  have fin: "snd (io_bind (run_node FormatContent (format_content env self s2))
                   (\<lambda>s3. io_bind (run_node SaveNotion (save_to_notion env self s3))
                            (\<lambda>s4. after_save strict env self s4)) w2) = w4"
    using route
    by (simp add: run_node_eq io_bind_def f3 s4 after_save_eq)
  show ?thesis
    unfolding fin using w4 by blast
qed

lemma ainvoke_without_text:
  assumes a: "truthy (st_status_message_id s) \<longrightarrow> telegram_status_updater self = Some (TelegramStateManager b)"
    and r: "url_text_analyzer env (st_text_content s) = Inr r"
    and nt: "\<not> get_or (contains_text r) False \<or> (\<forall>h args. \<not> note_saved (add_note env h args))"
  shows "\<exists>ns cs. nodes_run (snd (ainvoke strict env self s w)) = nodes_run w @ ns
           \<and> ExtractTasks \<notin> set ns \<and> CreateTasks \<notin> set ns
           \<and> status_calls (snd (ainvoke strict env self s w)) = status_calls w @ cs
           \<and> list_all (\<lambda>c. sc_status c \<noteq> COMPLETED) cs"
proof -
  let ?s1 = "s\<lparr>st_precheck_result := Some r\<rparr>"
  let ?wp = "w\<lparr>nodes_run := nodes_run w @ [Precheck]\<rparr>"
  let ?rest = "\<lambda>s2. io_bind (run_node FormatContent (format_content env self s2))
                   (\<lambda>s3. io_bind (run_node SaveNotion (save_to_notion env self s3))
                            (\<lambda>s4. after_save strict env self s4))"
  obtain w1 where p1: "content_precheck env self s ?wp = (Inr ?s1, w1)"
    using content_precheck_fst[of env self s ?wp] r
    by (cases "content_precheck env self s ?wp") simp
  then have w1e: "snd (content_precheck env self s ?wp) = w1" by simp
  obtain cs1 where w1: "nodes_run w1 = nodes_run w @ [Precheck]"
    "status_calls w1 = status_calls w @ cs1" "list_all (\<lambda>c. sc_status c \<noteq> COMPLETED) cs1"
    using content_precheck_state[OF a, of env ?wp, unfolded w1e] by auto
  have a1: "truthy (st_status_message_id ?s1) \<longrightarrow> telegram_status_updater self = Some (TelegramStateManager b)"
    using a by simp
  have r1: "st_precheck_result ?s1 = Some r" by simp
  show ?thesis
  proof (cases "route_after_url_check ?s1 = UrlSummary")
    case True
    let ?w2 = "w1\<lparr>nodes_run := nodes_run w1 @ [UrlSummary]\<rparr>"
    have fin: "snd (ainvoke strict env self s w) = snd (?rest ?s1 ?w2)"
      using True
      by (simp add: ainvoke_def run_node_eq p1 url_summary_def io_return_def io_bind_def)
    obtain cs where "nodes_run (snd (?rest ?s1 ?w2)) = nodes_run ?w2 @ [FormatContent, SaveNotion]"
      "status_calls (snd (?rest ?s1 ?w2)) = status_calls ?w2 @ cs"
      "list_all (\<lambda>c. sc_status c \<noteq> COMPLETED) cs"
      using format_save_without_text[OF a1 r1 nt, of strict ?w2] by blast
    then show ?thesis
      unfolding fin using w1
      by (intro exI[of _ "[Precheck, UrlSummary, FormatContent, SaveNotion]"] exI[of _ "cs1 @ cs"]) simp
  next
    case False
    have fin: "snd (ainvoke strict env self s w) = snd (?rest ?s1 w1)"
      using False
      by (simp add: ainvoke_def run_node_eq p1 io_return_def io_bind_def)
    obtain cs where "nodes_run (snd (?rest ?s1 w1)) = nodes_run w1 @ [FormatContent, SaveNotion]"
      "status_calls (snd (?rest ?s1 w1)) = status_calls w1 @ cs"
      "list_all (\<lambda>c. sc_status c \<noteq> COMPLETED) cs"
      using format_save_without_text[OF a1 r1 nt, of strict w1] by blast
    then show ?thesis
      unfolding fin using w1
      by (intro exI[of _ "[Precheck, FormatContent, SaveNotion]"] exI[of _ "cs1 @ cs"]) simp
  qed
qed

lemma simplify_error_key_error: "simplify_error txt_key_error_end = txt_key_error_end"
  by (simp add: simplify_error_def txt_key_error_end_def asc_def startswith_def)

lemma format_save_without_text_raises:
  assumes a: "truthy (st_status_message_id s2) \<longrightarrow> telegram_status_updater self = Some (TelegramStateManager b)"
    and r: "st_precheck_result s2 = Some r"
    and nt: "\<not> get_or (contains_text r) False \<or> (\<forall>h args. \<not> note_saved (add_note env h args))"
  shows "fst (io_bind (run_node FormatContent (format_content env self s2))
                   (\<lambda>s3. io_bind (run_node SaveNotion (save_to_notion env self s3))
                            (\<lambda>s4. after_save True env self s4)) w2)
           = Inl (Exception txt_key_error_end)"
proof -
  let ?wf = "w2\<lparr>nodes_run := nodes_run w2 @ [FormatContent]\<rparr>"
  obtain s3 where f3: "format_content env self s2 ?wf = (Inr s3, ?wf)"
    and s3: "st_precheck_result s3 = Some r" "st_status_message_id s3 = st_status_message_id s2"
    using r
    by (cases "llm_format_content env (st_text_content s2) (user_background self)")
       (simp_all add: format_content_eq)
  have a3: "truthy (st_status_message_id s3) \<longrightarrow> telegram_status_updater self = Some (TelegramStateManager b)"
    using a s3 by simp
  let ?ws = "w2\<lparr>nodes_run := nodes_run w2 @ [FormatContent, SaveNotion]\<rparr>"
  obtain s4 w4 where s4: "save_to_notion env self s3 ?ws = (Inr s4, w4)"
    using save_to_notion_fst[of env self s3 ?ws]
    by (cases "save_to_notion env self s3 ?ws") (auto split: sum.splits)
  then have s4f: "fst (save_to_notion env self s3 ?ws) = Inr s4"
    and w4e: "snd (save_to_notion env self s3 ?ws) = w4" by simp_all
  note st = save_to_notion_state[OF a3 s4f, unfolded w4e]
  have route: "route_after_save s4 \<noteq> ExtractTasks"
    using st nt s3 by (auto simp: route_after_save_iff state_has_text_def get_or_def)
  show ?thesis
    using route
    by (simp add: run_node_eq io_bind_def f3 s4 after_save_eq)
qed

lemma ainvoke_without_text_raises:
  assumes a: "truthy (st_status_message_id s) \<longrightarrow> telegram_status_updater self = Some (TelegramStateManager b)"
    and r: "url_text_analyzer env (st_text_content s) = Inr r"
    and nt: "\<not> get_or (contains_text r) False \<or> (\<forall>h args. \<not> note_saved (add_note env h args))"
  shows "fst (ainvoke True env self s w) = Inl (Exception txt_key_error_end)"
proof -
  let ?s1 = "s\<lparr>st_precheck_result := Some r\<rparr>"
  let ?wp = "w\<lparr>nodes_run := nodes_run w @ [Precheck]\<rparr>"
  let ?rest = "\<lambda>s2. io_bind (run_node FormatContent (format_content env self s2))
                   (\<lambda>s3. io_bind (run_node SaveNotion (save_to_notion env self s3))
                            (\<lambda>s4. after_save True env self s4))"
  obtain w1 where p1: "content_precheck env self s ?wp = (Inr ?s1, w1)"
    using content_precheck_fst[of env self s ?wp] r
    by (cases "content_precheck env self s ?wp") simp
  have a1: "truthy (st_status_message_id ?s1) \<longrightarrow> telegram_status_updater self = Some (TelegramStateManager b)"
    using a by simp
  have r1: "st_precheck_result ?s1 = Some r" by simp
  note rest = format_save_without_text_raises[OF a1 r1 nt]
  show ?thesis
  proof (cases "route_after_url_check ?s1 = UrlSummary")
    case True
    have "fst (ainvoke True env self s w)
            = fst (?rest ?s1 (w1\<lparr>nodes_run := nodes_run w1 @ [UrlSummary]\<rparr>))"
      using True
      by (simp add: ainvoke_def run_node_eq p1 url_summary_def io_return_def io_bind_def)
    then show ?thesis using rest by simp
  next
    case False
    have "fst (ainvoke True env self s w) = fst (?rest ?s1 w1)"
      using False
      by (simp add: ainvoke_def run_node_eq p1 io_return_def io_bind_def)
    then show ?thesis using rest by simp
  qed
qed

lemma process_raises_eq:
  assumes beg: "process_begin env self message background upd w = (Inr (self1, smid), w1)"
    and a: "truthy smid \<longrightarrow> telegram_status_updater self1 = Some (TelegramStateManager b)"
    and inv: "fst (ainvoke strict env self1 (initial_state message background smid) w1) = Inl e"
  shows "process strict env self message background upd w
           = (Inr (Error (str_exn e)),
              sm_report b
                (mk_call FAILED Step_ERROR (Some 0) (txt_cross @ simplify_error (str_exn e))
                   smid [] False)
                (snd (ainvoke strict env self1 (initial_state message background smid) w1)))"
  using inv
  by (cases "ainvoke strict env self1 (initial_state message background smid) w1")
     (simp add: process_def io_try_def io_bind_def beg process_except_eq[OF a])

lemma ex_process_begin:
  assumes "get_user_background env (asc ''5'') = []"
  shows "process_begin env ex_agent_silent ex_message None
           (Some (TelegramStateManager (Some ex_bot))) ex_world
         = (Inr (ex_agent_started, Some (asc ''7'')), ex_world_started)"
  using assms
  by (simp add: process_begin_sm Let_def ex_bot_def ex_message_def ex_world_def str_int_7
      ex_agent_started_def ex_world_started_def ex_status_message_def fmt_opt_def)

lemma ex_state_start_simps:
  "st_status_message_id ex_state_start = Some (asc ''7'')"
  "initial_state ex_message None (Some (asc ''7'')) = ex_state_start"
  "st_text_content ex_state_start = msg_text ex_message"
  "truthy (Some (asc ''7''))"
  by (simp_all add: ex_state_start_def initial_state_def asc_def)

text \<open>
  C4, at the path map of the graph library. \<open>_route_after_save\<close> answers EXTRACT_TASKS
  exactly when the state has \<open>contains_text\<close> and \<open>save_success\<close>, and then the edge runs
  EXTRACT_TASKS and CREATE_TASKS. Otherwise it answers END, which is not a key of the
  path map of the conditional edge: the graph raises \<open>KeyError('__end__')\<close> and leaves the
  world as it is. For a run whose classifier reports no text, or whose note store never
  returns a saved entry, the graph raises this error after SAVE_NOTION; EXTRACT_TASKS
  and CREATE_TASKS do not run and no status update has the status COMPLETED; and
  \<open>process\<close>, which catches the error, reports it as a FAILED update with the text
  \<open>'__end__'\<close> and returns it as the error of the run.
\<close>

theorem route_to_end_raises_key_error:
  assumes a: "truthy (st_status_message_id s) \<longrightarrow> telegram_status_updater self = Some (TelegramStateManager b)"
    and r: "url_text_analyzer env (st_text_content s) = Inr r"
    and nt: "\<not> get_or (contains_text r) False \<or> (\<forall>h args. \<not> note_saved (add_note env h args))"
  shows "(route_after_save s' = ExtractTasks)
           = (state_has_text s' \<and> get_or (st_save_success s') False)
     \<and> after_save True env self s' w'
         = (if route_after_save s' = ExtractTasks
            then io_bind (run_node ExtractTasks (extract_tasks env self s'))
                   (\<lambda>s1. run_node CreateTasks (create_tasks env self s1)) w'
            else (Inl (Exception txt_key_error_end), w'))
     \<and> fst (ainvoke True env self s w) = Inl (Exception txt_key_error_end)
     \<and> (\<exists>ns cs. nodes_run (snd (ainvoke True env self s w)) = nodes_run w @ ns
           \<and> ExtractTasks \<notin> set ns \<and> CreateTasks \<notin> set ns
           \<and> status_calls (snd (ainvoke True env self s w)) = status_calls w @ cs
           \<and> list_all (\<lambda>c. sc_status c \<noteq> COMPLETED) cs)
     \<and> (process_begin env self0 message background upd w0
           = (Inr (self, st_status_message_id s), w)
         \<and> s = initial_state message background (st_status_message_id s) \<longrightarrow>
         process True env self0 message background upd w0
           = (Inr (Error txt_key_error_end),
              sm_report b (key_error_call (st_status_message_id s))
                (snd (ainvoke True env self s w))))"
proof (intro conjI impI)
  show "(route_after_save s' = ExtractTasks)
           = (state_has_text s' \<and> get_or (st_save_success s') False)"
    by (rule route_after_save_iff)
  show "after_save True env self s' w'
         = (if route_after_save s' = ExtractTasks
            then io_bind (run_node ExtractTasks (extract_tasks env self s'))
                   (\<lambda>s1. run_node CreateTasks (create_tasks env self s1)) w'
            else (Inl (Exception txt_key_error_end), w'))"
    by (simp add: after_save_eq)
  show inv: "fst (ainvoke True env self s w) = Inl (Exception txt_key_error_end)"
    by (rule ainvoke_without_text_raises[OF a r nt])
  show "\<exists>ns cs. nodes_run (snd (ainvoke True env self s w)) = nodes_run w @ ns
           \<and> ExtractTasks \<notin> set ns \<and> CreateTasks \<notin> set ns
           \<and> status_calls (snd (ainvoke True env self s w)) = status_calls w @ cs
           \<and> list_all (\<lambda>c. sc_status c \<noteq> COMPLETED) cs"
    by (rule ainvoke_without_text[OF a r nt])
  assume p: "process_begin env self0 message background upd w0
           = (Inr (self, st_status_message_id s), w)
         \<and> s = initial_state message background (st_status_message_id s)"
  then have beg: "process_begin env self0 message background upd w0
           = (Inr (self, st_status_message_id s), w)"
    and init: "initial_state message background (st_status_message_id s) = s"
    by simp_all
  show "process True env self0 message background upd w0
           = (Inr (Error txt_key_error_end),
              sm_report b (key_error_call (st_status_message_id s))
                (snd (ainvoke True env self s w)))"
  proof -
    have inv': "fst (ainvoke True env self
                       (initial_state message background (st_status_message_id s)) w)
                  = Inl (Exception txt_key_error_end)"
      using inv init by simp
    show ?thesis
      using process_raises_eq[OF beg a inv']
      by (simp add: init simplify_error_key_error key_error_call_def)
  qed
qed

theorem route_to_end_raises_key_error_witness:
  "route_after_save ex_state_tasks = END
   \<and> after_save True ex_env_no_text ex_agent ex_state_tasks ex_world
       = (Inl (Exception txt_key_error_end), ex_world)
   \<and> fst ex_process_no_text = Inr (Error txt_key_error_end)
   \<and> last (status_calls (snd ex_process_no_text)) = key_error_call (Some (asc ''7''))
   \<and> last (transport (snd ex_process_no_text))
       = EditText ex_status_message (txt_cross @ txt_key_error_end)
   \<and> list_all (\<lambda>c. sc_status c \<noteq> COMPLETED) (status_calls (snd ex_process_no_text))
   \<and> ExtractTasks \<notin> set (nodes_run (snd ex_process_no_text))
   \<and> CreateTasks \<notin> set (nodes_run (snd ex_process_no_text))"
proof -
  let ?r = "\<lparr>contains_url = Some False, contains_text = Some False, urls = None\<rparr>"
  let ?A = "ainvoke True ex_env_no_text ex_agent_started ex_state_start ex_world_started"
  note ss = ex_state_start_simps
  have a: "truthy (st_status_message_id ex_state_start) \<longrightarrow>
             telegram_status_updater ex_agent_started = Some (TelegramStateManager (Some ex_bot))"
    by (simp add: ex_agent_started_def)
  have r: "url_text_analyzer ex_env_no_text (st_text_content ex_state_start) = Inr ?r"
    by (simp add: ex_env_no_text_def)
  have nt: "\<not> get_or (contains_text ?r) False \<or> (\<forall>h args. \<not> note_saved (add_note ex_env_no_text h args))"
    by (simp add: get_or_def)
  have beg: "process_begin ex_env_no_text ex_agent_silent ex_message None
               (Some (TelegramStateManager (Some ex_bot))) ex_world
             = (Inr (ex_agent_started, st_status_message_id ex_state_start), ex_world_started)"
    unfolding ss(1) by (rule ex_process_begin) (simp add: ex_env_no_text_def ex_env_def)
  have init: "ex_state_start = initial_state ex_message None (st_status_message_id ex_state_start)"
    by (simp add: ss)
  have e: "route_after_save ex_state_tasks = END"
    by (simp add: route_after_save_def ex_state_tasks_def initial_state_def get_or_def Let_def)
  note t = route_to_end_raises_key_error[OF a r nt, where s'=ex_state_tasks and w'=ex_world
      and w=ex_world_started and ?self0.0=ex_agent_silent and message=ex_message
      and background=None and upd="Some (TelegramStateManager (Some ex_bot))" and ?w0.0=ex_world]
  have t2: "after_save True ex_env_no_text ex_agent_started ex_state_tasks ex_world
       = (Inl (Exception txt_key_error_end), ex_world)"
    using t[THEN conjunct2, THEN conjunct1] e by simp
  obtain ns cs where run: "nodes_run (snd ?A) = nodes_run ex_world_started @ ns"
    "ExtractTasks \<notin> set ns" "CreateTasks \<notin> set ns"
    "status_calls (snd ?A) = status_calls ex_world_started @ cs"
    "list_all (\<lambda>c. sc_status c \<noteq> COMPLETED) cs"
    using t[THEN conjunct2, THEN conjunct2, THEN conjunct2, THEN conjunct1] by blast
  have p: "ex_process_no_text
             = (Inr (Error txt_key_error_end),
                sm_report (Some ex_bot) (key_error_call (Some (asc ''7''))) (snd ?A))"
    using t[THEN conjunct2, THEN conjunct2, THEN conjunct2, THEN conjunct2] beg init
    by (simp add: ex_process_no_text_def ss(1))
  have sm: "status_messages (snd ?A) = status_messages ex_world_started"
    using ainvoke_advances[OF a, of ex_world_started True ex_env_no_text]
    by (simp add: advances_def)
  have ws: "nodes_run ex_world_started = []" "status_calls ex_world_started = [start_call]"
    "status_messages ex_world_started (asc ''7'') = Some ex_status_message"
    by (simp_all add: ex_world_started_def ex_world_def)
  have sc: "sc_status start_call \<noteq> COMPLETED"
    by (simp add: start_call_def)
  show ?thesis
    using e run ws sc ss(4)
    by (simp add: p sm key_error_call_def call_ops_def edit_ops_def)
       (simp add: after_save_eq)
qed

subsection \<open>A failing formatter\<close>

lemma simplify_error_format_empty: "simplify_error txt_format_empty = txt_format_empty"
  by (simp add: simplify_error_def txt_format_empty_def asc_def startswith_def)

lemma ainvoke_format_raises:
  assumes a: "truthy (st_status_message_id s) \<longrightarrow> telegram_status_updater self = Some (TelegramStateManager b)"
    and r: "url_text_analyzer env (st_text_content s) = Inr r"
    and f: "llm_format_content env (st_text_content s) (user_background self) = Inl e"
    and fe: "falsy_format_result (st_format_content_result s)"
  shows "ainvoke strict env self s w =
     (if strict then Inl (Exception txt_key_error_end) else Inr (format_failed_state s r),
      sm_report b (format_empty_call (st_status_message_id s))
        (sm_report b (saving_call (st_status_message_id s))
          (sm_report b (precheck_calls (st_status_message_id s) r ! 1)
            (sm_report b (precheck_calls (st_status_message_id s) r ! 0) w)
           \<lparr>nodes_run := nodes_run w @ Precheck
              # (if route_after_url_check (s\<lparr>st_precheck_result := Some r\<rparr>) = UrlSummary
                 then [UrlSummary] else [])
              @ [FormatContent, SaveNotion]\<rparr>)))"
proof -
  let ?sid = "st_status_message_id s"
  let ?s1 = "s\<lparr>st_precheck_result := Some r\<rparr>"
  let ?wp = "w\<lparr>nodes_run := nodes_run w @ [Precheck]\<rparr>"
  let ?w1 = "sm_report b (precheck_calls ?sid r ! 1) (sm_report b (precheck_calls ?sid r ! 0) ?wp)"
  have p: "content_precheck env self s ?wp = (Inr ?s1, ?w1)"
    by (simp add: content_precheck_eq[OF a] r Let_def precheck_calls_def)
  obtain s3 where s3: "s3 = ?s1\<lparr>st_error_message := Some (str_exn e), st_next := END\<rparr>" by simp
  have fm: "\<And>w. format_content env self ?s1 w = (Inr s3, w)"
    using f by (simp add: format_content_eq s3)
  have a3: "truthy (st_status_message_id s3) \<longrightarrow> telegram_status_updater self = Some (TelegramStateManager b)"
    using a by (simp add: s3)
  have sv: "\<And>w. save_to_notion env self s3 w
              = (Inr (format_failed_state s r),
                 sm_report b (format_empty_call ?sid) (sm_report b (saving_call ?sid) w))"
    using fe
    by (simp add: save_to_notion_eq[OF a3] Let_def save_failed_def simplify_error_format_empty
        format_failed_state_def format_empty_call_def saving_call_def)
       (simp add: s3)
  have rt: "route_after_save (format_failed_state s r) \<noteq> ExtractTasks"
    by (simp add: route_after_save_iff get_or_def format_failed_state_def)
  have tail: "\<And>w2. io_bind (run_node FormatContent (format_content env self ?s1))
                   (\<lambda>s3. io_bind (run_node SaveNotion (save_to_notion env self s3))
                            (\<lambda>s4. after_save strict env self s4)) w2
           = (if strict then Inl (Exception txt_key_error_end) else Inr (format_failed_state s r),
              sm_report b (format_empty_call ?sid) (sm_report b (saving_call ?sid)
                 (w2\<lparr>nodes_run := nodes_run w2 @ [FormatContent, SaveNotion]\<rparr>)))"
    using rt by (simp add: io_bind_def run_node_eq fm sv after_save_eq)
  have head: "ainvoke strict env self s w =
      io_bind (run_node FormatContent (format_content env self ?s1))
                   (\<lambda>s3. io_bind (run_node SaveNotion (save_to_notion env self s3))
                            (\<lambda>s4. after_save strict env self s4))
        (if route_after_url_check ?s1 = UrlSummary
         then ?w1\<lparr>nodes_run := nodes_run ?w1 @ [UrlSummary]\<rparr> else ?w1)"
    by (simp add: ainvoke_def run_node_eq p url_summary_def io_return_def
        io_bind_def[of "run_node Precheck (content_precheck env self s)"]
        io_bind_def[of "run_node UrlSummary (\<lambda>w. (Inr ?s1, w))"]
        io_bind_def[of "\<lambda>w. (Inr ?s1, w)"])
  have frame: "\<And>c (v::world) ns. (sm_report b c v)\<lparr>nodes_run := ns\<rparr> = sm_report b c (v\<lparr>nodes_run := ns\<rparr>)"
    by (simp add: sm_report_def)
  show ?thesis
    unfolding head tail by (simp add: frame)
qed


lemma ex_format_down_facts:
  "truthy (st_status_message_id ex_state_start) \<longrightarrow>
     telegram_status_updater ex_agent = Some (TelegramStateManager (Some ex_bot))"
  "url_text_analyzer ex_env_format_down (st_text_content ex_state_start) = Inr ex_precheck"
  "llm_format_content ex_env_format_down (st_text_content ex_state_start)
     (user_background ex_agent) = Inl (Exception (asc ''outer: inner''))"
  "falsy_format_result (st_format_content_result ex_state_start)"
  "route_after_url_check (ex_state_start\<lparr>st_precheck_result := Some ex_precheck\<rparr>) \<noteq> UrlSummary"
  "st_status_message_id ex_state_start = Some (asc ''7'')"
  "truthy (Some (asc ''7''))"
  by (simp_all add: ex_agent_def ex_env_format_down_def ex_env_def ex_precheck_def
      ex_state_start_def initial_state_def falsy_format_result_def route_after_url_check_def
      get_or_def Let_def asc_def)

lemma save_after_format_failure:
  assumes a: "truthy (st_status_message_id s) \<longrightarrow> telegram_status_updater self = Some (TelegramStateManager b)"
    and fe: "falsy_format_result (st_format_content_result s)"
  shows "save_to_notion env self
           (s\<lparr>st_precheck_result := Some r, st_error_message := Some m, st_next := END\<rparr>) w
         = (Inr (format_failed_state s r),
            sm_report b (format_empty_call (st_status_message_id s))
              (sm_report b (saving_call (st_status_message_id s)) w))"
proof -
  let ?s3 = "s\<lparr>st_precheck_result := Some r, st_error_message := Some m, st_next := END\<rparr>"
  have a3: "truthy (st_status_message_id ?s3) \<longrightarrow> telegram_status_updater self = Some (TelegramStateManager b)"
    using a by simp
  show ?thesis
    using fe
    by (simp add: save_to_notion_eq[OF a3] Let_def save_failed_def simplify_error_format_empty
        format_failed_state_def format_empty_call_def saving_call_def)
qed

lemma ex_format_down_started:
  "truthy (st_status_message_id ex_state_start) \<longrightarrow>
     telegram_status_updater ex_agent_started = Some (TelegramStateManager (Some ex_bot))"
  "llm_format_content ex_env_format_down (st_text_content ex_state_start)
     (user_background ex_agent_started) = Inl (Exception (asc ''outer: inner''))"
  by (simp_all add: ex_agent_started_def ex_env_format_down_def)

text \<open>
  C5, as the code has it. When the formatter raises, FORMAT_CONTENT catches the exception
  and records its message verbatim as \<open>error_message\<close>, with \<open>next\<close> END. The edge from
  FORMAT_CONTENT to SAVE_NOTION is unconditional, so SAVE_NOTION runs on a state without a
  format result: it makes its status update "saving", its guard raises, and its handler
  reports FAILED with the guard's own text and returns the state with \<open>save_success\<close>
  False and that text as \<open>error_message\<close>. The note store is not called, and neither
  EXTRACT_TASKS nor CREATE_TASKS runs. What the graph returns after SAVE_NOTION depends on
  the path map, as in C4.
\<close>

theorem format_failure_ends_at_save_guard:
  assumes a: "truthy (st_status_message_id s) \<longrightarrow> telegram_status_updater self = Some (TelegramStateManager b)"
    and r: "url_text_analyzer env (st_text_content s) = Inr r"
    and f: "llm_format_content env (st_text_content s) (user_background self) = Inl e"
    and fe: "falsy_format_result (st_format_content_result s)"
  shows "format_content env self (s\<lparr>st_precheck_result := Some r\<rparr>) w'
           = (Inr (s\<lparr>st_precheck_result := Some r, st_error_message := Some (str_exn e),
                     st_next := END\<rparr>), w')
       \<and> save_to_notion env self
           (s\<lparr>st_precheck_result := Some r, st_error_message := Some (str_exn e),
              st_next := END\<rparr>) w'
           = (Inr (format_failed_state s r),
              sm_report b (format_empty_call (st_status_message_id s))
                (sm_report b (saving_call (st_status_message_id s)) w'))
       \<and> fst (ainvoke strict env self s w)
           = (if strict then Inl (Exception txt_key_error_end)
              else Inr (format_failed_state s r))
       \<and> nodes_run (snd (ainvoke strict env self s w))
           = nodes_run w @ Precheck
               # (if route_after_url_check (s\<lparr>st_precheck_result := Some r\<rparr>) = UrlSummary
                  then [UrlSummary] else [])
               @ [FormatContent, SaveNotion]
       \<and> store_calls (snd (ainvoke strict env self s w)) = store_calls w
       \<and> status_calls (snd (ainvoke strict env self s w))
           = status_calls w
               @ (if truthy (st_status_message_id s)
                  then precheck_calls (st_status_message_id s) r
                       @ [saving_call (st_status_message_id s),
                          format_empty_call (st_status_message_id s)]
                  else [])"
proof (intro conjI)
  show "format_content env self (s\<lparr>st_precheck_result := Some r\<rparr>) w'
           = (Inr (s\<lparr>st_precheck_result := Some r, st_error_message := Some (str_exn e),
                     st_next := END\<rparr>), w')"
    using f by (simp add: format_content_eq)
  show "save_to_notion env self
           (s\<lparr>st_precheck_result := Some r, st_error_message := Some (str_exn e),
              st_next := END\<rparr>) w'
           = (Inr (format_failed_state s r),
              sm_report b (format_empty_call (st_status_message_id s))
                (sm_report b (saving_call (st_status_message_id s)) w'))"
    by (rule save_after_format_failure[OF a fe])
qed (simp_all add: ainvoke_format_raises[OF a r f fe] precheck_calls_def saving_call_def
       format_empty_call_def)

theorem format_failure_ends_at_save_guard_witness:
  "fst ex_run_format_down = Inl (Exception txt_key_error_end)
   \<and> fst (save_to_notion ex_env_format_down ex_agent
            (ex_state_start\<lparr>st_precheck_result := Some ex_precheck,
                            st_error_message := Some (asc ''outer: inner''),
                            st_next := END\<rparr>) ex_world_tracking)
       = Inr (format_failed_state ex_state_start ex_precheck)
   \<and> nodes_run (snd ex_run_format_down) = [Precheck, FormatContent, SaveNotion]
   \<and> store_calls (snd ex_run_format_down) = []
   \<and> status_calls (snd ex_run_format_down)
       = precheck_calls (Some (asc ''7'')) ex_precheck
         @ [saving_call (Some (asc ''7'')), format_empty_call (Some (asc ''7''))]"
  using format_failure_ends_at_save_guard[OF ex_format_down_facts(1-4),
          of ex_world_tracking True ex_world_tracking]
    ex_format_down_facts(5-7)
  by (simp add: ex_run_format_down_def ex_world_tracking_def ex_world_def)

text \<open>
  C5 as stated fails. With a formatter that raises "outer: inner", SAVE_NOTION runs and
  edits the status message twice, the second time with the text of its guard; the graph
  then raises the key error of C4, which \<open>process\<close> shows in a last edit. "inner" occurs
  in neither text.
\<close>

theorem format_failure_reaches_save_notion:
  "simplify_error (asc ''outer: inner'') = asc ''inner''
   \<and> fst ex_process_format_down = Inr (Error txt_key_error_end)
   \<and> nodes_run (snd ex_process_format_down) = [Precheck, FormatContent, SaveNotion]
   \<and> drop 3 (transport (snd ex_process_format_down))
       = [EditText ex_status_message (rendered (saving_call (Some (asc ''7'')))),
          EditText ex_status_message (txt_cross @ txt_format_empty),
          EditText ex_status_message (txt_cross @ txt_key_error_end)]
   \<and> \<not> py_in (asc ''inner'') (txt_cross @ txt_format_empty)
   \<and> \<not> py_in (asc ''inner'') (txt_cross @ txt_key_error_end)"
proof -
  let ?A = "ainvoke True ex_env_format_down ex_agent_started ex_state_start ex_world_started"
  note ss = ex_state_start_simps
  note inv = ainvoke_format_raises[OF ex_format_down_started(1) ex_format_down_facts(2)
               ex_format_down_started(2) ex_format_down_facts(4), of True ex_world_started]
  have beg: "process_begin ex_env_format_down ex_agent_silent ex_message None
               (Some (TelegramStateManager (Some ex_bot))) ex_world
             = (Inr (ex_agent_started, Some (asc ''7'')), ex_world_started)"
    by (rule ex_process_begin) (simp add: ex_env_format_down_def ex_env_def)
  have a: "truthy (Some (asc ''7'')) \<longrightarrow>
             telegram_status_updater ex_agent_started = Some (TelegramStateManager (Some ex_bot))"
    by (simp add: ex_agent_started_def)
  have invf: "fst (ainvoke True ex_env_format_down ex_agent_started
                     (initial_state ex_message None (Some (asc ''7''))) ex_world_started)
                = Inl (Exception txt_key_error_end)"
    using inv by (simp add: ss(2))
  have p: "ex_process_format_down
             = (Inr (Error txt_key_error_end),
                sm_report (Some ex_bot) (key_error_call (Some (asc ''7''))) (snd ?A))"
    using process_raises_eq[OF beg a invf]
    by (simp add: ex_process_format_down_def ss(2) simplify_error_key_error key_error_call_def)
  have s: "simplify_error (asc ''outer: inner'') = asc ''inner''"
    by (simp add: simplify_error_def asc_def py_split_def startswith_def)
  have n1: "\<not> py_in (asc ''inner'') (txt_cross @ txt_format_empty)"
    by (simp add: asc_def txt_cross_def txt_format_empty_def startswith_def)
  have n2: "\<not> py_in (asc ''inner'') (txt_cross @ txt_key_error_end)"
    by (simp add: asc_def txt_cross_def txt_key_error_end_def startswith_def)
  have ws: "nodes_run ex_world_started = []"
    "transport ex_world_started
       = [SendMessage (asc ''9'') (rendered start_call) (ReplyStr (asc ''41''))]"
    "status_messages ex_world_started (asc ''7'') = Some ex_status_message"
    by (simp_all add: ex_world_started_def ex_world_def)
  have t: "drop 3 (transport (snd ex_process_format_down))
       = [EditText ex_status_message (rendered (saving_call (Some (asc ''7'')))),
          EditText ex_status_message (txt_cross @ txt_format_empty),
          EditText ex_status_message (txt_cross @ txt_key_error_end)]"
    using ss(4) ws ex_format_down_facts(5)
    by (simp add: p inv ss(1) precheck_calls_def call_ops_def edit_ops_def saving_call_def
        format_empty_call_def key_error_call_def)
  have nr: "nodes_run (snd ex_process_format_down) = [Precheck, FormatContent, SaveNotion]"
    using ws ex_format_down_facts(5) by (simp add: p inv)
  have f: "fst ex_process_format_down = Inr (Error txt_key_error_end)"
    by (simp add: p)
  show ?thesis using s f nr t n1 n2 by (intro conjI)
qed

subsection \<open>The report of CREATE_TASKS\<close>








lemma ex_state_tasks_simps:
  "get_or (st_tasks ex_state_tasks) [] = [ex_task_unknown, ex_task_b, ex_task_a]"
  "st_status_message_id ex_state_tasks = Some (asc ''7'')"
  "md_user_id (msg_metadata (st_message ex_state_tasks)) = Some (asc ''5'')"
  "asc ''7'' \<noteq> []"
  by (simp_all add: ex_state_tasks_def get_or_def initial_state_def ex_message_def asc_def)





subsection \<open>The batch of tasks\<close>

lemma create_finished_frame:
  assumes "status_calls w2 = status_calls w1" "transport w2 = transport w1"
    "status_messages w2 = status_messages w1"
  shows "fst (create_finished b env s w2) = fst (create_finished b env s w1)"
    "status_calls (snd (create_finished b env s w2)) = status_calls (snd (create_finished b env s w1))"
    "transport (snd (create_finished b env s w2)) = transport (snd (create_finished b env s w1))"
    "store_calls (snd (create_finished b env s w2)) = store_calls w2"
  using assms
  by (auto simp: create_finished_def create_failed_def split: sum.splits)

lemma unresolved_step:
  assumes "unresolved pm t"
  shows "create_one env uid pm t (rs, title) w
           = (Inr (rs @ [txt_project_not_found @ py_str env (project_name_of t)], title), w)"
  using assms
  by (cases t)
     (auto simp: create_one_eq unresolved_def project_name_of_def project_of_def and_then_def
        split: sum.splits)

lemma store_failure_step:
  assumes "project_of pm (JDict kvs) = Inr (pn, pid)"
    and "\<not> unresolved pm (JDict kvs)"
    and "parse_due_date env (dict_get kvs (asc ''dueDate'') JNull) = Inr d"
    and "add_task env (store_calls w) (task_args_of uid pid kvs d) = Inl e"
  shows "create_one env uid pm (JDict kvs) (rs, title) w
           = (Inr (rs @ [task_failed_text env (title_of (JDict kvs)) e],
                   Some (title_of (JDict kvs))),
              w\<lparr>store_calls := store_calls w @ [AddTask (task_args_of uid pid kvs d)]\<rparr>)"
  using assms
  by (auto simp: create_one_eq create_item_eq unresolved_def title_of_def)

lemma py_str_env:
  assumes "py_repr env' = py_repr env"
  shows "py_str env' = py_str env"
  by (rule ext) (simp add: py_str_def assms split: json.splits)

lemma parse_due_date_env:
  assumes "fromisoformat env' = fromisoformat env"
  shows "parse_due_date env' = parse_due_date env"
  by (rule ext) (simp add: parse_due_date_def assms split: json.splits)

lemma report_task_lines_env:
  assumes "fromisoformat env' = fromisoformat env" "py_repr env' = py_repr env"
  shows "report_task_lines env' n i t = report_task_lines env n i t"
  by (simp only: report_task_lines_def displayed_content_def py_str_env[OF assms(2)]
      parse_due_date_env[OF assms(1)])

lemma report_tasks_env:
  assumes "fromisoformat env' = fromisoformat env" "py_repr env' = py_repr env"
  shows "report_tasks env' n i ts = report_tasks env n i ts"
  by (induction ts arbitrary: i) (simp_all only: report_tasks.simps report_task_lines_env[OF assms])

lemma create_finished_env:
  assumes "fromisoformat env' = fromisoformat env" "py_repr env' = py_repr env"
  shows "create_finished b env' s w = create_finished b env s w"
  by (simp add: create_finished_def build_report_def report_tasks_env[OF assms])

lemma ex_tasks_looked_up:
  "looked_up pm ex_task_unknown" "looked_up pm ex_task_b" "looked_up pm ex_task_a"
  by (simp_all add: looked_up_def project_of_dict ex_task_unknown_def ex_task_b_def ex_task_a_def
      ex_items_unknown_def ex_items_b_def ex_items_a_def
      dict_get_def project_map_get_def asc_def split: sum.splits)

lemma ex_project_of:
  "project_of ex_project_map ex_task_unknown = Inr (JStr (asc ''Nowhere''), None)"
  "project_of ex_project_map ex_task_b = Inr (JStr (asc ''Shopping''), Some (asc ''p1''))"
  "project_of ex_project_map ex_task_a = Inr (JStr (asc ''Shopping''), Some (asc ''p1''))"
  by (simp_all add: project_of_dict ex_task_unknown_def ex_task_b_def ex_task_a_def dict_get_def
      ex_items_unknown_def ex_items_b_def ex_items_a_def
      project_map_get_def ex_project_map_def ex_env_def asc_def)

lemma ex_no_due_date:
  "parse_due_date ex_env (dict_get ex_items_unknown (asc ''dueDate'') JNull) = Inr None"
  "parse_due_date ex_env (dict_get ex_items_b (asc ''dueDate'') JNull) = Inr None"
  "parse_due_date ex_env (dict_get ex_items_a (asc ''dueDate'') JNull) = Inr None"
  by (simp_all add: parse_due_date_def dict_get_def ex_items_unknown_def ex_items_b_def
      ex_items_a_def asc_def)

lemma ex_names_not_empty: "asc ''p1'' \<noteq> []" "asc ''Nowhere'' \<noteq> []" "asc ''Shopping'' \<noteq> []"
  by (simp_all add: asc_def)

lemma ex_task_calls:
  "task_call ex_env (Some (asc ''5'')) ex_project_map ex_task_unknown = []"
  "task_call ex_env (Some (asc ''5'')) ex_project_map ex_task_b
     = [AddTask (task_args_of (Some (asc ''5'')) (Some (asc ''p1'')) ex_items_b None)]"
  "task_call ex_env (Some (asc ''5'')) ex_project_map ex_task_a
     = [AddTask (task_args_of (Some (asc ''5'')) (Some (asc ''p1'')) ex_items_a None)]"
  using ex_project_of ex_no_due_date ex_names_not_empty
  by (simp_all add: task_call_def ex_task_unknown_def ex_task_b_def ex_task_a_def)

lemma ex_store_down:
  "add_task ex_env h (task_args_of (Some (asc ''5'')) (Some (asc ''p1'')) ex_items_b None)
     = Inl (Exception (asc ''store: down''))"
  by (simp add: ex_env_def task_args_of_def dict_get_def ex_items_b_def asc_def)

text \<open>
  C6. With a non-empty batch and a configured task service, CREATE_TASKS runs the loop
  over the tasks of the state and then the report. A task whose project name is truthy
  and has no id adds the warning line to \<open>results\<close> and the loop goes on with the rest of
  the batch in the same world; a task for which the task store raises adds the failure
  line and the loop goes on with the rest in the world that holds the call. When every
  task is looked up (a dict with a hashable project name), the task store is called once
  for every task whose project resolves and whose due date parses, whatever happened to
  the tasks before it. The lines stay in \<open>results\<close>: the state that CREATE_TASKS returns,
  its status updates and its calls on the Bot are those of the report alone, which is
  built from the tasks of the state and not from \<open>results\<close>.
\<close>

theorem create_tasks_batch_isolation:
  assumes a: "truthy (st_status_message_id s) \<longrightarrow> telegram_status_updater self = Some (TelegramStateManager b)"
    and ne: "get_or (st_tasks s) [] \<noteq> []"
    and uid: "uid = md_user_id (msg_metadata (st_message s))"
    and cfg: "dida_service_configured env uid"
    and pm: "pm = map_of (rev (dida_projects env uid))"
    and w1: "w1 = sm_report b (creating_call (st_status_message_id s)) w"
  shows "create_tasks env self s w
           = (case create_loop env uid pm (get_or (st_tasks s) []) ([], None) w1 of
                (Inl e, w2) \<Rightarrow> create_failed b s e w2
              | (Inr vars, w2) \<Rightarrow> create_finished b env s w2)
     \<and> (unresolved pm t \<longrightarrow>
          create_loop env uid pm (t # rest) (rs, title) w'
            = create_loop env uid pm rest
                (rs @ [txt_project_not_found @ py_str env (project_name_of t)], title) w')
     \<and> (project_of pm (JDict kvs) = Inr (pn, pid) \<and> \<not> unresolved pm (JDict kvs)
          \<and> parse_due_date env (dict_get kvs (asc ''dueDate'') JNull) = Inr d
          \<and> add_task env (store_calls w') (task_args_of uid pid kvs d) = Inl e \<longrightarrow>
          create_loop env uid pm (JDict kvs # rest) (rs, title) w'
            = create_loop env uid pm rest
                (rs @ [task_failed_text env (title_of (JDict kvs)) e],
                 Some (title_of (JDict kvs)))
                (w'\<lparr>store_calls := store_calls w' @ [AddTask (task_args_of uid pid kvs d)]\<rparr>))
     \<and> (list_all (looked_up pm) (get_or (st_tasks s) []) \<longrightarrow>
          store_calls (snd (create_tasks env self s w))
            = store_calls w @ concat (map (task_call env uid pm) (get_or (st_tasks s) []))
          \<and> fst (create_tasks env self s w) = fst (create_finished b env s w1)
          \<and> status_calls (snd (create_tasks env self s w))
              = status_calls (snd (create_finished b env s w1))
          \<and> transport (snd (create_tasks env self s w))
              = transport (snd (create_finished b env s w1)))"
proof (intro conjI impI)
  let ?ts = "get_or (st_tasks s) []"
  show eq: "create_tasks env self s w
           = (case create_loop env uid pm ?ts ([], None) w1 of
                (Inl e, w2) \<Rightarrow> create_failed b s e w2
              | (Inr vars, w2) \<Rightarrow> create_finished b env s w2)"
    using ne cfg by (simp add: create_tasks_eq[OF a] Let_def uid pm w1 creating_call_def)
  {
    assume lk: "list_all (looked_up pm) ?ts"
    then have lk': "\<forall>t \<in> set ?ts. looked_up pm t" by (simp add: list_all_iff)
    obtain vars w2 where loop: "create_loop env uid pm ?ts ([], None) w1 = (Inr vars, w2)"
      using create_loop_looked_up[OF lk', of env uid "([], None)" w1]
      by (cases "create_loop env uid pm ?ts ([], None) w1") auto
    note fr = create_loop_frame[of env uid pm ?ts "([], None)" w1, unfolded loop snd_conv]
    have st: "store_calls w2 = store_calls w1 @ concat (map (task_call env uid pm) ?ts)"
      using create_loop_looked_up[OF lk', of env uid "([], None)" w1] loop by simp
    have fin: "create_tasks env self s w = create_finished b env s w2"
      using eq loop by simp
    note ff = create_finished_frame[of w2 w1 b env s]
    show "store_calls (snd (create_tasks env self s w))
            = store_calls w @ concat (map (task_call env uid pm) ?ts)"
      using ff(4) fr st by (simp add: fin w1)
    show "fst (create_tasks env self s w) = fst (create_finished b env s w1)"
      using ff(1) fr by (simp add: fin)
    show "status_calls (snd (create_tasks env self s w))
              = status_calls (snd (create_finished b env s w1))"
      using ff(2) fr by (simp add: fin)
    show "transport (snd (create_tasks env self s w))
              = transport (snd (create_finished b env s w1))"
      using ff(3) fr by (simp add: fin)
  }
next
  assume "unresolved pm t"
  then show "create_loop env uid pm (t # rest) (rs, title) w'
            = create_loop env uid pm rest
                (rs @ [txt_project_not_found @ py_str env (project_name_of t)], title) w'"
    by (simp add: io_bind_def unresolved_step)
next
  assume "project_of pm (JDict kvs) = Inr (pn, pid) \<and> \<not> unresolved pm (JDict kvs)
          \<and> parse_due_date env (dict_get kvs (asc ''dueDate'') JNull) = Inr d
          \<and> add_task env (store_calls w') (task_args_of uid pid kvs d) = Inl e"
  then show "create_loop env uid pm (JDict kvs # rest) (rs, title) w'
            = create_loop env uid pm rest
                (rs @ [task_failed_text env (title_of (JDict kvs)) e],
                 Some (title_of (JDict kvs)))
                (w'\<lparr>store_calls := store_calls w' @ [AddTask (task_args_of uid pid kvs d)]\<rparr>)"
    by (simp add: io_bind_def store_failure_step)
qed

theorem create_tasks_batch_isolation_witness:
  "unresolved ex_project_map ex_task_unknown
   \<and> create_loop ex_env (Some (asc ''5'')) ex_project_map
         [ex_task_unknown, ex_task_b, ex_task_a] ([], None) ex_world
       = create_loop ex_env (Some (asc ''5'')) ex_project_map [ex_task_b, ex_task_a]
           ([txt_project_not_found @ asc ''Nowhere''], None) ex_world
   \<and> add_task ex_env (store_calls ex_world)
         (task_args_of (Some (asc ''5'')) (Some (asc ''p1'')) ex_items_b None)
       = Inl (Exception (asc ''store: down''))
   \<and> create_loop ex_env (Some (asc ''5'')) ex_project_map [ex_task_b, ex_task_a]
         ([txt_project_not_found @ asc ''Nowhere''], None) ex_world
       = create_loop ex_env (Some (asc ''5'')) ex_project_map [ex_task_a]
           ([txt_project_not_found @ asc ''Nowhere'',
             task_failed_text ex_env (JStr (asc ''B'')) (Exception (asc ''store: down''))],
            Some (JStr (asc ''B'')))
           (ex_world\<lparr>store_calls :=
              [AddTask (task_args_of (Some (asc ''5'')) (Some (asc ''p1'')) ex_items_b None)]\<rparr>)
   \<and> store_calls (snd (create_tasks ex_env ex_agent ex_state_tasks ex_world_tracking))
       = [AddTask (task_args_of (Some (asc ''5'')) (Some (asc ''p1'')) ex_items_b None),
          AddTask (task_args_of (Some (asc ''5'')) (Some (asc ''p1'')) ex_items_a None)]
   \<and> fst (create_tasks ex_env ex_agent ex_state_tasks ex_world_tracking)
       = fst (create_tasks ex_env_all_created ex_agent ex_state_tasks ex_world_tracking)
   \<and> status_calls (snd (create_tasks ex_env ex_agent ex_state_tasks ex_world_tracking))
       = status_calls (snd (create_tasks ex_env_all_created ex_agent ex_state_tasks ex_world_tracking))
   \<and> transport (snd (create_tasks ex_env ex_agent ex_state_tasks ex_world_tracking))
       = transport (snd (create_tasks ex_env_all_created ex_agent ex_state_tasks ex_world_tracking))"
proof -
  note st = ex_state_tasks_simps
  let ?uid = "Some (asc ''5'')"
  let ?w1 = "sm_report (Some ex_bot) (creating_call (st_status_message_id ex_state_tasks))
               ex_world_tracking"
  let ?pm' = "map_of (rev (dida_projects ex_env_all_created ?uid))"
  have a: "truthy (st_status_message_id ex_state_tasks) \<longrightarrow>
           telegram_status_updater ex_agent = Some (TelegramStateManager (Some ex_bot))"
    by (simp add: ex_agent_def)
  have ne: "get_or (st_tasks ex_state_tasks) [] \<noteq> []" by (simp add: st)
  have uid: "?uid = md_user_id (msg_metadata (st_message ex_state_tasks))" by (simp add: st)
  have cfg: "dida_service_configured ex_env ?uid" by (simp add: ex_env_def)
  have cfg': "dida_service_configured ex_env_all_created ?uid"
    by (simp add: ex_env_all_created_def ex_env_def)
  have pm: "ex_project_map = map_of (rev (dida_projects ex_env ?uid))"
    by (simp add: ex_project_map_def)
  have u: "unresolved ex_project_map ex_task_unknown"
    using ex_names_not_empty by (simp add: unresolved_def ex_project_of)
  have nu: "\<not> unresolved ex_project_map (JDict ex_items_b)"
    using ex_project_of(2) ex_names_not_empty by (simp add: unresolved_def ex_task_b_def)
  have pb: "project_of ex_project_map (JDict ex_items_b) = Inr (JStr (asc ''Shopping''), Some (asc ''p1''))"
    using ex_project_of(2) by (simp add: ex_task_b_def)
  note db = ex_no_due_date(2)
  have lk: "list_all (looked_up ex_project_map) (get_or (st_tasks ex_state_tasks) [])"
    "list_all (looked_up ?pm') (get_or (st_tasks ex_state_tasks) [])"
    by (simp_all add: st ex_tasks_looked_up)
  have env': "fromisoformat ex_env_all_created = fromisoformat ex_env"
    "py_repr ex_env_all_created = py_repr ex_env"
    by (simp_all add: ex_env_all_created_def)
  have names: "py_str ex_env (project_name_of ex_task_unknown) = asc ''Nowhere''"
    "title_of (JDict ex_items_b) = JStr (asc ''B'')"
    by (simp_all add: py_str_def project_name_of_def title_of_def ex_task_unknown_def
        ex_items_unknown_def ex_items_b_def dict_get_def asc_def)
  have sw: "store_calls ex_world = []" "store_calls ex_world_tracking = []"
    by (simp_all add: ex_world_tracking_def ex_world_def)
  note t1 = create_tasks_batch_isolation[OF a ne uid cfg pm refl,
      where t=ex_task_unknown and rest="[ex_task_b, ex_task_a]" and rs="[]" and title=None
        and w'=ex_world and w=ex_world_tracking
        and kvs=ex_items_b and pn="JStr (asc ''Shopping'')" and pid="Some (asc ''p1'')"
        and d=None and e="Exception (asc ''store: down'')"]
  note t2 = create_tasks_batch_isolation[OF a ne uid cfg pm refl,
      where kvs=ex_items_b and pn="JStr (asc ''Shopping'')" and pid="Some (asc ''p1'')"
        and d=None and e="Exception (asc ''store: down'')" and rest="[ex_task_a]"
        and rs="[txt_project_not_found @ asc ''Nowhere'']" and title=None
        and w'=ex_world and w=ex_world_tracking and t=ex_task_unknown]
  note t3 = create_tasks_batch_isolation[OF a ne uid cfg' refl refl,
      where t=ex_task_unknown and rest="[]" and rs="[]" and title=None
        and w'=ex_world and w=ex_world_tracking
        and kvs=ex_items_b and pn="JStr (asc ''Shopping'')" and pid="Some (asc ''p1'')"
        and d=None and e="Exception (asc ''store: down'')"]
  have b1: "create_loop ex_env ?uid ex_project_map
              [ex_task_unknown, ex_task_b, ex_task_a] ([], None) ex_world
            = create_loop ex_env ?uid ex_project_map [ex_task_b, ex_task_a]
                ([txt_project_not_found @ asc ''Nowhere''], None) ex_world"
    using t1[THEN conjunct2, THEN conjunct1] u by (simp only: names append_Nil)
  have sd: "add_task ex_env (store_calls ex_world)
              (task_args_of ?uid (Some (asc ''p1'')) ex_items_b None)
            = Inl (Exception (asc ''store: down''))"
    by (rule ex_store_down)
  have b2: "create_loop ex_env ?uid ex_project_map [ex_task_b, ex_task_a]
              ([txt_project_not_found @ asc ''Nowhere''], None) ex_world
            = create_loop ex_env ?uid ex_project_map [ex_task_a]
                ([txt_project_not_found @ asc ''Nowhere'',
                  task_failed_text ex_env (JStr (asc ''B'')) (Exception (asc ''store: down''))],
                 Some (JStr (asc ''B'')))
                (ex_world\<lparr>store_calls :=
                   [AddTask (task_args_of ?uid (Some (asc ''p1'')) ex_items_b None)]\<rparr>)"
    using t2[THEN conjunct2, THEN conjunct2, THEN conjunct1] pb nu db sd
    by (simp only: names sw ex_task_b_def append_Nil append_Cons simp_thms)
  note d1 = t1[THEN conjunct2, THEN conjunct2, THEN conjunct2, rule_format, OF lk(1)]
  note d2 = t3[THEN conjunct2, THEN conjunct2, THEN conjunct2, rule_format, OF lk(2)]
  have same: "create_finished (Some ex_bot) ex_env_all_created ex_state_tasks ?w1
                = create_finished (Some ex_bot) ex_env ex_state_tasks ?w1"
    by (rule create_finished_env[OF env'])
  have sc: "store_calls (snd (create_tasks ex_env ex_agent ex_state_tasks ex_world_tracking))
       = [AddTask (task_args_of ?uid (Some (asc ''p1'')) ex_items_b None),
          AddTask (task_args_of ?uid (Some (asc ''p1'')) ex_items_a None)]"
    using d1 by (simp add: st(1) ex_task_calls sw)
  have e1: "fst (create_tasks ex_env ex_agent ex_state_tasks ex_world_tracking)
       = fst (create_tasks ex_env_all_created ex_agent ex_state_tasks ex_world_tracking)"
    using d1 d2 same by simp
  have e2: "status_calls (snd (create_tasks ex_env ex_agent ex_state_tasks ex_world_tracking))
       = status_calls (snd (create_tasks ex_env_all_created ex_agent ex_state_tasks ex_world_tracking))"
    using d1 d2 same by simp
  have e3: "transport (snd (create_tasks ex_env ex_agent ex_state_tasks ex_world_tracking))
       = transport (snd (create_tasks ex_env_all_created ex_agent ex_state_tasks ex_world_tracking))"
    using d1 d2 same by simp
  show ?thesis
    using u b1 sd b2 sc e1 e2 e3 by (intro conjI)
qed

end
